(* ===== verification/Prelude.thy ===== *)
theory Prelude
  imports Main
begin

text \<open>
  Shared vocabulary of the development.  Every query of \<open>db.rs\<close> is a pure
  function of an immutable host context; the only effects it has are the
  panics of the Rust code (\<open>unwrap\<close>, \<open>expect\<close>, \<open>bug!\<close>,
  \<open>unimplemented!\<close>, out-of-range slice indexing).  They are modelled as
  values of the result type \<open>'a res = err + 'a\<close>, the error being
  \<open>Inl\<close>.  This theory holds that type, its bind and list traversal (Rust's
  \<open>map(..).collect()\<close> over code that can panic), the checked slice
  index, and the generic list lemmas the components share.
\<close>

section \<open>Identities and results\<close>

type_synonym def_id = nat

text \<open>The panics of the source, one constructor per kind of failure.\<close>

datatype err =
    ESubstParam      \<comment> \<open>\<open>SubstFolder\<close>: a parameter with no substitution of its kind\<close>
  | ELowerParam      \<comment> \<open>lowering met a parameter that should have been substituted\<close>
  | EIndex           \<comment> \<open>slice index out of range or \<open>usize\<close> underflow\<close>
  | EUnwrap          \<comment> \<open>\<open>unwrap\<close>/\<open>expect\<close> on \<open>None\<close>\<close>
  | ENotPossible     \<comment> \<open>\<open>unimplemented!("Not possible??")\<close>\<close>
  | EBadClosureKind  \<comment> \<open>\<open>bug!("bad closure kind")\<close>\<close>
  | EInvalidSig      \<comment> \<open>\<open>panic!("Invalid sig.")\<close>\<close>
  | EUntupled        \<comment> \<open>\<open>bug!("Expecting closure FnSig args to be tupled.")\<close>\<close>
  | ENotTy           \<comment> \<open>\<open>assert_ty_ref\<close> on an argument that is not a type\<close>
  | EParamIndex      \<comment> \<open>\<open>assert_eq!(param.index, substs.len())\<close> of \<open>for_item\<close>\<close>
  | EUnimplemented   \<comment> \<open>\<open>unimplemented!()\<close>\<close>

type_synonym 'a res = "err + 'a"

definition bind_res :: "'a res \<Rightarrow> ('a \<Rightarrow> 'b res) \<Rightarrow> 'b res" where
  "bind_res m f = (case m of Inl e \<Rightarrow> Inl e | Inr a \<Rightarrow> f a)"

text \<open>\<open>xs.iter().map(f).collect()\<close> where \<open>f\<close> may panic: the first panic wins.\<close>

fun map_res :: "('a \<Rightarrow> 'b res) \<Rightarrow> 'a list \<Rightarrow> 'b list res" where
  "map_res f [] = Inr []"
| "map_res f (x # xs) = bind_res (f x) (\<lambda>y. bind_res (map_res f xs) (\<lambda>ys. Inr (y # ys)))"

text \<open>\<open>opt.expect(..)\<close> / \<open>opt.unwrap()\<close>.\<close>

definition expect_res :: "'a option \<Rightarrow> 'a res" where
  "expect_res x = (case x of None \<Rightarrow> Inl EUnwrap | Some a \<Rightarrow> Inr a)"

text \<open>Rust slice indexing \<open>xs[i]\<close>: a panic out of range.\<close>

definition nth_res :: "'a list \<Rightarrow> nat \<Rightarrow> 'a res" where
  "nth_res xs i = (if i < length xs then Inr (xs ! i) else Inl EIndex)"

text \<open>\<open>xs.len() - k\<close> on \<open>usize\<close>: a panic (debug) on underflow.\<close>

definition usize_sub :: "nat \<Rightarrow> nat \<Rightarrow> nat res" where
  "usize_sub a b = (if b \<le> a then Inr (a - b) else Inl EIndex)"

text \<open>\<open>iter.filter(p).collect()\<close> with a predicate that may panic: the
  elements are tested in order and the first panic wins.\<close>

fun filter_res :: "('a \<Rightarrow> bool res) \<Rightarrow> 'a list \<Rightarrow> 'a list res" where
  "filter_res P [] = Inr []"
| "filter_res P (x # xs) =
     bind_res (P x) (\<lambda>b. bind_res (filter_res P xs) (\<lambda>ys. Inr (if b then x # ys else ys)))"

section \<open>Automation\<close>

named_theorems res_simps "evaluation rules for the result type"

lemma bind_res_Inl [simp, res_simps]: "bind_res (Inl e) f = Inl e"
  by (simp add: bind_res_def)

lemma bind_res_Inr [simp, res_simps]: "bind_res (Inr a) f = f a"
  by (simp add: bind_res_def)

lemma bind_res_eq_Inr [res_simps]:
  "bind_res m f = Inr b \<longleftrightarrow> (\<exists>a. m = Inr a \<and> f a = Inr b)"
  by (cases m) simp_all

lemma bind_res_eq_Inl [res_simps]:
  "bind_res m f = Inl e \<longleftrightarrow> m = Inl e \<or> (\<exists>a. m = Inr a \<and> f a = Inl e)"
  by (cases m) simp_all

lemma expect_res_simps [simp, res_simps]:
  "expect_res None = Inl EUnwrap" "expect_res (Some a) = Inr a"
  by (simp_all add: expect_res_def)

lemma map_res_Inr_iff:
  "map_res f xs = Inr ys \<longleftrightarrow> list_all2 (\<lambda>x y. f x = Inr y) xs ys"
proof (induction xs arbitrary: ys)
  case Nil
  then show ?case by auto
next
  case (Cons x xs)
  then show ?case
    by (cases ys) (auto simp: bind_res_eq_Inr)
qed

lemma map_res_length: "map_res f xs = Inr ys \<Longrightarrow> length ys = length xs"
  by (auto simp: map_res_Inr_iff dest: list_all2_lengthD)

lemma map_res_nth:
  "map_res f xs = Inr ys \<Longrightarrow> i < length xs \<Longrightarrow> f (xs ! i) = Inr (ys ! i)"
  by (auto simp: map_res_Inr_iff list_all2_conv_all_nth)

lemma map_res_total [res_simps]: "map_res (\<lambda>x. Inr (g x)) xs = Inr (map g xs)"
  by (induction xs) simp_all

lemma map_res_cong_Inr:
  "(\<And>x. x \<in> set xs \<Longrightarrow> f x = Inr (g x)) \<Longrightarrow> map_res f xs = Inr (map g xs)"
  by (induction xs) simp_all

lemma map_res_Inl_ex:
  "map_res f xs = Inl e \<Longrightarrow> \<exists>x\<in>set xs. f x = Inl e"
proof (induction xs)
  case Nil
  then show ?case by simp
next
  case (Cons x xs)
  then show ?case
    by (cases "f x"; cases "map_res f xs") auto
qed

lemma map_res_Inr_ex:
  "(\<And>x. x \<in> set xs \<Longrightarrow> \<exists>y. f x = Inr y) \<Longrightarrow> \<exists>ys. map_res f xs = Inr ys"
proof (induction xs)
  case Nil
  then show ?case by simp
next
  case (Cons x xs)
  then obtain y ys where "f x = Inr y" "map_res f xs = Inr ys" by fastforce
  then show ?case by simp
qed

lemma nth_res_simps [res_simps]:
  "i < length xs \<Longrightarrow> nth_res xs i = Inr (xs ! i)"
  "length xs \<le> i \<Longrightarrow> nth_res xs i = Inl EIndex"
  by (simp_all add: nth_res_def)

lemma usize_sub_simps [res_simps]:
  "b \<le> a \<Longrightarrow> usize_sub a b = Inr (a - b)"
  "a < b \<Longrightarrow> usize_sub a b = Inl EIndex"
  by (simp_all add: usize_sub_def)

lemma usize_sub_eq_Inr [res_simps]: "usize_sub a b = Inr n \<longleftrightarrow> b \<le> a \<and> n = a - b"
  by (auto simp: usize_sub_def)

section \<open>Panics\<close>

text \<open>Which panics an operation can raise: one lemma \<open>f x = Inl e \<Longrightarrow> e \<in> E\<close>
  per operation, collected so that a composite operation's set follows from
  its parts by \<open>auto dest: panics\<close>.\<close>

named_theorems panics "the panics each operation can raise"

lemma expect_res_raises [panics]: "expect_res x = Inl e \<Longrightarrow> e = EUnwrap"
  by (cases x) simp_all

lemma nth_res_raises [panics]: "nth_res xs i = Inl e \<Longrightarrow> e = EIndex \<and> length xs \<le> i"
  by (simp add: nth_res_def split: if_splits)

lemma usize_sub_raises [panics]: "usize_sub a b = Inl e \<Longrightarrow> e = EIndex \<and> a < b"
  by (simp add: usize_sub_def split: if_splits)

lemma map_res_raises [panics]: "map_res f xs = Inl e \<Longrightarrow> \<exists>x\<in>set xs. f x = Inl e"
  by (rule map_res_Inl_ex)

lemma filter_res_raises [panics]: "filter_res P xs = Inl e \<Longrightarrow> \<exists>x\<in>set xs. P x = Inl e"
proof (induction xs)
  case (Cons x xs)
  then show ?case by (cases "P x"; cases "filter_res P xs") auto
qed simp

section \<open>Lists\<close>

text \<open>Rust's \<open>filter_map\<close> is \<open>List.map_filter\<close>.\<close>

lemma length_map_filter_le: "length (List.map_filter f xs) \<le> length xs"
  by (induction xs) (auto split: option.splits)

lemma length_map_filter_eq:
  "length (List.map_filter f xs) = length (filter (\<lambda>x. f x \<noteq> None) xs)"
  by (simp add: List.map_filter_def)

lemma map_filter_all_Some:
  "(\<And>x. x \<in> set xs \<Longrightarrow> f x = Some (g x)) \<Longrightarrow> List.map_filter f xs = map g xs"
  by (induction xs) simp_all

lemma map_filter_id_map: "List.map_filter id (map f xs) = List.map_filter f xs"
  by (induction xs) (simp_all split: option.splits)

lemma set_map_filter: "set (List.map_filter f xs) = {y. \<exists>x\<in>set xs. f x = Some y}"
  by (induction xs) (auto split: option.splits)

lemma filter_res_Inr:
  "filter_res P xs = Inr ys \<longleftrightarrow>
     (\<forall>x\<in>set xs. \<exists>b. P x = Inr b) \<and> ys = filter (\<lambda>x. P x = Inr True) xs"
proof (induction xs arbitrary: ys)
  case Nil
  then show ?case by auto
next
  case (Cons x xs)
  show ?case
    by (cases "P x") (auto simp: Cons.IH bind_res_eq_Inr)
qed

end
