(* ===== verification/Rust_Ty.thy ===== *)
theory Rust_Ty
  imports Prelude
begin

text \<open>
  The host compiler's type language (rustc's \<open>ty::TyKind\<close>, \<open>Region\<close>,
  \<open>Const\<close>, \<open>GenericArg\<close> and \<open>Predicate\<close>), restricted to the forms that
  \<open>db.rs\<close> inspects or produces.  Bound variables are de Bruijn pairs
  \<open>(debruijn, var)\<close>: the first component counts the binders between the
  occurrence and its binder, the second is the slot in that binder.  Two
  library folders of rustc that \<open>db.rs\<close> calls are modelled here from the
  specification: \<open>shift_vars\<close> (the \<open>Shifter\<close>) and
  \<open>EarlyBinder::subst\<close> (the \<open>SubstFolder\<close>), which replaces each generic
  parameter by its substitution and shifts the replacement through the binders
  it passes.
\<close>

section \<open>Types, regions, constants, generic arguments\<close>

datatype int_ty = Isize | I8 | I16 | I32 | I64 | I128
datatype uint_ty = Usize | U8 | U16 | U32 | U64 | U128
datatype float_ty = F32 | F64
datatype mutability = Mut | NotMut

datatype region =
    ReEarlyBound nat          \<comment> \<open>a generic lifetime parameter, by index\<close>
  | ReLateBound nat nat       \<comment> \<open>bound region: debruijn, var\<close>
  | ReStatic
  | ReErased

datatype ty =
    TBool | TChar | TInt int_ty | TUint uint_ty | TFloat float_ty
  | TAdt def_id "garg list"
  | TForeign def_id
  | TStr
  | TArray ty konst
  | TSlice ty
  | TRawPtr ty mutability
  | TRef region ty mutability
  | TFnDef def_id "garg list"
  | TFnPtr nat "ty list"      \<comment> \<open>binder of \<open>n\<close> late-bound regions, inputs and output\<close>
  | TClosure def_id "garg list"
  | TNever
  | TTuple "ty list"
  | TProjection def_id "garg list"
  | TOpaque def_id "garg list"
  | TParam nat                \<comment> \<open>a generic type parameter, by index\<close>
  | TBound nat nat            \<comment> \<open>bound type: debruijn, var\<close>
  | TError
and garg = is_GTy: GTy ty | is_GLt: GLt region | is_GConst: GConst konst
and konst =
    KParam nat ty             \<comment> \<open>a const generic parameter and its type\<close>
  | KBound nat nat ty
  | KValue nat ty

text \<open>
  A predicate is a binder of \<open>n\<close> late-bound regions around a predicate kind
  (rustc's \<open>Binder<PredicateKind>\<close>).
\<close>

datatype pred_kind =
    PTrait def_id "garg list"            \<comment> \<open>trait reference; the self type is the first argument\<close>
  | PRegionOutlives region region
  | PTypeOutlives ty region
  | PProjection def_id "garg list" ty    \<comment> \<open>\<open><..>::Item == ty\<close>\<close>
  | PWellFormed garg
  | PObjectSafe def_id
  | PClosureKind def_id "garg list"
  | PConstEvaluatable konst

datatype predicate = Predicate nat pred_kind

text \<open>Generic parameters of an item (\<open>GenericParamDef\<close>).\<close>

datatype param_kind = PKType | PKLifetime | PKConst ty

record generic_param =
  gp_index :: nat
  gp_kind :: param_kind

section \<open>Shifting bound variables (\<open>ty::fold::shift_vars\<close>)\<close>

text \<open>\<open>shift_ty d c\<close> adds \<open>d\<close> to every bound variable whose debruijn
  index is at least the current binder level \<open>c\<close>; entering a binder raises
  the level.\<close>

primrec shift_region :: "nat \<Rightarrow> nat \<Rightarrow> region \<Rightarrow> region" where
  "shift_region d c (ReEarlyBound i) = ReEarlyBound i"
| "shift_region d c (ReLateBound db v) = ReLateBound (if c \<le> db then db + d else db) v"
| "shift_region d c ReStatic = ReStatic"
| "shift_region d c ReErased = ReErased"

primrec shift_ty :: "nat \<Rightarrow> nat \<Rightarrow> ty \<Rightarrow> ty"
  and shift_garg :: "nat \<Rightarrow> nat \<Rightarrow> garg \<Rightarrow> garg"
  and shift_konst :: "nat \<Rightarrow> nat \<Rightarrow> konst \<Rightarrow> konst" where
  "shift_ty d c TBool = TBool"
| "shift_ty d c TChar = TChar"
| "shift_ty d c (TInt i) = TInt i"
| "shift_ty d c (TUint u) = TUint u"
| "shift_ty d c (TFloat f) = TFloat f"
| "shift_ty d c (TAdt a gs) = TAdt a (map (\<lambda>g. shift_garg d c g) gs)"
| "shift_ty d c (TForeign a) = TForeign a"
| "shift_ty d c TStr = TStr"
| "shift_ty d c (TArray t k) = TArray (shift_ty d c t) (shift_konst d c k)"
| "shift_ty d c (TSlice t) = TSlice (shift_ty d c t)"
| "shift_ty d c (TRawPtr t m) = TRawPtr (shift_ty d c t) m"
| "shift_ty d c (TRef r t m) = TRef (shift_region d c r) (shift_ty d c t) m"
| "shift_ty d c (TFnDef a gs) = TFnDef a (map (\<lambda>g. shift_garg d c g) gs)"
| "shift_ty d c (TFnPtr n ts) = TFnPtr n (map (\<lambda>t. shift_ty d (Suc c) t) ts)"
| "shift_ty d c (TClosure a gs) = TClosure a (map (\<lambda>g. shift_garg d c g) gs)"
| "shift_ty d c TNever = TNever"
| "shift_ty d c (TTuple ts) = TTuple (map (\<lambda>t. shift_ty d c t) ts)"
| "shift_ty d c (TProjection a gs) = TProjection a (map (\<lambda>g. shift_garg d c g) gs)"
| "shift_ty d c (TOpaque a gs) = TOpaque a (map (\<lambda>g. shift_garg d c g) gs)"
| "shift_ty d c (TParam i) = TParam i"
| "shift_ty d c (TBound db v) = TBound (if c \<le> db then db + d else db) v"
| "shift_ty d c TError = TError"
| "shift_garg d c (GTy t) = GTy (shift_ty d c t)"
| "shift_garg d c (GLt r) = GLt (shift_region d c r)"
| "shift_garg d c (GConst k) = GConst (shift_konst d c k)"
| "shift_konst d c (KParam i t) = KParam i (shift_ty d c t)"
| "shift_konst d c (KBound db v t) = KBound (if c \<le> db then db + d else db) v (shift_ty d c t)"
| "shift_konst d c (KValue n t) = KValue n (shift_ty d c t)"

section \<open>Substituting generic parameters (\<open>EarlyBinder::subst\<close>)\<close>

text \<open>
  \<open>subst_ty k \<sigma> t\<close>: the \<open>SubstFolder\<close> after passing \<open>k\<close> binders.  A
  parameter \<open>i\<close> becomes \<open>\<sigma> ! i\<close> shifted by \<open>k\<close>
  (\<open>shift_vars_through_binders\<close>).  The folder panics when \<open>\<sigma>\<close> has no
  entry of the right kind at \<open>i\<close>; that check is \<open>ty_params_ok\<close> below,
  and the substitution leaves such a parameter unchanged.
\<close>

primrec subst_region :: "nat \<Rightarrow> garg list \<Rightarrow> region \<Rightarrow> region" where
  "subst_region k \<sigma> (ReEarlyBound i) =
     (if i < length \<sigma> then (case \<sigma> ! i of GLt r \<Rightarrow> shift_region k 0 r | _ \<Rightarrow> ReEarlyBound i)
      else ReEarlyBound i)"
| "subst_region k \<sigma> (ReLateBound db v) = ReLateBound db v"
| "subst_region k \<sigma> ReStatic = ReStatic"
| "subst_region k \<sigma> ReErased = ReErased"

primrec subst_ty :: "nat \<Rightarrow> garg list \<Rightarrow> ty \<Rightarrow> ty"
  and subst_garg :: "nat \<Rightarrow> garg list \<Rightarrow> garg \<Rightarrow> garg"
  and subst_konst :: "nat \<Rightarrow> garg list \<Rightarrow> konst \<Rightarrow> konst" where
  "subst_ty k \<sigma> TBool = TBool"
| "subst_ty k \<sigma> TChar = TChar"
| "subst_ty k \<sigma> (TInt i) = TInt i"
| "subst_ty k \<sigma> (TUint u) = TUint u"
| "subst_ty k \<sigma> (TFloat f) = TFloat f"
| "subst_ty k \<sigma> (TAdt a gs) = TAdt a (map (\<lambda>g. subst_garg k \<sigma> g) gs)"
| "subst_ty k \<sigma> (TForeign a) = TForeign a"
| "subst_ty k \<sigma> TStr = TStr"
| "subst_ty k \<sigma> (TArray t c) = TArray (subst_ty k \<sigma> t) (subst_konst k \<sigma> c)"
| "subst_ty k \<sigma> (TSlice t) = TSlice (subst_ty k \<sigma> t)"
| "subst_ty k \<sigma> (TRawPtr t m) = TRawPtr (subst_ty k \<sigma> t) m"
| "subst_ty k \<sigma> (TRef r t m) = TRef (subst_region k \<sigma> r) (subst_ty k \<sigma> t) m"
| "subst_ty k \<sigma> (TFnDef a gs) = TFnDef a (map (\<lambda>g. subst_garg k \<sigma> g) gs)"
| "subst_ty k \<sigma> (TFnPtr n ts) = TFnPtr n (map (\<lambda>t. subst_ty (Suc k) \<sigma> t) ts)"
| "subst_ty k \<sigma> (TClosure a gs) = TClosure a (map (\<lambda>g. subst_garg k \<sigma> g) gs)"
| "subst_ty k \<sigma> TNever = TNever"
| "subst_ty k \<sigma> (TTuple ts) = TTuple (map (\<lambda>t. subst_ty k \<sigma> t) ts)"
| "subst_ty k \<sigma> (TProjection a gs) = TProjection a (map (\<lambda>g. subst_garg k \<sigma> g) gs)"
| "subst_ty k \<sigma> (TOpaque a gs) = TOpaque a (map (\<lambda>g. subst_garg k \<sigma> g) gs)"
| "subst_ty k \<sigma> (TParam i) =
     (if i < length \<sigma> then (case \<sigma> ! i of GTy t \<Rightarrow> shift_ty k 0 t | _ \<Rightarrow> TParam i)
      else TParam i)"
| "subst_ty k \<sigma> (TBound db v) = TBound db v"
| "subst_ty k \<sigma> TError = TError"
| "subst_garg k \<sigma> (GTy t) = GTy (subst_ty k \<sigma> t)"
| "subst_garg k \<sigma> (GLt r) = GLt (subst_region k \<sigma> r)"
| "subst_garg k \<sigma> (GConst c) = GConst (subst_konst k \<sigma> c)"
| "subst_konst k \<sigma> (KParam i t) =
     (if i < length \<sigma> then (case \<sigma> ! i of GConst c \<Rightarrow> shift_konst k 0 c | _ \<Rightarrow> KParam i (subst_ty k \<sigma> t))
      else KParam i (subst_ty k \<sigma> t))"
| "subst_konst k \<sigma> (KBound db v t) = KBound db v (subst_ty k \<sigma> t)"
| "subst_konst k \<sigma> (KValue n t) = KValue n (subst_ty k \<sigma> t)"

text \<open>The folder's panics: every parameter has a substitution of its kind.\<close>

primrec region_params_ok :: "garg list \<Rightarrow> region \<Rightarrow> bool" where
  "region_params_ok \<sigma> (ReEarlyBound i) = (i < length \<sigma> \<and> is_GLt (\<sigma> ! i))"
| "region_params_ok \<sigma> (ReLateBound db v) = True"
| "region_params_ok \<sigma> ReStatic = True"
| "region_params_ok \<sigma> ReErased = True"

primrec ty_params_ok :: "garg list \<Rightarrow> ty \<Rightarrow> bool"
  and garg_params_ok :: "garg list \<Rightarrow> garg \<Rightarrow> bool"
  and konst_params_ok :: "garg list \<Rightarrow> konst \<Rightarrow> bool" where
  "ty_params_ok \<sigma> TBool = True"
| "ty_params_ok \<sigma> TChar = True"
| "ty_params_ok \<sigma> (TInt i) = True"
| "ty_params_ok \<sigma> (TUint u) = True"
| "ty_params_ok \<sigma> (TFloat f) = True"
| "ty_params_ok \<sigma> (TAdt a gs) = list_all (garg_params_ok \<sigma>) gs"
| "ty_params_ok \<sigma> (TForeign a) = True"
| "ty_params_ok \<sigma> TStr = True"
| "ty_params_ok \<sigma> (TArray t c) = (ty_params_ok \<sigma> t \<and> konst_params_ok \<sigma> c)"
| "ty_params_ok \<sigma> (TSlice t) = ty_params_ok \<sigma> t"
| "ty_params_ok \<sigma> (TRawPtr t m) = ty_params_ok \<sigma> t"
| "ty_params_ok \<sigma> (TRef r t m) = (region_params_ok \<sigma> r \<and> ty_params_ok \<sigma> t)"
| "ty_params_ok \<sigma> (TFnDef a gs) = list_all (garg_params_ok \<sigma>) gs"
| "ty_params_ok \<sigma> (TFnPtr n ts) = list_all (ty_params_ok \<sigma>) ts"
| "ty_params_ok \<sigma> (TClosure a gs) = list_all (garg_params_ok \<sigma>) gs"
| "ty_params_ok \<sigma> TNever = True"
| "ty_params_ok \<sigma> (TTuple ts) = list_all (ty_params_ok \<sigma>) ts"
| "ty_params_ok \<sigma> (TProjection a gs) = list_all (garg_params_ok \<sigma>) gs"
| "ty_params_ok \<sigma> (TOpaque a gs) = list_all (garg_params_ok \<sigma>) gs"
| "ty_params_ok \<sigma> (TParam i) = (i < length \<sigma> \<and> is_GTy (\<sigma> ! i))"
| "ty_params_ok \<sigma> (TBound db v) = True"
| "ty_params_ok \<sigma> TError = True"
| "garg_params_ok \<sigma> (GTy t) = ty_params_ok \<sigma> t"
| "garg_params_ok \<sigma> (GLt r) = region_params_ok \<sigma> r"
| "garg_params_ok \<sigma> (GConst c) = konst_params_ok \<sigma> c"
| "konst_params_ok \<sigma> (KParam i t) = (i < length \<sigma> \<and> is_GConst (\<sigma> ! i))"
| "konst_params_ok \<sigma> (KBound db v t) = ty_params_ok \<sigma> t"
| "konst_params_ok \<sigma> (KValue n t) = ty_params_ok \<sigma> t"

text \<open>Predicates: the predicate's own binder is passed before its kind is folded.\<close>

fun subst_pred_kind :: "nat \<Rightarrow> garg list \<Rightarrow> pred_kind \<Rightarrow> pred_kind" where
  "subst_pred_kind k \<sigma> (PTrait a gs) = PTrait a (map (subst_garg k \<sigma>) gs)"
| "subst_pred_kind k \<sigma> (PRegionOutlives r1 r2) = PRegionOutlives (subst_region k \<sigma> r1) (subst_region k \<sigma> r2)"
| "subst_pred_kind k \<sigma> (PTypeOutlives t r) = PTypeOutlives (subst_ty k \<sigma> t) (subst_region k \<sigma> r)"
| "subst_pred_kind k \<sigma> (PProjection a gs t) = PProjection a (map (subst_garg k \<sigma>) gs) (subst_ty k \<sigma> t)"
| "subst_pred_kind k \<sigma> (PWellFormed g) = PWellFormed (subst_garg k \<sigma> g)"
| "subst_pred_kind k \<sigma> (PObjectSafe a) = PObjectSafe a"
| "subst_pred_kind k \<sigma> (PClosureKind a gs) = PClosureKind a (map (subst_garg k \<sigma>) gs)"
| "subst_pred_kind k \<sigma> (PConstEvaluatable c) = PConstEvaluatable (subst_konst k \<sigma> c)"

fun pred_kind_params_ok :: "garg list \<Rightarrow> pred_kind \<Rightarrow> bool" where
  "pred_kind_params_ok \<sigma> (PTrait a gs) = list_all (garg_params_ok \<sigma>) gs"
| "pred_kind_params_ok \<sigma> (PRegionOutlives r1 r2) = (region_params_ok \<sigma> r1 \<and> region_params_ok \<sigma> r2)"
| "pred_kind_params_ok \<sigma> (PTypeOutlives t r) = (ty_params_ok \<sigma> t \<and> region_params_ok \<sigma> r)"
| "pred_kind_params_ok \<sigma> (PProjection a gs t) = (list_all (garg_params_ok \<sigma>) gs \<and> ty_params_ok \<sigma> t)"
| "pred_kind_params_ok \<sigma> (PWellFormed g) = garg_params_ok \<sigma> g"
| "pred_kind_params_ok \<sigma> (PObjectSafe a) = True"
| "pred_kind_params_ok \<sigma> (PClosureKind a gs) = list_all (garg_params_ok \<sigma>) gs"
| "pred_kind_params_ok \<sigma> (PConstEvaluatable c) = konst_params_ok \<sigma> c"

fun subst_pred :: "garg list \<Rightarrow> predicate \<Rightarrow> predicate" where
  "subst_pred \<sigma> (Predicate n p) = Predicate n (subst_pred_kind 1 \<sigma> p)"

fun pred_params_ok :: "garg list \<Rightarrow> predicate \<Rightarrow> bool" where
  "pred_params_ok \<sigma> (Predicate n p) = pred_kind_params_ok \<sigma> p"

text \<open>The checked forms: \<open>EarlyBinder(x).subst(tcx, \<sigma>)\<close> with its panic.\<close>

definition subst_ty_res :: "garg list \<Rightarrow> ty \<Rightarrow> ty res" where
  "subst_ty_res \<sigma> t = (if ty_params_ok \<sigma> t then Inr (subst_ty 0 \<sigma> t) else Inl ESubstParam)"

definition subst_pred_res :: "garg list \<Rightarrow> predicate \<Rightarrow> predicate res" where
  "subst_pred_res \<sigma> p = (if pred_params_ok \<sigma> p then Inr (subst_pred \<sigma> p) else Inl ESubstParam)"

definition subst_gargs_res :: "garg list \<Rightarrow> garg list \<Rightarrow> garg list res" where
  "subst_gargs_res \<sigma> gs =
     (if list_all (garg_params_ok \<sigma>) gs then Inr (map (subst_garg 0 \<sigma>) gs) else Inl ESubstParam)"

section \<open>Basic facts\<close>

lemma shift_zero:
  "shift_ty 0 c t = t" "shift_garg 0 c g = g" "shift_konst 0 c k = k"
proof (induction t and g and k arbitrary: c and c and c)
  case (TRef r t m)
  then show ?case by (cases r) simp_all
next
  case (GLt r)
  then show ?case by (cases r) simp_all
qed (simp_all add: map_idI)

lemma subst_region_no_params: "region_params_ok [] r \<Longrightarrow> subst_region k \<sigma> r = r"
  by (cases r) simp_all

text \<open>A term with no parameter left is not changed by a substitution, and no
  substitution panics on it.\<close>

lemma subst_no_params:
  "ty_params_ok [] t \<Longrightarrow> subst_ty k \<sigma> t = t"
  "garg_params_ok [] g \<Longrightarrow> subst_garg k \<sigma> g = g"
  "konst_params_ok [] c \<Longrightarrow> subst_konst k \<sigma> c = c"
  by (induction t and g and c arbitrary: k and k and k)
     (auto simp: list_all_iff subst_region_no_params intro: map_idI)

lemma params_ok_no_params:
  "ty_params_ok [] t \<Longrightarrow> ty_params_ok \<sigma> t"
  "garg_params_ok [] g \<Longrightarrow> garg_params_ok \<sigma> g"
  "konst_params_ok [] c \<Longrightarrow> konst_params_ok \<sigma> c"
proof (induction t and g and c)
  case (TRef r t m)
  then show ?case by (cases r) auto
next
  case (GLt r)
  then show ?case by (cases r) auto
qed (auto simp: list_all_iff)

text \<open>Shifting and substituting with a parameter-free substitution leave no
  parameter.\<close>

lemma shift_region_params_free: "region_params_ok [] r \<Longrightarrow> region_params_ok [] (shift_region d c r)"
  by (cases r) simp_all

lemma shift_params_free:
  "ty_params_ok [] t \<Longrightarrow> ty_params_ok [] (shift_ty d c t)"
  "garg_params_ok [] g \<Longrightarrow> garg_params_ok [] (shift_garg d c g)"
  "konst_params_ok [] k \<Longrightarrow> konst_params_ok [] (shift_konst d c k)"
proof (induction t and g and k arbitrary: c and c and c)
  case (TRef r t m)
  then show ?case by (cases r) auto
next
  case (GLt r)
  then show ?case by (cases r) auto
qed (auto simp: list_all_iff)

lemma subst_params_free:
  assumes "list_all (garg_params_ok []) \<sigma>"
  shows "ty_params_ok \<sigma> t \<Longrightarrow> ty_params_ok [] (subst_ty k \<sigma> t)"
    "garg_params_ok \<sigma> g \<Longrightarrow> garg_params_ok [] (subst_garg k \<sigma> g)"
    "konst_params_ok \<sigma> c \<Longrightarrow> konst_params_ok [] (subst_konst k \<sigma> c)"
proof (induction t and g and c arbitrary: k and k and k)
  case (TParam i)
  then show ?case using assms shift_params_free(1)
    by (cases "\<sigma> ! i") (auto simp: list_all_length)
next
  case (TRef r t m)
  then show ?case using assms
    by (cases r) (auto simp: list_all_length shift_region_params_free split: garg.splits)
next
  case (GLt r)
  then show ?case using assms
    by (cases r) (auto simp: list_all_length shift_region_params_free split: garg.splits)
next
  case (KParam i t)
  then show ?case using assms shift_params_free(3)
    by (cases "\<sigma> ! i") (auto simp: list_all_length)
qed (auto simp: list_all_iff)

lemma subst_region_params_free:
  "list_all (garg_params_ok []) \<sigma> \<Longrightarrow> region_params_ok \<sigma> r \<Longrightarrow> region_params_ok [] (subst_region k \<sigma> r)"
  by (cases r) (auto simp: list_all_length shift_region_params_free split: garg.splits)

lemma subst_pred_params_free:
  "list_all (garg_params_ok []) \<sigma> \<Longrightarrow> pred_kind_params_ok \<sigma> p \<Longrightarrow>
   pred_kind_params_ok [] (subst_pred_kind k \<sigma> p)"
  by (cases p) (auto simp: list_all_iff subst_params_free subst_region_params_free)


text \<open>Instantiating a non-generic item's term: the empty substitution
  either panics or leaves the predicate as it is.\<close>

lemma subst_pred_res_nil: "subst_pred_res [] p = Inr q \<Longrightarrow> q = p"
proof (cases p)
  case (Predicate n k)
  assume "subst_pred_res [] p = Inr q"
  then have ok: "pred_kind_params_ok [] k" and q: "q = Predicate n (subst_pred_kind 1 [] k)"
    using Predicate by (simp_all add: subst_pred_res_def split: if_splits)
  have "subst_pred_kind 1 [] k = k"
    using ok by (cases k) (simp_all add: list_all_iff subst_no_params subst_region_no_params map_idI)
  then show ?thesis using q Predicate by simp
qed

lemma subst_ty_res_raises [panics]: "subst_ty_res \<sigma> t = Inl e \<Longrightarrow> e = ESubstParam"
  by (simp add: subst_ty_res_def split: if_splits)

lemma subst_pred_res_raises [panics]: "subst_pred_res \<sigma> p = Inl e \<Longrightarrow> e = ESubstParam"
  by (simp add: subst_pred_res_def split: if_splits)

lemma subst_gargs_res_raises [panics]: "subst_gargs_res \<sigma> gs = Inl e \<Longrightarrow> e = ESubstParam"
  by (simp add: subst_gargs_res_def split: if_splits)

end
