(* ===== verification/Host_Ctx.thy ===== *)
theory Host_Ctx
  imports Rust_Ty
begin

text \<open>
  The immutable host snapshot that every query of \<open>db.rs\<close> reads
  (\<open>self.interner.tcx\<close>).  Each field is one rustc query the source calls,
  under the query's own name; a query that returns \<open>Option\<close> or
  \<open>Result\<close> in rustc returns \<open>option\<close> here.  No operation of the bridge
  changes it, so the context is passed as an argument and never returned.
\<close>

record trait_def_info =
  has_auto_impl :: bool
  is_marker :: bool

datatype assoc_kind = AKConst | AKFn | AKType

datatype assoc_container = TraitContainer def_id | ImplContainer def_id

record assoc_item =
  ai_def_id :: def_id
  ai_kind :: assoc_kind
  ai_container :: assoc_container
  ai_trait_item_def_id :: "def_id option"

datatype adt_kind = Struct | Union | Enum

text \<open>\<open>attr::IntType\<close>, the integer of a \<open>#[repr(..)]\<close> attribute.\<close>

datatype int_type = SignedInt int_ty | UnsignedInt uint_ty

text \<open>An ADT definition (\<open>AdtDef\<close>): the fields of each variant by their
  \<open>DefId\<close> (the field's type is \<open>type_of\<close> of that id), its flags and
  its \<open>#[repr]\<close>.\<close>

record adt_def =
  adt_did :: def_id
  adt_variants :: "def_id list list"
  adt_kind_of :: adt_kind
  adt_is_fundamental :: bool
  adt_is_phantom_data :: bool
  repr_c :: bool
  repr_packed :: bool
  repr_int :: "int_type option"

datatype impl_polarity = Positive | Negative | Reservation

record layout =
  lay_size :: nat
  lay_align :: nat

datatype variance = Covariant | Invariant | Contravariant | Bivariant

datatype lang_item =
    SizedTrait | CopyTrait | CloneTrait | DropTrait | FnTrait | FnMutTrait | FnOnceTrait
  | GenTrait | UnsizeTrait | UnpinTrait | CoerceUnsizedTrait | DiscriminantKindTrait
  | DispatchFromDynTrait

text \<open>\<open>PolyFnSig\<close>: a binder of late-bound regions around inputs and output
  (the output last), with the signature's C-variadic flag, unsafety and ABI.
  The ABI (\<open>rustc_target::spec::abi::Abi\<close>) is passed to the solver
  unchanged and is kept as an opaque tag.\<close>

datatype unsafety = Normal | Unsafe

type_synonym abi = nat

record poly_fn_sig =
  sig_bound_vars :: nat
  sig_inputs_and_output :: "ty list"
  sig_c_variadic :: bool
  sig_unsafety :: unsafety
  sig_abi :: abi

record tcx =
  generics_of :: "def_id \<Rightarrow> generic_param list"   \<comment> \<open>parents' parameters first\<close>
  predicates_defined_on :: "def_id \<Rightarrow> predicate list"
  explicit_item_bounds :: "def_id \<Rightarrow> predicate list"
  trait_def :: "def_id \<Rightarrow> trait_def_info"
  is_local :: "def_id \<Rightarrow> bool"
  has_fundamental_attr :: "def_id \<Rightarrow> bool"
  associated_items :: "def_id \<Rightarrow> assoc_item list"  \<comment> \<open>in definition order\<close>
  associated_item :: "def_id \<Rightarrow> assoc_item"
  lang_items :: "lang_item \<Rightarrow> def_id option"
  impl_trait_ref :: "def_id \<Rightarrow> (def_id \<times> garg list) option"
  impl_polarity :: "def_id \<Rightarrow> impl_polarity"
  all_impls :: "def_id \<Rightarrow> def_id list"
  type_of :: "def_id \<Rightarrow> ty"
  fn_sig :: "def_id \<Rightarrow> poly_fn_sig"
  layout_of :: "def_id \<Rightarrow> layout option"
  variances_of :: "def_id \<Rightarrow> variance list"
  is_object_safe :: "def_id \<Rightarrow> bool"

text \<open>A host snapshot with nothing in it, which the witnesses of the theorems
  extend with the facts each needs.\<close>

definition empty_tcx :: tcx where
  "empty_tcx =
     \<lparr>generics_of = (\<lambda>_. []), predicates_defined_on = (\<lambda>_. []),
      explicit_item_bounds = (\<lambda>_. []),
      trait_def = (\<lambda>_. \<lparr>has_auto_impl = False, is_marker = False\<rparr>),
      is_local = (\<lambda>_. True), has_fundamental_attr = (\<lambda>_. False),
      associated_items = (\<lambda>_. []),
      associated_item = (\<lambda>d. \<lparr>ai_def_id = d, ai_kind = AKFn, ai_container = TraitContainer 0,
                                 ai_trait_item_def_id = None\<rparr>),
      lang_items = (\<lambda>_. None), impl_trait_ref = (\<lambda>_. None), impl_polarity = (\<lambda>_. Positive),
      all_impls = (\<lambda>_. []), type_of = (\<lambda>_. TError),
      fn_sig = (\<lambda>_. \<lparr>sig_bound_vars = 0, sig_inputs_and_output = [TTuple []],
                      sig_c_variadic = False, sig_unsafety = Normal, sig_abi = 0\<rparr>),
      layout_of = (\<lambda>_. None), variances_of = (\<lambda>_. []), is_object_safe = (\<lambda>_. True)\<rparr>"

text \<open>The self type of a trait reference is its first type argument
  (\<open>TraitRef::self_ty\<close>, which panics when that argument is not a type).\<close>

definition trait_ref_self_ty :: "def_id \<times> garg list \<Rightarrow> ty res" where
  "trait_ref_self_ty tr =
     (case snd tr of GTy t # _ \<Rightarrow> Inr t | _ \<Rightarrow> Inl ENotTy)"


lemma trait_ref_self_ty_raises [panics]: "trait_ref_self_ty tr = Inl e \<Longrightarrow> e = ENotTy"
  by (auto simp: trait_ref_self_ty_def split: list.splits garg.splits)

end
