(* ===== verification/Chalk_IR.thy ===== *)
theory Chalk_IR
  imports Rust_Ty
begin

text \<open>
  The solver's intermediate representation (\<open>chalk_ir\<close>): its types,
  lifetimes, constants and generic arguments, the variable kinds of a binder,
  \<open>Binders<T>\<close> and quantified where-clauses.  The lowering from host terms
  (\<open>LowerInto\<close> of \<open>chalk/lowering.rs\<close>, outside the modelled sources) is
  modelled from the specification: a constructor-to-constructor translation
  that panics on a generic parameter that should have been substituted, and
  that drops (returns \<open>None\<close> for) predicates with no solver form.
  \<open>cty_wf E t\<close> says every bound variable of \<open>t\<close> is bound by a binder of
  the environment \<open>E\<close> (innermost first) to a slot of its own kind: the
  binder-consistency invariant the datums must satisfy.
\<close>

section \<open>Terms of the solver\<close>

datatype c_int_ty = CIsize | CI8 | CI16 | CI32 | CI64 | CI128
datatype c_uint_ty = CUsize | CU8 | CU16 | CU32 | CU64 | CU128
datatype c_float_ty = CF32 | CF64
datatype c_mut = CMut | CNot

datatype scalar = SBool | SChar | SInt c_int_ty | SUint c_uint_ty | SFloat c_float_ty

datatype lifetime = LBound nat nat | LStatic | LErased

datatype cty =
    CAdt def_id "cgarg list"
  | CAssociatedType def_id "cgarg list"
  | CScalar scalar
  | CTuple nat "cgarg list"
  | CArray cty cconst
  | CSlice cty
  | CRaw c_mut cty
  | CRef c_mut lifetime cty
  | COpaqueType def_id "cgarg list"
  | CFnDef def_id "cgarg list"
  | CStr
  | CNever
  | CClosure def_id "cgarg list"
  | CForeign def_id
  | CError
  | CBoundVar nat nat
  | CFunction nat "cgarg list"    \<comment> \<open>\<open>FnPointer\<close>: \<open>num_binders\<close>, substitution\<close>
  | CAliasProjection def_id "cgarg list"
  | CAliasOpaque def_id "cgarg list"
  | CInferenceVar nat
and cgarg = is_CGTy: CGTy cty | is_CGLt: CGLt lifetime | is_CGConst: CGConst cconst
and cconst = CConstBound nat nat cty | CConstValue nat cty

datatype var_kind = VKTy | VKLifetime | is_VKConst: VKConst cty

datatype 'a binders = Binders "var_kind list" 'a

primrec binders_kinds :: "'a binders \<Rightarrow> var_kind list" where
  "binders_kinds (Binders vs x) = vs"

primrec binders_value :: "'a binders \<Rightarrow> 'a" where
  "binders_value (Binders vs x) = x"

datatype where_clause =
    Implemented def_id "cgarg list"
  | AliasEq def_id "cgarg list" cty
  | LifetimeOutlives lifetime lifetime
  | TypeOutlives cty lifetime

type_synonym qwc = "where_clause binders"

section \<open>Lowering host terms\<close>

primrec lower_int :: "int_ty \<Rightarrow> c_int_ty" where
  "lower_int Isize = CIsize" | "lower_int I8 = CI8" | "lower_int I16 = CI16"
| "lower_int I32 = CI32" | "lower_int I64 = CI64" | "lower_int I128 = CI128"

primrec lower_uint :: "uint_ty \<Rightarrow> c_uint_ty" where
  "lower_uint Usize = CUsize" | "lower_uint U8 = CU8" | "lower_uint U16 = CU16"
| "lower_uint U32 = CU32" | "lower_uint U64 = CU64" | "lower_uint U128 = CU128"

primrec lower_float :: "float_ty \<Rightarrow> c_float_ty" where
  "lower_float F32 = CF32" | "lower_float F64 = CF64"

primrec lower_mut :: "mutability \<Rightarrow> c_mut" where
  "lower_mut Mut = CMut" | "lower_mut NotMut = CNot"

text \<open>The panicking cases (a parameter left unsubstituted) lower to \<open>CError\<close>
  here; \<open>lowerable_ty\<close> excludes them and the checked form reports the panic.\<close>

primrec lower_region :: "region \<Rightarrow> lifetime" where
  "lower_region (ReEarlyBound i) = LErased"
| "lower_region (ReLateBound db v) = LBound db v"
| "lower_region ReStatic = LStatic"
| "lower_region ReErased = LErased"

primrec lower_ty :: "ty \<Rightarrow> cty"
  and lower_garg :: "garg \<Rightarrow> cgarg"
  and lower_konst :: "konst \<Rightarrow> cconst" where
  "lower_ty TBool = CScalar SBool"
| "lower_ty TChar = CScalar SChar"
| "lower_ty (TInt i) = CScalar (SInt (lower_int i))"
| "lower_ty (TUint u) = CScalar (SUint (lower_uint u))"
| "lower_ty (TFloat f) = CScalar (SFloat (lower_float f))"
| "lower_ty (TAdt a gs) = CAdt a (map lower_garg gs)"
| "lower_ty (TForeign a) = CForeign a"
| "lower_ty TStr = CStr"
| "lower_ty (TArray t c) = CArray (lower_ty t) (lower_konst c)"
| "lower_ty (TSlice t) = CSlice (lower_ty t)"
| "lower_ty (TRawPtr t m) = CRaw (lower_mut m) (lower_ty t)"
| "lower_ty (TRef r t m) = CRef (lower_mut m) (lower_region r) (lower_ty t)"
| "lower_ty (TFnDef a gs) = CFnDef a (map lower_garg gs)"
| "lower_ty (TFnPtr n ts) = CFunction n (map (\<lambda>t. CGTy (lower_ty t)) ts)"
| "lower_ty (TClosure a gs) = CClosure a (map lower_garg gs)"
| "lower_ty TNever = CNever"
| "lower_ty (TTuple ts) = CTuple (length ts) (map (\<lambda>t. CGTy (lower_ty t)) ts)"
| "lower_ty (TProjection a gs) = CAliasProjection a (map lower_garg gs)"
| "lower_ty (TOpaque a gs) = CAliasOpaque a (map lower_garg gs)"
| "lower_ty (TParam i) = CError"
| "lower_ty (TBound db v) = CBoundVar db v"
| "lower_ty TError = CError"
| "lower_garg (GTy t) = CGTy (lower_ty t)"
| "lower_garg (GLt r) = CGLt (lower_region r)"
| "lower_garg (GConst c) = CGConst (lower_konst c)"
| "lower_konst (KParam i t) = CConstValue 0 (lower_ty t)"
| "lower_konst (KBound db v t) = CConstBound db v (lower_ty t)"
| "lower_konst (KValue n t) = CConstValue n (lower_ty t)"

text \<open>A term lowers without panicking iff it has no generic parameter left,
  i.e. iff every parameter has a substitution in the empty substitution.\<close>

abbreviation lowerable_ty :: "ty \<Rightarrow> bool" where
  "lowerable_ty t \<equiv> ty_params_ok [] t"

definition lower_ty_res :: "ty \<Rightarrow> cty res" where
  "lower_ty_res t = (if lowerable_ty t then Inr (lower_ty t) else Inl ELowerParam)"

definition lower_gargs_res :: "garg list \<Rightarrow> cgarg list res" where
  "lower_gargs_res gs =
     (if list_all (garg_params_ok []) gs then Inr (map lower_garg gs) else Inl ELowerParam)"

fun lower_pred_kind :: "pred_kind \<Rightarrow> where_clause option" where
  "lower_pred_kind (PTrait a gs) = Some (Implemented a (map lower_garg gs))"
| "lower_pred_kind (PRegionOutlives r1 r2) = Some (LifetimeOutlives (lower_region r1) (lower_region r2))"
| "lower_pred_kind (PTypeOutlives t r) = Some (TypeOutlives (lower_ty t) (lower_region r))"
| "lower_pred_kind (PProjection a gs t) = Some (AliasEq a (map lower_garg gs) (lower_ty t))"
| "lower_pred_kind (PWellFormed g) = None"
| "lower_pred_kind (PObjectSafe a) = None"
| "lower_pred_kind (PClosureKind a gs) = None"
| "lower_pred_kind (PConstEvaluatable c) = None"

text \<open>\<open>LowerInto<Option<QuantifiedWhereClause>>\<close>: the predicate's own binder
  becomes the clause's binder (\<open>collect_bound_vars\<close>); a dropped kind is never
  lowered, so it cannot panic.\<close>

fun lower_pred_res :: "predicate \<Rightarrow> qwc option res" where
  "lower_pred_res (Predicate n p) =
     (case lower_pred_kind p of
        None \<Rightarrow> Inr None
      | Some wc \<Rightarrow> if pred_kind_params_ok [] p
                   then Inr (Some (Binders (replicate n VKLifetime) wc)) else Inl ELowerParam)"

section \<open>Well-sorted bound variables\<close>

definition bv_ok :: "var_kind list list \<Rightarrow> nat \<Rightarrow> nat \<Rightarrow> (var_kind \<Rightarrow> bool) \<Rightarrow> bool" where
  "bv_ok E db v P \<longleftrightarrow> db < length E \<and> v < length (E ! db) \<and> P (E ! db ! v)"

primrec lt_wf :: "var_kind list list \<Rightarrow> lifetime \<Rightarrow> bool" where
  "lt_wf E (LBound db v) = bv_ok E db v (\<lambda>k. k = VKLifetime)"
| "lt_wf E LStatic = True"
| "lt_wf E LErased = True"

primrec cty_wf :: "var_kind list list \<Rightarrow> cty \<Rightarrow> bool"
  and cgarg_wf :: "var_kind list list \<Rightarrow> cgarg \<Rightarrow> bool"
  and cconst_wf :: "var_kind list list \<Rightarrow> cconst \<Rightarrow> bool" where
  "cty_wf E (CAdt a gs) = list_all (cgarg_wf E) gs"
| "cty_wf E (CAssociatedType a gs) = list_all (cgarg_wf E) gs"
| "cty_wf E (CScalar s) = True"
| "cty_wf E (CTuple n gs) = list_all (cgarg_wf E) gs"
| "cty_wf E (CArray t c) = (cty_wf E t \<and> cconst_wf E c)"
| "cty_wf E (CSlice t) = cty_wf E t"
| "cty_wf E (CRaw m t) = cty_wf E t"
| "cty_wf E (CRef m l t) = (lt_wf E l \<and> cty_wf E t)"
| "cty_wf E (COpaqueType a gs) = list_all (cgarg_wf E) gs"
| "cty_wf E (CFnDef a gs) = list_all (cgarg_wf E) gs"
| "cty_wf E CStr = True"
| "cty_wf E CNever = True"
| "cty_wf E (CClosure a gs) = list_all (cgarg_wf E) gs"
| "cty_wf E (CForeign a) = True"
| "cty_wf E CError = True"
| "cty_wf E (CBoundVar db v) = bv_ok E db v (\<lambda>k. k = VKTy)"
| "cty_wf E (CFunction n gs) = list_all (cgarg_wf (replicate n VKLifetime # E)) gs"
| "cty_wf E (CAliasProjection a gs) = list_all (cgarg_wf E) gs"
| "cty_wf E (CAliasOpaque a gs) = list_all (cgarg_wf E) gs"
| "cty_wf E (CInferenceVar i) = True"
| "cgarg_wf E (CGTy t) = cty_wf E t"
| "cgarg_wf E (CGLt l) = lt_wf E l"
| "cgarg_wf E (CGConst c) = cconst_wf E c"
| "cconst_wf E (CConstBound db v t) = (bv_ok E db v is_VKConst \<and> cty_wf E t)"
| "cconst_wf E (CConstValue n t) = cty_wf E t"

fun wc_wf :: "var_kind list list \<Rightarrow> where_clause \<Rightarrow> bool" where
  "wc_wf E (Implemented a gs) = list_all (cgarg_wf E) gs"
| "wc_wf E (AliasEq a gs t) = (list_all (cgarg_wf E) gs \<and> cty_wf E t)"
| "wc_wf E (LifetimeOutlives l1 l2) = (lt_wf E l1 \<and> lt_wf E l2)"
| "wc_wf E (TypeOutlives t l) = (cty_wf E t \<and> lt_wf E l)"

fun qwc_wf :: "var_kind list list \<Rightarrow> qwc \<Rightarrow> bool" where
  "qwc_wf E (Binders vs wc) = wc_wf (vs # E) wc"

section \<open>Lemmas\<close>

named_theorems wf_simps "well-sortedness rules"

text \<open>Adding binders outside the environment keeps a term well sorted.\<close>

lemma bv_ok_append [wf_simps]: "bv_ok E db v P \<Longrightarrow> bv_ok (E @ F) db v P"
  by (auto simp: bv_ok_def nth_append)

lemma lt_wf_append [wf_simps]: "lt_wf E l \<Longrightarrow> lt_wf (E @ F) l"
  by (cases l) (simp_all add: bv_ok_append)

lemma wf_append [wf_simps]:
  "cty_wf E t \<Longrightarrow> cty_wf (E @ F) t"
  "cgarg_wf E g \<Longrightarrow> cgarg_wf (E @ F) g"
  "cconst_wf E c \<Longrightarrow> cconst_wf (E @ F) c"
proof (induction t and g and c arbitrary: E and E and E)
  case (CFunction n gs)
  then show ?case by (simp add: list_all_iff) (metis append_Cons)
qed (auto simp: list_all_iff bv_ok_append lt_wf_append)

lemma wc_wf_append [wf_simps]: "wc_wf E wc \<Longrightarrow> wc_wf (E @ F) wc"
  by (cases wc) (auto simp: list_all_iff wf_append lt_wf_append)

lemma qwc_wf_append [wf_simps]: "qwc_wf E q \<Longrightarrow> qwc_wf (E @ F) q"
  by (cases q) (metis append_Cons qwc_wf.simps wc_wf_append)


lemma lower_ty_res_raises [panics]: "lower_ty_res t = Inl e \<Longrightarrow> e = ELowerParam"
  by (simp add: lower_ty_res_def split: if_splits)

lemma lower_gargs_res_raises [panics]: "lower_gargs_res gs = Inl e \<Longrightarrow> e = ELowerParam"
  by (simp add: lower_gargs_res_def split: if_splits)

lemma lower_pred_res_raises [panics]: "lower_pred_res p = Inl e \<Longrightarrow> e = ELowerParam"
  by (cases p) (simp split: option.splits if_splits)

end
