(* ===== verification/Binders.thy ===== *)
theory Binders
  imports Host_Ctx Chalk_IR
begin

text \<open>
  The binder/index builder of \<open>db.rs\<close>: \<open>bound_vars_for_item\<close> (lines
  711--742) builds, through rustc's \<open>InternalSubsts::for_item\<close>, a
  substitution mapping every generic parameter of an item to a variable bound
  at the innermost binder; \<open>binders_for\<close> (lines 744--760) lists the
  variable kinds of that binder.  \<open>for_item\<close> visits the parameters in
  order and asserts that each parameter's index is the number of arguments
  already built.  The main results: the builder succeeds exactly on generics
  numbered densely from 0, the argument built for slot \<open>i\<close> is the bound
  variable \<open>i\<close> of the parameter's kind (lifetimes included, so lifetimes are
  not renumbered apart from types and constants), and the kind list agrees
  with the substitution slot by slot.
\<close>

section \<open>Definitions\<close>

text \<open>The closure passed to \<open>for_item\<close> in \<open>bound_vars_for_item\<close>.\<close>

definition mk_bound_var :: "generic_param \<Rightarrow> garg list \<Rightarrow> garg" where
  "mk_bound_var param substs =
     (case gp_kind param of
        PKType \<Rightarrow> GTy (TBound 0 (gp_index param))
      | PKLifetime \<Rightarrow> GLt (ReLateBound 0 (length substs))
      | PKConst t \<Rightarrow> GConst (KBound 0 (gp_index param) t))"

text \<open>\<open>InternalSubsts::fill_single\<close>: \<open>mk_kind\<close>, then the assertion, then
  the push.\<close>

fun fill_single :: "(generic_param \<Rightarrow> garg list \<Rightarrow> garg) \<Rightarrow> garg list \<Rightarrow> generic_param list
                      \<Rightarrow> garg list res" where
  "fill_single mk substs [] = Inr substs"
| "fill_single mk substs (p # ps) =
     (let kind = mk p substs in
      if gp_index p = length substs then fill_single mk (substs @ [kind]) ps
      else Inl EParamIndex)"

definition for_item :: "tcx \<Rightarrow> def_id \<Rightarrow> (generic_param \<Rightarrow> garg list \<Rightarrow> garg) \<Rightarrow> garg list res" where
  "for_item tcx d mk = fill_single mk [] (generics_of tcx d)"

definition bound_vars_for_item :: "tcx \<Rightarrow> def_id \<Rightarrow> garg list res" where
  "bound_vars_for_item tcx d = for_item tcx d mk_bound_var"

primrec konst_ty :: "konst \<Rightarrow> ty" where
  "konst_ty (KParam i t) = t"
| "konst_ty (KBound db v t) = t"
| "konst_ty (KValue n t) = t"

text \<open>One variable kind per argument; a constant's type is lowered.\<close>

fun var_kind_of :: "garg \<Rightarrow> var_kind res" where
  "var_kind_of (GLt r) = Inr VKLifetime"
| "var_kind_of (GTy t) = Inr VKTy"
| "var_kind_of (GConst c) = bind_res (lower_ty_res (konst_ty c)) (\<lambda>t. Inr (VKConst t))"

definition binders_for :: "garg list \<Rightarrow> var_kind list res" where
  "binders_for bound_vars = map_res var_kind_of bound_vars"

section \<open>Reference behaviour\<close>

text \<open>What slot \<open>i\<close> of the substitution should be: the variable \<open>i\<close> of the
  innermost binder, of the parameter's kind.\<close>

definition bound_var_at :: "nat \<Rightarrow> generic_param \<Rightarrow> garg" where
  "bound_var_at i p =
     (case gp_kind p of
        PKType \<Rightarrow> GTy (TBound 0 i)
      | PKLifetime \<Rightarrow> GLt (ReLateBound 0 i)
      | PKConst t \<Rightarrow> GConst (KBound 0 i t))"

text \<open>Generics are numbered densely, and constant parameters have scalar types
  (integers, \<open>bool\<close>, \<open>char\<close>: the const-generic types rustc accepts).\<close>

definition dense_generics :: "generic_param list \<Rightarrow> bool" where
  "dense_generics ps \<longleftrightarrow> map gp_index ps = [0..<length ps]"

fun scalar_ty :: "ty \<Rightarrow> bool" where
  "scalar_ty TBool = True"
| "scalar_ty TChar = True"
| "scalar_ty (TInt i) = True"
| "scalar_ty (TUint u) = True"
| "scalar_ty t = False"

definition const_params_scalar :: "generic_param list \<Rightarrow> bool" where
  "const_params_scalar ps \<longleftrightarrow>
     list_all (\<lambda>p. case gp_kind p of PKConst t \<Rightarrow> scalar_ty t | _ \<Rightarrow> True) ps"

text \<open>The kind a binder slot must have for a parameter.\<close>

definition param_var_kind :: "generic_param \<Rightarrow> var_kind" where
  "param_var_kind p =
     (case gp_kind p of PKType \<Rightarrow> VKTy | PKLifetime \<Rightarrow> VKLifetime | PKConst t \<Rightarrow> VKConst (lower_ty t))"

text \<open>The solver's bound variable \<open>i\<close> of the innermost binder, of kind \<open>vk\<close>.\<close>

definition bound_var_of_kind :: "nat \<Rightarrow> var_kind \<Rightarrow> cgarg" where
  "bound_var_of_kind i vk =
     (case vk of VKTy \<Rightarrow> CGTy (CBoundVar 0 i) | VKLifetime \<Rightarrow> CGLt (LBound 0 i)
               | VKConst t \<Rightarrow> CGConst (CConstBound 0 i t))"

section \<open>Lemmas\<close>

lemma mk_bound_var_at:
  "gp_index p = length acc \<Longrightarrow> mk_bound_var p acc = bound_var_at (length acc) p"
  by (simp add: mk_bound_var_def bound_var_at_def split: param_kind.splits)

lemma upt_Cons_shift:
  "(a # xs = [n..<n + Suc m]) \<longleftrightarrow> a = n \<and> xs = [Suc n..<Suc n + m]"
  by (simp add: upt_rec)

lemma fill_single_bound_vars:
  "fill_single mk_bound_var acc ps =
     (if map gp_index ps = [length acc..<length acc + length ps]
      then Inr (acc @ map2 bound_var_at [length acc..<length acc + length ps] ps)
      else Inl EParamIndex)"
proof (induction ps arbitrary: acc)
  case Nil
  then show ?case by simp
next
  case (Cons p ps)
  show ?case
  proof (cases "gp_index p = length acc")
    case True
    have "[length acc..<length acc + length (p # ps)] =
          length acc # [Suc (length acc)..<Suc (length acc) + length ps]"
      by (simp add: upt_rec)
    with True Cons.IH[of "acc @ [mk_bound_var p acc]"] show ?thesis
      by (simp add: mk_bound_var_at)
  next
    case False
    then show ?thesis by (simp add: upt_rec)
  qed
qed

lemma scalar_ty_lowerable: "scalar_ty t \<Longrightarrow> lowerable_ty t"
  by (cases t rule: scalar_ty.cases) simp_all

lemma scalar_ty_shift: "scalar_ty t \<Longrightarrow> shift_ty d c t = t"
  by (cases t rule: scalar_ty.cases) simp_all

lemma scalar_ty_wf: "scalar_ty t \<Longrightarrow> cty_wf E (lower_ty t)"
  by (cases t rule: scalar_ty.cases) simp_all

lemma var_kind_of_bound_var_at:
  "(case gp_kind p of PKConst t \<Rightarrow> scalar_ty t | _ \<Rightarrow> True) \<Longrightarrow>
   var_kind_of (bound_var_at i p) = Inr (param_var_kind p)"
  by (cases "gp_kind p")
     (simp_all add: bound_var_at_def param_var_kind_def lower_ty_res_def scalar_ty_lowerable)

lemma bound_vars_for_item_eq:
  "bound_vars_for_item tcx d =
     (if dense_generics (generics_of tcx d)
      then Inr (map2 bound_var_at [0..<length (generics_of tcx d)] (generics_of tcx d))
      else Inl EParamIndex)"
  using fill_single_bound_vars[of "[]" "generics_of tcx d"]
  by (simp add: bound_vars_for_item_def for_item_def dense_generics_def)

lemma bound_vars_for_item_Inr:
  "bound_vars_for_item tcx d = Inr \<sigma> \<longleftrightarrow>
     dense_generics (generics_of tcx d) \<and>
     \<sigma> = map2 bound_var_at [0..<length (generics_of tcx d)] (generics_of tcx d)"
  by (auto simp: bound_vars_for_item_eq)

lemma bound_vars_length:
  "bound_vars_for_item tcx d = Inr \<sigma> \<Longrightarrow> length \<sigma> = length (generics_of tcx d)"
  by (simp add: bound_vars_for_item_Inr)

lemma bound_vars_nth:
  "bound_vars_for_item tcx d = Inr \<sigma> \<Longrightarrow> i < length \<sigma> \<Longrightarrow>
   \<sigma> ! i = bound_var_at i (generics_of tcx d ! i)"
  by (auto simp: bound_vars_for_item_Inr)

lemma lower_bound_var_at_wf:
  "const_params_scalar ps \<Longrightarrow> i < length ps \<Longrightarrow>
   cgarg_wf [map param_var_kind ps] (lower_garg (bound_var_at i (ps ! i)))"
  by (cases "gp_kind (ps ! i)")
     (auto simp: const_params_scalar_def list_all_length bound_var_at_def bv_ok_def
                 param_var_kind_def scalar_ty_wf)

lemma lower_bound_var_at:
  "lower_garg (bound_var_at i p) = bound_var_of_kind i (param_var_kind p)"
  by (cases "gp_kind p") (simp_all add: bound_var_at_def param_var_kind_def bound_var_of_kind_def)

lemma lower_bound_vars:
  "map lower_garg (map2 bound_var_at [0..<length ps] ps) =
     map2 bound_var_of_kind [0..<length ps] (map param_var_kind ps)"
  by (rule nth_equalityI) (simp_all add: lower_bound_var_at)

lemma binders_for_map2:
  "const_params_scalar ps \<Longrightarrow>
   binders_for (map2 bound_var_at [0..<length ps] ps) = Inr (map param_var_kind ps)"
proof -
  assume c: "const_params_scalar ps"
  have "map_res var_kind_of (map2 bound_var_at [0..<length ps] ps) =
        Inr (map (\<lambda>i. param_var_kind (ps ! i)) [0..<length ps])"
  proof (rule map_res_Inr_iff[THEN iffD2], rule list_all2_all_nthI)
    fix i assume "i < length (map2 bound_var_at [0..<length ps] ps)"
    then have i: "i < length ps" by simp
    from c i have "case gp_kind (ps ! i) of PKConst t \<Rightarrow> scalar_ty t | _ \<Rightarrow> True"
      by (simp add: const_params_scalar_def list_all_length)
    with i show "var_kind_of (map2 bound_var_at [0..<length ps] ps ! i) =
                 Inr (map (\<lambda>i. param_var_kind (ps ! i)) [0..<length ps] ! i)"
      by (simp add: var_kind_of_bound_var_at)
  qed simp
  moreover have "map (\<lambda>i. param_var_kind (ps ! i)) [0..<length ps] = map param_var_kind ps"
    by (rule nth_equalityI) simp_all
  ultimately show ?thesis by (simp add: binders_for_def)
qed

lemma fill_single_raises [panics]: "fill_single mk substs ps = Inl e \<Longrightarrow> e = EParamIndex"
  by (induction mk substs ps rule: fill_single.induct) (simp_all add: Let_def split: if_splits)

lemma bound_vars_for_item_raises [panics]: "bound_vars_for_item tcx d = Inl e \<Longrightarrow> e = EParamIndex"
  by (simp add: bound_vars_for_item_def for_item_def fill_single_raises)

lemma var_kind_of_raises [panics]: "var_kind_of g = Inl e \<Longrightarrow> e = ELowerParam"
  by (cases g) (auto simp: bind_res_eq_Inl dest: lower_ty_res_raises)

lemma binders_for_raises [panics]: "binders_for bvs = Inl e \<Longrightarrow> e = ELowerParam"
  unfolding binders_for_def by (auto dest!: map_res_raises dest: var_kind_of_raises)

section \<open>Properties\<close>



text \<open>
  C2.  A lifetime parameter's bound variable is numbered by its position among
  all the item's parameters (the length of the substitution built so far), not
  densely among lifetimes only: slot \<open>i\<close> holding a lifetime is the region
  bound at the innermost binder with variable \<open>i\<close>.
\<close>

theorem lifetime_slot_is_position:
  assumes "bound_vars_for_item tcx d = Inr \<sigma>" "i < length \<sigma>"
    and "gp_kind (generics_of tcx d ! i) = PKLifetime"
  shows "\<sigma> ! i = GLt (ReLateBound 0 i)"
  using bound_vars_nth[OF assms(1,2)] assms(3) by (simp add: bound_var_at_def)

theorem lifetime_slot_is_position_witness:
  "bound_vars_for_item (empty_tcx\<lparr>generics_of := \<lambda>_.
      [\<lparr>gp_index = 0, gp_kind = PKType\<rparr>, \<lparr>gp_index = 1, gp_kind = PKLifetime\<rparr>]\<rparr>) 3 =
     Inr [GTy (TBound 0 0), GLt (ReLateBound 0 1)] \<and>
   (1::nat) < length [GTy (TBound 0 0), GLt (ReLateBound 0 1)] \<and>
   gp_kind ([\<lparr>gp_index = 0, gp_kind = PKType\<rparr>, \<lparr>gp_index = 1, gp_kind = PKLifetime\<rparr>] ! 1) = PKLifetime \<and>
   [GTy (TBound 0 0), GLt (ReLateBound 0 1)] ! 1 = GLt (ReLateBound 0 1)"
proof -
  have bv: "bound_vars_for_item (empty_tcx\<lparr>generics_of := \<lambda>_.
      [\<lparr>gp_index = 0, gp_kind = PKType\<rparr>, \<lparr>gp_index = 1, gp_kind = PKLifetime\<rparr>]\<rparr>) 3 =
     Inr [GTy (TBound 0 0), GLt (ReLateBound 0 1)]"
    by (simp add: bound_vars_for_item_def for_item_def mk_bound_var_def Let_def)
  show ?thesis
    using bv lifetime_slot_is_position[OF bv, of 1] by simp
qed

end
