(* ===== verification/Instantiate.thy ===== *)
theory Instantiate
  imports Binders
begin

text \<open>
  Every datum builder of \<open>db.rs\<close> instantiates host facts under the item's
  bound variables (\<open>EarlyBinder(x).subst(tcx, bound_vars)\<close>) and lowers the
  result.  This theory states when that is safe.  A host term is well formed
  for generics \<open>ps\<close> under host binders \<open>H\<close> (the arities of the binders
  around it, innermost first) when each parameter it names exists with its
  kind and each late-bound region is bound by a binder of \<open>H\<close>.  The main
  lemma: instantiating a well-formed term under \<open>item_bound_vars ps\<close> never
  panics, leaves nothing for lowering to reject, and lowers to a term whose
  bound variables are well sorted in the environment \<open>H\<close> followed by the
  item's own binder.  The lemmas are stated for bound variables shifted over
  extra binders \<open>F\<close> between the term and the item's binder, as the
  opaque-type datum uses them, and specialised to \<open>F = []\<close>.
\<close>

section \<open>Definitions\<close>

abbreviation item_bound_vars :: "generic_param list \<Rightarrow> garg list" where
  "item_bound_vars ps \<equiv> map2 bound_var_at [0..<length ps] ps"

text \<open>The item's bound variables seen from under \<open>k\<close> further binders
  (\<open>ty::fold::shift_vars(tcx, bound_vars, k)\<close>).\<close>

definition shifted_bound_vars :: "nat \<Rightarrow> generic_param list \<Rightarrow> garg list" where
  "shifted_bound_vars k ps = map (shift_garg k 0) (item_bound_vars ps)"

abbreviation item_binder :: "generic_param list \<Rightarrow> var_kind list" where
  "item_binder ps \<equiv> map param_var_kind ps"

text \<open>The solver environment of host binders of the given arities, all of
  late-bound regions.\<close>

definition lenv :: "nat list \<Rightarrow> var_kind list list" where
  "lenv H = map (\<lambda>n. replicate n VKLifetime) H"

primrec region_wf :: "generic_param list \<Rightarrow> nat list \<Rightarrow> region \<Rightarrow> bool" where
  "region_wf ps H (ReEarlyBound i) = (i < length ps \<and> gp_kind (ps ! i) = PKLifetime)"
| "region_wf ps H (ReLateBound db v) = (db < length H \<and> v < H ! db)"
| "region_wf ps H ReStatic = True"
| "region_wf ps H ReErased = True"

primrec host_ty_wf :: "generic_param list \<Rightarrow> nat list \<Rightarrow> ty \<Rightarrow> bool"
  and host_garg_wf :: "generic_param list \<Rightarrow> nat list \<Rightarrow> garg \<Rightarrow> bool"
  and host_konst_wf :: "generic_param list \<Rightarrow> nat list \<Rightarrow> konst \<Rightarrow> bool" where
  "host_ty_wf ps H TBool = True"
| "host_ty_wf ps H TChar = True"
| "host_ty_wf ps H (TInt i) = True"
| "host_ty_wf ps H (TUint u) = True"
| "host_ty_wf ps H (TFloat f) = True"
| "host_ty_wf ps H (TAdt a gs) = list_all (host_garg_wf ps H) gs"
| "host_ty_wf ps H (TForeign a) = True"
| "host_ty_wf ps H TStr = True"
| "host_ty_wf ps H (TArray t c) = (host_ty_wf ps H t \<and> host_konst_wf ps H c)"
| "host_ty_wf ps H (TSlice t) = host_ty_wf ps H t"
| "host_ty_wf ps H (TRawPtr t m) = host_ty_wf ps H t"
| "host_ty_wf ps H (TRef r t m) = (region_wf ps H r \<and> host_ty_wf ps H t)"
| "host_ty_wf ps H (TFnDef a gs) = list_all (host_garg_wf ps H) gs"
| "host_ty_wf ps H (TFnPtr n ts) = list_all (host_ty_wf ps (n # H)) ts"
| "host_ty_wf ps H (TClosure a gs) = list_all (host_garg_wf ps H) gs"
| "host_ty_wf ps H TNever = True"
| "host_ty_wf ps H (TTuple ts) = list_all (host_ty_wf ps H) ts"
| "host_ty_wf ps H (TProjection a gs) = list_all (host_garg_wf ps H) gs"
| "host_ty_wf ps H (TOpaque a gs) = list_all (host_garg_wf ps H) gs"
| "host_ty_wf ps H (TParam i) = (i < length ps \<and> gp_kind (ps ! i) = PKType)"
| "host_ty_wf ps H (TBound db v) = False"
| "host_ty_wf ps H TError = True"
| "host_garg_wf ps H (GTy t) = host_ty_wf ps H t"
| "host_garg_wf ps H (GLt r) = region_wf ps H r"
| "host_garg_wf ps H (GConst c) = host_konst_wf ps H c"
| "host_konst_wf ps H (KParam i t) = (i < length ps \<and> (\<exists>t'. gp_kind (ps ! i) = PKConst t'))"
| "host_konst_wf ps H (KBound db v t) = False"
| "host_konst_wf ps H (KValue n t) = host_ty_wf ps H t"

fun host_pred_kind_wf :: "generic_param list \<Rightarrow> nat list \<Rightarrow> pred_kind \<Rightarrow> bool" where
  "host_pred_kind_wf ps H (PTrait a gs) = list_all (host_garg_wf ps H) gs"
| "host_pred_kind_wf ps H (PRegionOutlives r1 r2) = (region_wf ps H r1 \<and> region_wf ps H r2)"
| "host_pred_kind_wf ps H (PTypeOutlives t r) = (host_ty_wf ps H t \<and> region_wf ps H r)"
| "host_pred_kind_wf ps H (PProjection a gs t) = (list_all (host_garg_wf ps H) gs \<and> host_ty_wf ps H t)"
| "host_pred_kind_wf ps H (PWellFormed g) = host_garg_wf ps H g"
| "host_pred_kind_wf ps H (PObjectSafe a) = True"
| "host_pred_kind_wf ps H (PClosureKind a gs) = list_all (host_garg_wf ps H) gs"
| "host_pred_kind_wf ps H (PConstEvaluatable c) = host_konst_wf ps H c"

fun host_pred_wf :: "generic_param list \<Rightarrow> predicate \<Rightarrow> bool" where
  "host_pred_wf ps (Predicate n p) = host_pred_kind_wf ps [n] p"

section \<open>Lemmas\<close>

lemma item_bound_vars_nth [simp]:
  "i < length ps \<Longrightarrow> item_bound_vars ps ! i = bound_var_at i (ps ! i)"
  by simp

lemma lenv_Cons [simp]: "lenv (n # H) = replicate n VKLifetime # lenv H"
  by (simp add: lenv_def)

lemma length_lenv [simp]: "length (lenv H) = length H"
  by (simp add: lenv_def)

lemma lenv_item_nth [simp]:
  "(lenv H @ [vs]) ! length H = vs"
  by (simp add: nth_append lenv_def)

lemma length_shifted_bound_vars [simp]: "length (shifted_bound_vars k ps) = length ps"
  by (simp add: shifted_bound_vars_def)

lemma shifted_bound_vars_nth [simp]:
  "i < length ps \<Longrightarrow> shifted_bound_vars k ps ! i = shift_garg k 0 (bound_var_at i (ps ! i))"
  by (simp add: shifted_bound_vars_def)

lemma bv_ok_item_shift:
  "i < length vs \<Longrightarrow> P (vs ! i) \<Longrightarrow> bv_ok (lenv H @ F @ [vs]) (length H + length F) i P"
  by (simp add: bv_ok_def nth_append)

lemma bv_ok_lenv_shift:
  "db < length H \<Longrightarrow> v < H ! db \<Longrightarrow> bv_ok (lenv H @ F) db v (\<lambda>k. k = VKLifetime)"
  by (simp add: bv_ok_def nth_append lenv_def)

lemma region_inst_shift:
  assumes "region_wf ps H r"
  shows "region_params_ok (shifted_bound_vars (length F) ps) r \<and>
         lt_wf (lenv H @ F @ [item_binder ps])
           (lower_region (subst_region (length H) (shifted_bound_vars (length F) ps) r)) \<and>
         region_params_ok [] (subst_region (length H) (shifted_bound_vars (length F) ps) r)"
  using assms
  by (cases r) (auto simp: bound_var_at_def param_var_kind_def bv_ok_lenv_shift bv_ok_item_shift
                     add.commute split: param_kind.splits)

lemma inst_lower_wf_shift:
  assumes cs: "const_params_scalar ps"
  shows
  "host_ty_wf ps H t \<Longrightarrow> ty_params_ok (shifted_bound_vars (length F) ps) t \<and>
     lowerable_ty (subst_ty (length H) (shifted_bound_vars (length F) ps) t) \<and>
     cty_wf (lenv H @ F @ [item_binder ps]) (lower_ty (subst_ty (length H) (shifted_bound_vars (length F) ps) t))"
  "host_garg_wf ps H g \<Longrightarrow> garg_params_ok (shifted_bound_vars (length F) ps) g \<and>
     garg_params_ok [] (subst_garg (length H) (shifted_bound_vars (length F) ps) g) \<and>
     cgarg_wf (lenv H @ F @ [item_binder ps]) (lower_garg (subst_garg (length H) (shifted_bound_vars (length F) ps) g))"
  "host_konst_wf ps H c \<Longrightarrow> konst_params_ok (shifted_bound_vars (length F) ps) c \<and>
     konst_params_ok [] (subst_konst (length H) (shifted_bound_vars (length F) ps) c) \<and>
     cconst_wf (lenv H @ F @ [item_binder ps]) (lower_konst (subst_konst (length H) (shifted_bound_vars (length F) ps) c))"
proof (induction t and g and c arbitrary: H and H and H)
  case (TParam i)
  then show ?case by (simp add: bound_var_at_def param_var_kind_def bv_ok_item_shift add.commute)
next
  case (TRef r t m)
  then show ?case using region_inst_shift[of ps H r F] TRef.IH[of H] by simp
next
  case (TFnPtr n ts)
  have "\<And>t. t \<in> set ts \<Longrightarrow> host_ty_wf ps (n # H) t \<Longrightarrow>
          ty_params_ok (shifted_bound_vars (length F) ps) t \<and>
          lowerable_ty (subst_ty (Suc (length H)) (shifted_bound_vars (length F) ps) t) \<and>
          cty_wf (replicate n VKLifetime # lenv H @ F @ [item_binder ps])
            (lower_ty (subst_ty (Suc (length H)) (shifted_bound_vars (length F) ps) t))"
    using TFnPtr.IH[where H = "n # H"] by simp
  with TFnPtr.prems show ?case by (simp add: list_all_iff)
next
  case (GLt r)
  then show ?case using region_inst_shift[of ps H r F] by simp
next
  case (KParam i t)
  then obtain t' where k: "gp_kind (ps ! i) = PKConst t'" and i: "i < length ps" by auto
  from cs i k have "scalar_ty t'" by (force simp: const_params_scalar_def list_all_length)
  with k i show ?case
    by (simp add: bound_var_at_def param_var_kind_def bv_ok_item_shift scalar_ty_shift
                  scalar_ty_lowerable scalar_ty_wf add.commute)
qed (auto simp: list_all_iff)

lemma var_kind_of_shifted:
  "(case gp_kind p of PKConst t \<Rightarrow> scalar_ty t | _ \<Rightarrow> True) \<Longrightarrow>
   var_kind_of (shift_garg k 0 (bound_var_at i p)) = Inr (param_var_kind p)"
  by (cases "gp_kind p")
     (simp_all add: bound_var_at_def param_var_kind_def lower_ty_res_def scalar_ty_lowerable scalar_ty_shift)

lemma binders_for_shifted:
  assumes c: "const_params_scalar ps"
  shows "binders_for (shifted_bound_vars k ps) = Inr (item_binder ps)"
proof -
  have "map_res var_kind_of (shifted_bound_vars k ps) = Inr (map param_var_kind ps)"
  proof (rule map_res_Inr_iff[THEN iffD2], rule list_all2_all_nthI)
    fix i assume "i < length (shifted_bound_vars k ps)"
    then have i: "i < length ps" by simp
    from c i have "case gp_kind (ps ! i) of PKConst t \<Rightarrow> scalar_ty t | _ \<Rightarrow> True"
      by (simp add: const_params_scalar_def list_all_length)
    with i show "var_kind_of (shifted_bound_vars k ps ! i) = Inr (map param_var_kind ps ! i)"
      by (simp add: var_kind_of_shifted)
  qed simp
  then show ?thesis by (simp add: binders_for_def)
qed

text \<open>With no binder between the term and the item's binder.\<close>

lemma shifted_bound_vars_0: "shifted_bound_vars 0 ps = item_bound_vars ps"
  by (simp add: shifted_bound_vars_def shift_zero map_idI)

lemma region_inst:
  assumes "region_wf ps H r"
  shows "region_params_ok (item_bound_vars ps) r \<and>
         lt_wf (lenv H @ [item_binder ps]) (lower_region (subst_region (length H) (item_bound_vars ps) r)) \<and>
         region_params_ok [] (subst_region (length H) (item_bound_vars ps) r)"
  using region_inst_shift[OF assms, of "[]"] by (simp only: list.size append_Nil shifted_bound_vars_0)

lemma inst_lower_wf:
  assumes cs: "const_params_scalar ps"
  shows
  "host_ty_wf ps H t \<Longrightarrow> ty_params_ok (item_bound_vars ps) t \<and>
     lowerable_ty (subst_ty (length H) (item_bound_vars ps) t) \<and>
     cty_wf (lenv H @ [item_binder ps]) (lower_ty (subst_ty (length H) (item_bound_vars ps) t))"
  "host_garg_wf ps H g \<Longrightarrow> garg_params_ok (item_bound_vars ps) g \<and>
     garg_params_ok [] (subst_garg (length H) (item_bound_vars ps) g) \<and>
     cgarg_wf (lenv H @ [item_binder ps]) (lower_garg (subst_garg (length H) (item_bound_vars ps) g))"
  "host_konst_wf ps H c \<Longrightarrow> konst_params_ok (item_bound_vars ps) c \<and>
     konst_params_ok [] (subst_konst (length H) (item_bound_vars ps) c) \<and>
     cconst_wf (lenv H @ [item_binder ps]) (lower_konst (subst_konst (length H) (item_bound_vars ps) c))"
  using inst_lower_wf_shift[OF cs, where F = "[]"] by (simp_all only: list.size append_Nil shifted_bound_vars_0)

end
