(* ===== verification/Where_Clauses.thy ===== *)
theory Where_Clauses
  imports Instantiate
begin

text \<open>
  Where-clause lowering (\<open>RustIrDatabase::where_clauses_for\<close> and
  \<open>bounds_for\<close>, \<open>db.rs\<close> lines 36--61).  Each host predicate of the item
  (\<open>predicates_defined_on\<close>, resp. \<open>explicit_item_bounds\<close>) is
  instantiated under the given bound variables and lowered; predicates whose
  kind has no solver form are dropped (\<open>filter_map\<close>).  The iterator is lazy,
  so each predicate is instantiated and lowered before the next one is read,
  and the first panic wins.  Results: the clauses are at most as many as the
  predicates, are exactly the lowerings of the predicates of a representable
  kind in declaration order, and for well-formed host facts the lowering never
  panics and yields clauses that are well sorted under the item's binder
  (and under any binders placed between it and the clauses, when the bound
  variables are shifted over them).
\<close>

section \<open>Definitions\<close>

text \<open>The shared pipeline \<open>.map(subst).filter_map(lower_into).collect()\<close>.\<close>

definition lower_clauses :: "garg list \<Rightarrow> predicate list \<Rightarrow> qwc list res" where
  "lower_clauses bound_vars preds =
     bind_res (map_res (\<lambda>p. bind_res (subst_pred_res bound_vars p) lower_pred_res) preds)
       (\<lambda>cs. Inr (List.map_filter id cs))"

definition where_clauses_for :: "tcx \<Rightarrow> def_id \<Rightarrow> garg list \<Rightarrow> qwc list res" where
  "where_clauses_for tcx d bound_vars = lower_clauses bound_vars (predicates_defined_on tcx d)"

definition bounds_for :: "tcx \<Rightarrow> def_id \<Rightarrow> garg list \<Rightarrow> qwc list res" where
  "bounds_for tcx d bound_vars = lower_clauses bound_vars (explicit_item_bounds tcx d)"

text \<open>Whether a predicate has a solver form at all.\<close>

fun pred_representable :: "predicate \<Rightarrow> bool" where
  "pred_representable (Predicate n p) = (lower_pred_kind p \<noteq> None)"

text \<open>The clause a predicate lowers to once instantiated, for predicates that
  neither panic nor are dropped.\<close>

fun lower_pred :: "predicate \<Rightarrow> qwc option" where
  "lower_pred (Predicate n p) = map_option (Binders (replicate n VKLifetime)) (lower_pred_kind p)"

section \<open>Lemmas\<close>

lemma lower_pred_kind_subst_None:
  "lower_pred_kind (subst_pred_kind k \<sigma> p) = None \<longleftrightarrow> lower_pred_kind p = None"
  by (cases p) simp_all

lemma lower_pred_res_Inr:
  "lower_pred_res p = Inr q \<Longrightarrow> q = lower_pred p"
  by (cases p) (auto split: option.splits if_splits)

lemma lower_pred_representable:
  "lower_pred p = None \<longleftrightarrow> \<not> pred_representable p"
  by (cases p) simp_all

lemma representable_subst:
  "pred_representable (subst_pred \<sigma> p) = pred_representable p"
  by (cases p) (simp add: lower_pred_kind_subst_None)

lemma lower_clauses_Inr:
  assumes "lower_clauses \<sigma> preds = Inr cs"
  shows "cs = List.map_filter (\<lambda>p. lower_pred (subst_pred \<sigma> p)) preds"
proof -
  from assms obtain qs where
    qs: "map_res (\<lambda>p. bind_res (subst_pred_res \<sigma> p) lower_pred_res) preds = Inr qs"
    and cs: "cs = List.map_filter id qs"
    by (auto simp: lower_clauses_def bind_res_eq_Inr)
  from qs have "list_all2 (\<lambda>p q. bind_res (subst_pred_res \<sigma> p) lower_pred_res = Inr q) preds qs"
    by (simp add: map_res_Inr_iff)
  then have "list_all2 (\<lambda>p q. q = lower_pred (subst_pred \<sigma> p)) preds qs"
    by (rule list_all2_mono)
       (auto simp: subst_pred_res_def bind_res_eq_Inr split: if_splits dest: lower_pred_res_Inr)
  then have "qs = map (\<lambda>p. lower_pred (subst_pred \<sigma> p)) preds"
    by (induction rule: list_all2_induct) simp_all
  with cs show ?thesis
    by (simp add: map_filter_id_map)
qed

lemma lower_clauses_length:
  "lower_clauses \<sigma> preds = Inr cs \<Longrightarrow> length cs = length (filter pred_representable preds)"
  by (drule lower_clauses_Inr)
     (simp add: length_map_filter_eq lower_pred_representable representable_subst)

lemma pred_kind_inst_shift:
  assumes cs: "const_params_scalar ps" and wf: "host_pred_kind_wf ps [n] k"
  shows "pred_kind_params_ok (shifted_bound_vars (length F) ps) k \<and>
         pred_kind_params_ok [] (subst_pred_kind 1 (shifted_bound_vars (length F) ps) k) \<and>
         (\<forall>wc. lower_pred_kind (subst_pred_kind 1 (shifted_bound_vars (length F) ps) k) = Some wc \<longrightarrow>
               wc_wf (replicate n VKLifetime # F @ [item_binder ps]) wc)"
proof -
  note I = inst_lower_wf_shift[OF cs, where H = "[n]" and F = F, simplified]
  from wf show ?thesis
    by (cases k)
       (auto simp: lenv_def list_all_iff I dest!: I(1) I(2) region_inst_shift[where H = "[n]" and F = F, simplified])
qed

lemma pred_inst_shift:
  assumes cs: "const_params_scalar ps" and wf: "host_pred_wf ps p"
  shows "bind_res (subst_pred_res (shifted_bound_vars (length F) ps) p) lower_pred_res =
           Inr (lower_pred (subst_pred (shifted_bound_vars (length F) ps) p)) \<and>
         (\<forall>c. lower_pred (subst_pred (shifted_bound_vars (length F) ps) p) = Some c \<longrightarrow>
              qwc_wf (F @ [item_binder ps]) c)"
proof (cases p)
  case (Predicate n k)
  with pred_kind_inst_shift[OF cs, of n k F] wf show ?thesis
    by (auto simp: subst_pred_res_def split: option.splits)
qed

lemma lower_clauses_wf_shift:
  assumes "const_params_scalar ps" "list_all (host_pred_wf ps) preds"
  shows "lower_clauses (shifted_bound_vars (length F) ps) preds =
           Inr (List.map_filter (\<lambda>p. lower_pred (subst_pred (shifted_bound_vars (length F) ps) p)) preds) \<and>
         list_all (qwc_wf (F @ [item_binder ps]))
           (List.map_filter (\<lambda>p. lower_pred (subst_pred (shifted_bound_vars (length F) ps) p)) preds)"
proof -
  have "map_res (\<lambda>p. bind_res (subst_pred_res (shifted_bound_vars (length F) ps) p) lower_pred_res) preds =
          Inr (map (\<lambda>p. lower_pred (subst_pred (shifted_bound_vars (length F) ps) p)) preds)"
    using assms by (intro map_res_cong_Inr) (simp add: list_all_iff pred_inst_shift)
  moreover have "list_all (qwc_wf (F @ [item_binder ps]))
           (List.map_filter (\<lambda>p. lower_pred (subst_pred (shifted_bound_vars (length F) ps) p)) preds)"
    using assms by (auto simp: list_all_iff set_map_filter dest: pred_inst_shift)
  ultimately show ?thesis
    by (simp add: lower_clauses_def map_filter_id_map)
qed

lemma pred_inst:
  assumes cs: "const_params_scalar ps" and wf: "host_pred_wf ps p"
  shows "bind_res (subst_pred_res (item_bound_vars ps) p) lower_pred_res =
           Inr (lower_pred (subst_pred (item_bound_vars ps) p)) \<and>
         (\<forall>c. lower_pred (subst_pred (item_bound_vars ps) p) = Some c \<longrightarrow>
              qwc_wf [item_binder ps] c)"
  using pred_inst_shift[OF assms, where F = "[]"] unfolding list.size append_Nil shifted_bound_vars_0 .

lemma lower_clauses_wf:
  assumes "const_params_scalar ps" "list_all (host_pred_wf ps) preds"
  shows "lower_clauses (item_bound_vars ps) preds =
           Inr (List.map_filter (\<lambda>p. lower_pred (subst_pred (item_bound_vars ps) p)) preds) \<and>
         list_all (qwc_wf [item_binder ps])
           (List.map_filter (\<lambda>p. lower_pred (subst_pred (item_bound_vars ps) p)) preds)"
  using lower_clauses_wf_shift[OF assms, where F = "[]"] unfolding list.size append_Nil shifted_bound_vars_0 .

lemma lower_clauses_raises [panics]:
  "lower_clauses bvs preds = Inl e \<Longrightarrow> e \<in> {ESubstParam, ELowerParam}"
  unfolding lower_clauses_def
  by (auto simp: bind_res_eq_Inl dest!: map_res_raises dest: subst_pred_res_raises lower_pred_res_raises)

lemma where_clauses_for_raises [panics]:
  "where_clauses_for tcx d bvs = Inl e \<Longrightarrow> e \<in> {ESubstParam, ELowerParam}"
  unfolding where_clauses_for_def by (rule lower_clauses_raises)

lemma bounds_for_raises [panics]: "bounds_for tcx d bvs = Inl e \<Longrightarrow> e \<in> {ESubstParam, ELowerParam}"
  unfolding bounds_for_def by (rule lower_clauses_raises)

section \<open>Properties\<close>

text \<open>
  C27.  Where-clause subset property: the clauses \<open>where_clauses_for\<close>
  returns are the item's predicates, instantiated and lowered, in declaration
  order, with exactly the predicates that have no solver form dropped; so
  there are never more clauses than predicates.
\<close>

theorem where_clauses_subset:
  assumes "where_clauses_for tcx d \<sigma> = Inr cs"
  shows "cs = List.map_filter (\<lambda>p. lower_pred (subst_pred \<sigma> p)) (predicates_defined_on tcx d) \<and>
         length cs = length (filter pred_representable (predicates_defined_on tcx d)) \<and>
         length cs \<le> length (predicates_defined_on tcx d)"
  using lower_clauses_Inr[of \<sigma> "predicates_defined_on tcx d" cs]
        lower_clauses_length[of \<sigma> "predicates_defined_on tcx d" cs] assms
  by (simp add: where_clauses_for_def)

theorem where_clauses_subset_witness:
  "where_clauses_for (empty_tcx\<lparr>predicates_defined_on := \<lambda>_.
      [Predicate 0 (PTrait 5 [GTy (TParam 0)]), Predicate 0 (PWellFormed (GTy (TParam 0)))]\<rparr>) 3
      [GTy (TBound 0 0)] = Inr [Binders [] (Implemented 5 [CGTy (CBoundVar 1 0)])] \<and>
   length [Binders [] (Implemented 5 [CGTy (CBoundVar 1 0)])] = 1 \<and>
   [Binders [] (Implemented 5 [CGTy (CBoundVar 1 0)])] =
     List.map_filter (\<lambda>p. lower_pred (subst_pred [GTy (TBound 0 0)] p))
       [Predicate 0 (PTrait 5 [GTy (TParam 0)]), Predicate 0 (PWellFormed (GTy (TParam 0)))]"
proof -
  have w: "where_clauses_for (empty_tcx\<lparr>predicates_defined_on := \<lambda>_.
      [Predicate 0 (PTrait 5 [GTy (TParam 0)]), Predicate 0 (PWellFormed (GTy (TParam 0)))]\<rparr>) 3
      [GTy (TBound 0 0)] = Inr [Binders [] (Implemented 5 [CGTy (CBoundVar 1 0)])]"
    by (simp add: where_clauses_for_def lower_clauses_def subst_pred_res_def)
  show ?thesis using w where_clauses_subset[OF w] by simp
qed

end
