(* ===== verification/Well_Known.thy ===== *)
theory Well_Known
  imports Host_Ctx
begin

text \<open>
  The well-known trait classifier.  \<open>trait_datum\<close> (\<open>db.rs\<close> lines
  122--147) maps a trait's \<open>DefId\<close> to the solver's role by comparing it with
  the host's lang items in a fixed order; \<open>well_known_trait_id\<close> (lines
  552--574) maps a role back to the lang item's \<open>DefId\<close>.  Results: the two
  directions are inverse on the eleven roles the forward chain tests, provided
  the lang items name distinct traits; the forward direction never yields
  \<open>Generator\<close> or \<open>DiscriminantKind\<close>, although the reverse direction
  answers for both.
\<close>

section \<open>Definitions\<close>

datatype well_known_trait =
    Sized | Copy | Clone | Drop | Fn | FnMut | FnOnce | Unsize | Unpin
  | CoerceUnsized | DiscriminantKind | Generator | DispatchFromDyn

text \<open>The \<open>if lang_items.x_trait() == Some(def_id)\<close> chain of \<open>trait_datum\<close>.\<close>

definition well_known_of :: "tcx \<Rightarrow> def_id \<Rightarrow> well_known_trait option" where
  "well_known_of tcx def_id =
     (let lang_items = lang_items tcx in
      if lang_items SizedTrait = Some def_id then Some Sized
      else if lang_items CopyTrait = Some def_id then Some Copy
      else if lang_items CloneTrait = Some def_id then Some Clone
      else if lang_items DropTrait = Some def_id then Some Drop
      else if lang_items FnTrait = Some def_id then Some Fn
      else if lang_items FnOnceTrait = Some def_id then Some FnOnce
      else if lang_items FnMutTrait = Some def_id then Some FnMut
      else if lang_items UnsizeTrait = Some def_id then Some Unsize
      else if lang_items UnpinTrait = Some def_id then Some Unpin
      else if lang_items CoerceUnsizedTrait = Some def_id then Some CoerceUnsized
      else if lang_items DispatchFromDynTrait = Some def_id then Some DispatchFromDyn
      else None)"

text \<open>The \<open>match\<close> of \<open>well_known_trait_id\<close>.\<close>

primrec lang_item_of :: "well_known_trait \<Rightarrow> lang_item" where
  "lang_item_of Sized = SizedTrait"
| "lang_item_of Copy = CopyTrait"
| "lang_item_of Clone = CloneTrait"
| "lang_item_of Drop = DropTrait"
| "lang_item_of Fn = FnTrait"
| "lang_item_of FnMut = FnMutTrait"
| "lang_item_of FnOnce = FnOnceTrait"
| "lang_item_of Generator = GenTrait"
| "lang_item_of Unsize = UnsizeTrait"
| "lang_item_of Unpin = UnpinTrait"
| "lang_item_of CoerceUnsized = CoerceUnsizedTrait"
| "lang_item_of DiscriminantKind = DiscriminantKindTrait"
| "lang_item_of DispatchFromDyn = DispatchFromDynTrait"

definition well_known_trait_id :: "tcx \<Rightarrow> well_known_trait \<Rightarrow> def_id option" where
  "well_known_trait_id tcx wk = lang_items tcx (lang_item_of wk)"

text \<open>Every lang item that names a trait, and the condition that the defined ones
  name distinct traits.\<close>

definition all_lang_items :: "lang_item list" where
  "all_lang_items =
     [SizedTrait, CopyTrait, CloneTrait, DropTrait, FnTrait, FnMutTrait, FnOnceTrait, GenTrait,
      UnsizeTrait, UnpinTrait, CoerceUnsizedTrait, DiscriminantKindTrait, DispatchFromDynTrait]"

definition lang_items_distinct :: "tcx \<Rightarrow> bool" where
  "lang_items_distinct tcx \<longleftrightarrow> distinct (List.map_filter (lang_items tcx) all_lang_items)"

text \<open>The roles the forward chain tests.\<close>

definition classified_role :: "well_known_trait \<Rightarrow> bool" where
  "classified_role wk \<longleftrightarrow> wk \<noteq> Generator \<and> wk \<noteq> DiscriminantKind"

section \<open>Lemmas\<close>

lemma set_all_lang_items: "set all_lang_items = UNIV"
proof -
  have "x \<in> set all_lang_items" for x by (cases x) (simp_all add: all_lang_items_def)
  then show ?thesis by blast
qed

lemma distinct_map_filter_inj:
  assumes "distinct (List.map_filter f xs)" "a \<in> set xs" "b \<in> set xs" "f a = Some d" "f b = Some d"
  shows "a = b"
  using assms
proof (induction xs)
  case Nil
  then show ?case by simp
next
  case (Cons x xs)
  then show ?case
    by (cases "f x") (auto simp: set_map_filter split: if_splits)
qed

lemma lang_items_inj:
  assumes "lang_items_distinct tcx" "lang_items tcx a = Some d" "lang_items tcx b = Some d"
  shows "a = b"
  using distinct_map_filter_inj[of "lang_items tcx" all_lang_items a b d] assms
  by (simp add: lang_items_distinct_def set_all_lang_items)

lemma well_known_of_Some:
  "well_known_of tcx d = Some wk \<Longrightarrow> lang_items tcx (lang_item_of wk) = Some d \<and> classified_role wk"
  by (simp add: well_known_of_def classified_role_def Let_def split: if_splits)

section \<open>Properties\<close>

text \<open>
  C3.  Round trip from role to trait and back: when the lang items name
  distinct traits, a role tested by \<open>trait_datum\<close>'s chain whose lang item is
  the trait \<open>d\<close> (\<open>well_known_trait_id\<close>) is exactly the role that
  \<open>trait_datum\<close> assigns to \<open>d\<close>.
\<close>

theorem well_known_roundtrip:
  assumes "lang_items_distinct tcx" "classified_role wk" "well_known_trait_id tcx wk = Some d"
  shows "well_known_of tcx d = Some wk"
proof -
  have inj: "\<And>a. lang_items tcx a = Some d \<Longrightarrow> a = lang_item_of wk"
    using assms(1,3) lang_items_inj unfolding well_known_trait_id_def by metis
  show ?thesis
    using assms(2,3) inj
    by (cases wk) (auto simp: well_known_of_def well_known_trait_id_def classified_role_def Let_def)
qed

theorem well_known_roundtrip_witness:
  "lang_items_distinct (empty_tcx\<lparr>lang_items := (\<lambda>x. case x of FnTrait \<Rightarrow> Some 10 | FnMutTrait \<Rightarrow> Some 11
                                    | FnOnceTrait \<Rightarrow> Some 12 | _ \<Rightarrow> None)\<rparr>) \<and>
   classified_role FnMut \<and>
   well_known_trait_id (empty_tcx\<lparr>lang_items := (\<lambda>x. case x of FnTrait \<Rightarrow> Some 10 | FnMutTrait \<Rightarrow> Some 11
                                    | FnOnceTrait \<Rightarrow> Some 12 | _ \<Rightarrow> None)\<rparr>) FnMut = Some 11 \<and>
   well_known_of (empty_tcx\<lparr>lang_items := (\<lambda>x. case x of FnTrait \<Rightarrow> Some 10 | FnMutTrait \<Rightarrow> Some 11
                                    | FnOnceTrait \<Rightarrow> Some 12 | _ \<Rightarrow> None)\<rparr>) 11 = Some FnMut"
proof -
  let ?t = "empty_tcx\<lparr>lang_items := (\<lambda>x. case x of FnTrait \<Rightarrow> Some 10 | FnMutTrait \<Rightarrow> Some 11
                                    | FnOnceTrait \<Rightarrow> Some 12 | _ \<Rightarrow> None)\<rparr>"
  have a: "lang_items_distinct ?t"
    by (simp add: lang_items_distinct_def all_lang_items_def)
  have b: "classified_role FnMut" by (simp add: classified_role_def)
  have c: "well_known_trait_id ?t FnMut = Some 11" by (simp add: well_known_trait_id_def)
  show ?thesis using a b c well_known_roundtrip[OF a b c] by simp
qed

text \<open>
  C4.  Round trip from trait to role and back: whenever \<open>trait_datum\<close>
  classifies a trait \<open>d\<close> as a role, \<open>well_known_trait_id\<close> of that role is
  \<open>d\<close>; and that role is never \<open>Generator\<close> nor \<open>DiscriminantKind\<close>,
  which the forward chain does not test.
\<close>

theorem well_known_reverse:
  assumes "well_known_of tcx d = Some wk"
  shows "well_known_trait_id tcx wk = Some d \<and> wk \<noteq> Generator \<and> wk \<noteq> DiscriminantKind"
  using well_known_of_Some[OF assms] by (simp add: well_known_trait_id_def classified_role_def)

theorem well_known_reverse_witness:
  "well_known_of (empty_tcx\<lparr>lang_items := (\<lambda>x. case x of GenTrait \<Rightarrow> Some 5 | DropTrait \<Rightarrow> Some 6
                                 | _ \<Rightarrow> None)\<rparr>) 6 = Some Drop \<and>
   well_known_trait_id (empty_tcx\<lparr>lang_items := (\<lambda>x. case x of GenTrait \<Rightarrow> Some 5 | DropTrait \<Rightarrow> Some 6
                                 | _ \<Rightarrow> None)\<rparr>) Drop = Some 6 \<and>
   well_known_trait_id (empty_tcx\<lparr>lang_items := (\<lambda>x. case x of GenTrait \<Rightarrow> Some 5 | DropTrait \<Rightarrow> Some 6
                                 | _ \<Rightarrow> None)\<rparr>) Generator = Some 5 \<and>
   well_known_of (empty_tcx\<lparr>lang_items := (\<lambda>x. case x of GenTrait \<Rightarrow> Some 5 | DropTrait \<Rightarrow> Some 6
                                 | _ \<Rightarrow> None)\<rparr>) 5 = None"
proof -
  let ?t = "empty_tcx\<lparr>lang_items := (\<lambda>x. case x of GenTrait \<Rightarrow> Some 5 | DropTrait \<Rightarrow> Some 6
                                 | _ \<Rightarrow> None)\<rparr>"
  have a: "well_known_of ?t 6 = Some Drop"
    by (simp add: well_known_of_def)
  have g: "well_known_trait_id ?t Generator = Some 5 \<and> well_known_of ?t 5 = None"
    by (simp add: well_known_of_def well_known_trait_id_def)
  show ?thesis using a g well_known_reverse[OF a] by simp
qed

end
