(* ===== verification/Datums.thy ===== *)
theory Datums
  imports Where_Clauses Well_Known
begin

text \<open>
  The item datum builders of \<open>db.rs\<close>: \<open>associated_ty_data\<close> (lines
  69--97), \<open>trait_datum\<close> (99--165), \<open>adt_datum\<close> (167--206),
  \<open>adt_repr\<close> (208--237), \<open>adt_size_align\<close> (239--259),
  \<open>fn_def_datum\<close> (261--301), \<open>impl_datum\<close> (303--336) and
  \<open>associated_ty_value\<close> (450--480).  Each builds the item's bound
  variables and binder (\<open>Binders.thy\<close>), lowers its where-clauses
  (\<open>Where_Clauses.thy\<close>) and adds what its kind needs, in the order of the
  source, so that the first panic of the source is the error of the model.
  The solver's datum records keep the field names of \<open>chalk_solve::rust_ir\<close>
  behind a short prefix.
\<close>

section \<open>Solver datums\<close>

record trait_flags =
  tf_auto :: bool
  tf_marker :: bool
  tf_upstream :: bool
  tf_fundamental :: bool
  tf_non_enumerable :: bool
  tf_coinductive :: bool

record trait_datum =
  td_id :: def_id
  td_binders :: "qwc list binders"
  td_flags :: trait_flags
  td_associated_ty_ids :: "def_id list"
  td_well_known :: "well_known_trait option"

record adt_datum_bound =
  adb_variants :: "cty list list"
  adb_where_clauses :: "qwc list"

record adt_flags =
  af_upstream :: bool
  af_fundamental :: bool
  af_phantom_data :: bool

datatype c_adt_kind = CStruct | CUnion | CEnum

record adt_datum =
  ad_id :: def_id
  ad_binders :: "adt_datum_bound binders"
  ad_flags :: adt_flags
  ad_kind :: c_adt_kind

record adt_repr =
  ar_c :: bool
  ar_packed :: bool
  ar_int :: "cty option"

record adt_size_align =
  one_zst :: bool

record fn_def_io =
  argument_types :: "cty list"
  return_type :: cty

record fn_def_datum_bound =
  fdb_inputs_and_output :: "fn_def_io binders"
  fdb_where_clauses :: "qwc list"

text \<open>\<open>chalk_ir::FnSig\<close>.\<close>

datatype safety = CSafe | CUnsafe

record c_fn_sig =
  cfs_abi :: abi
  cfs_safety :: safety
  cfs_variadic :: bool

record fn_def_datum =
  fd_id :: def_id
  fd_sig :: c_fn_sig
  fd_binders :: "fn_def_datum_bound binders"

datatype polarity = PPositive | PNegative

record impl_datum_bound =
  idb_trait_ref :: "def_id \<times> cgarg list"
  idb_where_clauses :: "qwc list"

record impl_datum =
  id_polarity :: polarity
  id_binders :: "impl_datum_bound binders"
  id_impl_type_local :: bool
  id_associated_ty_value_ids :: "def_id list"

record assoc_ty_datum_bound =
  atb_bounds :: "qwc list"
  atb_where_clauses :: "qwc list"

record assoc_ty_datum =
  at_trait_id :: def_id
  at_id :: def_id
  at_binders :: "assoc_ty_datum_bound binders"

record assoc_ty_value =
  av_impl_id :: def_id
  av_associated_ty_id :: def_id
  av_value :: "cty binders"

section \<open>Helpers\<close>

text \<open>\<open>EarlyBinder(t).subst(tcx, bound_vars).lower_into(interner)\<close>.\<close>

definition subst_lower_ty :: "garg list \<Rightarrow> ty \<Rightarrow> cty res" where
  "subst_lower_ty bound_vars t = bind_res (subst_ty_res bound_vars t) lower_ty_res"

text \<open>\<open>LowerInto<chalk_ir::FnSig> for Binder<FnSig>\<close>: the ABI and the
  variadic flag are kept, unsafety becomes safety.\<close>

definition lower_fn_sig :: "poly_fn_sig \<Rightarrow> c_fn_sig" where
  "lower_fn_sig sig =
     \<lparr>cfs_abi = sig_abi sig,
      cfs_safety = (case sig_unsafety sig of Normal \<Rightarrow> CSafe | Unsafe \<Rightarrow> CUnsafe),
      cfs_variadic = sig_c_variadic sig\<rparr>"

text \<open>The type-kind associated items of a container, in definition order.\<close>

definition assoc_type_ids :: "tcx \<Rightarrow> def_id \<Rightarrow> def_id list" where
  "assoc_type_ids tcx d = map ai_def_id (filter (\<lambda>i. ai_kind i = AKType) (associated_items tcx d))"

primrec lower_adt_kind :: "adt_kind \<Rightarrow> c_adt_kind" where
  "lower_adt_kind Struct = CStruct"
| "lower_adt_kind Union = CUnion"
| "lower_adt_kind Enum = CEnum"

text \<open>\<open>ImplPolarity::lower_into\<close> (a reservation impl is treated as negative).\<close>

primrec lower_polarity :: "impl_polarity \<Rightarrow> polarity" where
  "lower_polarity Positive = PPositive"
| "lower_polarity Negative = PNegative"
| "lower_polarity Reservation = PNegative"

primrec trait_container :: "assoc_container \<Rightarrow> def_id option" where
  "trait_container (TraitContainer t) = Some t"
| "trait_container (ImplContainer i) = None"

primrec container_id :: "assoc_container \<Rightarrow> def_id" where
  "container_id (TraitContainer t) = t"
| "container_id (ImplContainer i) = i"

text \<open>Well-formed host facts for an item: dense generics, scalar const
  parameters, and predicates that only name its own parameters.\<close>

definition item_wf :: "tcx \<Rightarrow> def_id \<Rightarrow> bool" where
  "item_wf tcx d \<longleftrightarrow>
     dense_generics (generics_of tcx d) \<and> const_params_scalar (generics_of tcx d) \<and>
     list_all (host_pred_wf (generics_of tcx d)) (predicates_defined_on tcx d)"

section \<open>Builders\<close>

definition trait_datum :: "tcx \<Rightarrow> def_id \<Rightarrow> trait_datum res" where
  "trait_datum tcx def_id =
     (let trait_def = trait_def tcx def_id in
      bind_res (bound_vars_for_item tcx def_id) (\<lambda>bound_vars.
      bind_res (binders_for bound_vars) (\<lambda>binders.
      bind_res (where_clauses_for tcx def_id bound_vars) (\<lambda>where_clauses.
      Inr \<lparr>td_id = def_id,
           td_binders = Binders binders where_clauses,
           td_flags = \<lparr>tf_auto = has_auto_impl trait_def, tf_marker = is_marker trait_def,
                       tf_upstream = \<not> is_local tcx def_id,
                       tf_fundamental = has_fundamental_attr tcx def_id,
                       tf_non_enumerable = True, tf_coinductive = False\<rparr>,
           td_associated_ty_ids = assoc_type_ids tcx def_id,
           td_well_known = well_known_of tcx def_id\<rparr>))))"

definition adt_datum :: "tcx \<Rightarrow> adt_def \<Rightarrow> adt_datum res" where
  "adt_datum tcx adt_def =
     bind_res (bound_vars_for_item tcx (adt_did adt_def)) (\<lambda>bound_vars.
     bind_res (binders_for bound_vars) (\<lambda>binders.
     bind_res (where_clauses_for tcx (adt_did adt_def) bound_vars) (\<lambda>where_clauses.
     bind_res (map_res (\<lambda>variant. map_res (\<lambda>field. subst_lower_ty bound_vars (type_of tcx field)) variant)
                 (adt_variants adt_def)) (\<lambda>variants.
     Inr \<lparr>ad_id = adt_did adt_def,
          ad_binders = Binders binders \<lparr>adb_variants = variants, adb_where_clauses = where_clauses\<rparr>,
          ad_flags = \<lparr>af_upstream = \<not> is_local tcx (adt_did adt_def),
                      af_fundamental = adt_is_fundamental adt_def,
                      af_phantom_data = adt_is_phantom_data adt_def\<rparr>,
          ad_kind = lower_adt_kind (adt_kind_of adt_def)\<rparr>))))"

text \<open>The explicit \<open>IntType\<close> table of \<open>adt_repr\<close>.\<close>

fun repr_int_ty :: "int_type \<Rightarrow> cty" where
  "repr_int_ty (SignedInt Isize) = CScalar (SInt CIsize)"
| "repr_int_ty (SignedInt I8) = CScalar (SInt CI8)"
| "repr_int_ty (SignedInt I16) = CScalar (SInt CI16)"
| "repr_int_ty (SignedInt I32) = CScalar (SInt CI32)"
| "repr_int_ty (SignedInt I64) = CScalar (SInt CI64)"
| "repr_int_ty (SignedInt I128) = CScalar (SInt CI128)"
| "repr_int_ty (UnsignedInt Usize) = CScalar (SUint CUsize)"
| "repr_int_ty (UnsignedInt U8) = CScalar (SUint CU8)"
| "repr_int_ty (UnsignedInt U16) = CScalar (SUint CU16)"
| "repr_int_ty (UnsignedInt U32) = CScalar (SUint CU32)"
| "repr_int_ty (UnsignedInt U64) = CScalar (SUint CU64)"
| "repr_int_ty (UnsignedInt U128) = CScalar (SUint CU128)"

definition adt_repr :: "adt_def \<Rightarrow> adt_repr" where
  "adt_repr adt_def =
     \<lparr>ar_c = repr_c adt_def, ar_packed = repr_packed adt_def,
      ar_int = map_option repr_int_ty (repr_int adt_def)\<rparr>"

definition adt_size_align :: "tcx \<Rightarrow> adt_def \<Rightarrow> adt_size_align" where
  "adt_size_align tcx adt_def =
     (let one_zst = (case layout_of tcx (adt_did adt_def) of
                       Some layout \<Rightarrow> lay_size layout = 0 \<and> lay_align layout = 1
                     | None \<Rightarrow> False)
      in \<lparr>one_zst = one_zst\<rparr>)"

text \<open>The signature is instantiated under its own binder (the substitution
  passes it), so its types are substituted one level down.\<close>

definition subst_sig_res :: "garg list \<Rightarrow> ty list \<Rightarrow> ty list res" where
  "subst_sig_res bound_vars ts =
     (if list_all (ty_params_ok bound_vars) ts then Inr (map (subst_ty 1 bound_vars) ts)
      else Inl ESubstParam)"

definition fn_def_datum :: "tcx \<Rightarrow> def_id \<Rightarrow> fn_def_datum res" where
  "fn_def_datum tcx def_id =
     bind_res (bound_vars_for_item tcx def_id) (\<lambda>bound_vars.
     bind_res (binders_for bound_vars) (\<lambda>binders.
     bind_res (where_clauses_for tcx def_id bound_vars) (\<lambda>where_clauses.
     (let sig = fn_sig tcx def_id in
      bind_res (subst_sig_res bound_vars (sig_inputs_and_output sig)) (\<lambda>inputs_and_output.
      (let iobinders = replicate (sig_bound_vars sig) VKLifetime in
       bind_res (usize_sub (length inputs_and_output) 1) (\<lambda>n.
       bind_res (map_res (subst_lower_ty bound_vars) (take n inputs_and_output)) (\<lambda>argument_types.
       bind_res (bind_res (nth_res inputs_and_output n) (subst_lower_ty bound_vars)) (\<lambda>return_type.
       Inr \<lparr>fd_id = def_id,
            fd_sig = lower_fn_sig sig,
            fd_binders = Binders binders
              \<lparr>fdb_inputs_and_output = Binders iobinders
                 \<lparr>argument_types = argument_types, return_type = return_type\<rparr>,
               fdb_where_clauses = where_clauses\<rparr>\<rparr>)))))))))"

definition impl_datum :: "tcx \<Rightarrow> def_id \<Rightarrow> impl_datum res" where
  "impl_datum tcx def_id =
     bind_res (bound_vars_for_item tcx def_id) (\<lambda>bound_vars.
     bind_res (binders_for bound_vars) (\<lambda>binders.
     bind_res (expect_res (impl_trait_ref tcx def_id)) (\<lambda>trait_ref.
     bind_res (subst_gargs_res bound_vars (snd trait_ref)) (\<lambda>trait_substs.
     bind_res (where_clauses_for tcx def_id bound_vars) (\<lambda>where_clauses.
     bind_res (lower_gargs_res trait_substs) (\<lambda>lowered_substs.
     Inr \<lparr>id_polarity = lower_polarity (impl_polarity tcx def_id),
          id_binders = Binders binders
            \<lparr>idb_trait_ref = (fst trait_ref, lowered_substs), idb_where_clauses = where_clauses\<rparr>,
          id_impl_type_local = True,
          id_associated_ty_value_ids = assoc_type_ids tcx def_id\<rparr>))))))"

definition associated_ty_data :: "tcx \<Rightarrow> def_id \<Rightarrow> assoc_ty_datum res" where
  "associated_ty_data tcx def_id =
     (let assoc_item = associated_item tcx def_id in
      case trait_container (ai_container assoc_item) of
        None \<Rightarrow> Inl ENotPossible
      | Some trait_def_id \<Rightarrow>
          if ai_kind assoc_item \<noteq> AKType then Inl ENotPossible
          else
            bind_res (bound_vars_for_item tcx def_id) (\<lambda>bound_vars.
            bind_res (binders_for bound_vars) (\<lambda>binders.
            bind_res (where_clauses_for tcx def_id bound_vars) (\<lambda>where_clauses.
            bind_res (bounds_for tcx def_id bound_vars) (\<lambda>bounds.
            Inr \<lparr>at_trait_id = trait_def_id, at_id = def_id,
                 at_binders = Binders binders
                   \<lparr>atb_bounds = bounds, atb_where_clauses = where_clauses\<rparr>\<rparr>)))))"

definition associated_ty_value :: "tcx \<Rightarrow> def_id \<Rightarrow> assoc_ty_value res" where
  "associated_ty_value tcx def_id =
     (let assoc_item = associated_item tcx def_id;
          impl_id = container_id (ai_container assoc_item) in
      if ai_kind assoc_item \<noteq> AKType then Inl ENotPossible
      else
        bind_res (expect_res (ai_trait_item_def_id assoc_item)) (\<lambda>trait_item_id.
        bind_res (bound_vars_for_item tcx def_id) (\<lambda>bound_vars.
        bind_res (binders_for bound_vars) (\<lambda>binders.
        bind_res (subst_lower_ty bound_vars (type_of tcx def_id)) (\<lambda>ty.
        Inr \<lparr>av_impl_id = impl_id, av_associated_ty_id = trait_item_id,
             av_value = Binders binders ty\<rparr>)))))"

text \<open>Host facts of an ADT and of a function item that only name their own
  parameters (the signature's types may also name its late-bound regions).\<close>

definition adt_wf :: "tcx \<Rightarrow> adt_def \<Rightarrow> bool" where
  "adt_wf tcx adt \<longleftrightarrow> item_wf tcx (adt_did adt) \<and>
     list_all (list_all (\<lambda>f. host_ty_wf (generics_of tcx (adt_did adt)) [] (type_of tcx f)))
       (adt_variants adt)"

definition fn_wf :: "tcx \<Rightarrow> def_id \<Rightarrow> bool" where
  "fn_wf tcx d \<longleftrightarrow> item_wf tcx d \<and>
     list_all (host_ty_wf (generics_of tcx d) [sig_bound_vars (fn_sig tcx d)])
       (sig_inputs_and_output (fn_sig tcx d))"

definition impl_wf :: "tcx \<Rightarrow> def_id \<Rightarrow> bool" where
  "impl_wf tcx d \<longleftrightarrow> item_wf tcx d \<and>
     (case impl_trait_ref tcx d of
        None \<Rightarrow> False
      | Some (tr, gs) \<Rightarrow> list_all (host_garg_wf (generics_of tcx d) []) gs)"

definition assoc_ty_wf :: "tcx \<Rightarrow> def_id \<Rightarrow> bool" where
  "assoc_ty_wf tcx d \<longleftrightarrow> item_wf tcx d \<and>
     list_all (host_pred_wf (generics_of tcx d)) (explicit_item_bounds tcx d)"

text \<open>The host integer type a \<open>#[repr]\<close> integer names.\<close>

primrec int_type_ty :: "int_type \<Rightarrow> ty" where
  "int_type_ty (SignedInt i) = TInt i"
| "int_type_ty (UnsignedInt u) = TUint u"

section \<open>Example host facts\<close>

text \<open>\<open>struct Pair<T> { a: T, b: T }\<close>: the ADT 1 with fields 2 and 3.\<close>

definition pair_adt :: adt_def where
  "pair_adt = \<lparr>adt_did = 1, adt_variants = [[2, 3]], adt_kind_of = Struct,
     adt_is_fundamental = False, adt_is_phantom_data = False, repr_c = False, repr_packed = False,
     repr_int = None\<rparr>"

definition pair_tcx :: tcx where
  "pair_tcx = empty_tcx\<lparr>generics_of := (\<lambda>d. if d = 1 then [\<lparr>gp_index = 0, gp_kind = PKType\<rparr>] else []),
                        predicates_defined_on := (\<lambda>d. []), is_local := (\<lambda>d. True),
                        type_of := (\<lambda>d. if d = 2 \<or> d = 3 then TParam 0 else TError)\<rparr>"

text \<open>\<open>trait Tr<T>: Sup<T> where T: Wf { type A; fn f(); }\<close> as item 5 (the
  self parameter omitted, the associated type \<open>A\<close> is item 20),
  \<open>fn g<T>(x: &'b T) -> T\<close> as item 6, its signature binding \<open>'b\<close>,
  and \<open>impl<T> Tr for Pair<T> { type A = [T]; }\<close> as item 7 with the
  associated type value 30.\<close>

definition trait_tcx :: tcx where
  "trait_tcx = empty_tcx\<lparr>
     generics_of := (\<lambda>d. [\<lparr>gp_index = 0, gp_kind = PKType\<rparr>]),
     predicates_defined_on := (\<lambda>d. if d = 5 then [Predicate 0 (PTrait 9 [GTy (TParam 0)]),
                                                Predicate 0 (PWellFormed (GTy (TParam 0)))] else []),
     associated_items := (\<lambda>d. if d = 5 then
        [\<lparr>ai_def_id = 20, ai_kind = AKType, ai_container = TraitContainer 5, ai_trait_item_def_id = None\<rparr>,
         \<lparr>ai_def_id = 21, ai_kind = AKFn, ai_container = TraitContainer 5, ai_trait_item_def_id = None\<rparr>]
        else []),
     fn_sig := (\<lambda>d. \<lparr>sig_bound_vars = 1,
                      sig_inputs_and_output = [TRef (ReLateBound 0 0) (TParam 0) NotMut, TParam 0],
                      sig_c_variadic = False, sig_unsafety = Unsafe, sig_abi = 3\<rparr>),
     impl_trait_ref := (\<lambda>d. if d = 7 then Some (5, [GTy (TAdt 1 [GTy (TParam 0)])]) else None),
     associated_item := (\<lambda>d.
        \<lparr>ai_def_id = d, ai_kind = if d = 20 \<or> d = 30 then AKType else AKFn,
         ai_container = if d = 30 then ImplContainer 7 else TraitContainer 5,
         ai_trait_item_def_id = if d = 30 then Some 20 else None\<rparr>),
     type_of := (\<lambda>d. if d = 30 then TSlice (TParam 0) else TError)\<rparr>"

section \<open>Lemmas\<close>

lemma item_wf_setup:
  assumes "item_wf tcx d"
  shows "bound_vars_for_item tcx d = Inr (item_bound_vars (generics_of tcx d)) \<and>
         binders_for (item_bound_vars (generics_of tcx d)) = Inr (item_binder (generics_of tcx d)) \<and>
         where_clauses_for tcx d (item_bound_vars (generics_of tcx d)) =
           Inr (List.map_filter (\<lambda>p. lower_pred (subst_pred (item_bound_vars (generics_of tcx d)) p))
                  (predicates_defined_on tcx d)) \<and>
         list_all (qwc_wf [item_binder (generics_of tcx d)])
           (List.map_filter (\<lambda>p. lower_pred (subst_pred (item_bound_vars (generics_of tcx d)) p))
              (predicates_defined_on tcx d))"
  using assms lower_clauses_wf[of "generics_of tcx d" "predicates_defined_on tcx d"]
  by (simp add: item_wf_def bound_vars_for_item_eq binders_for_map2 where_clauses_for_def)

lemma subst_lower_ty_wf:
  assumes "const_params_scalar ps" "host_ty_wf ps [] t"
  shows "subst_lower_ty (item_bound_vars ps) t = Inr (lower_ty (subst_ty 0 (item_bound_vars ps) t)) \<and>
         cty_wf [item_binder ps] (lower_ty (subst_ty 0 (item_bound_vars ps) t))"
  using inst_lower_wf(1)[OF assms(1), where H = "[]", OF assms(2)]
  by (simp add: subst_lower_ty_def subst_ty_res_def lower_ty_res_def lenv_def)

lemma subst_lower_ty_no_params:
  "lowerable_ty t \<Longrightarrow> subst_lower_ty \<sigma> t = Inr (lower_ty t)"
  by (simp add: subst_lower_ty_def subst_ty_res_def lower_ty_res_def subst_no_params params_ok_no_params)

lemma adt_fields_wf:
  assumes "const_params_scalar ps" "list_all (list_all (\<lambda>f. host_ty_wf ps [] (ty_of f))) vs"
  shows "map_res (\<lambda>v. map_res (\<lambda>f. subst_lower_ty (item_bound_vars ps) (ty_of f)) v) vs =
           Inr (map (map (\<lambda>f. lower_ty (subst_ty 0 (item_bound_vars ps) (ty_of f)))) vs) \<and>
         list_all (list_all (cty_wf [item_binder ps]))
           (map (map (\<lambda>f. lower_ty (subst_ty 0 (item_bound_vars ps) (ty_of f)))) vs)"
  using assms subst_lower_ty_wf[OF assms(1)]
  by (auto simp: list_all_iff intro!: map_res_cong_Inr)

lemma inst_gargs:
  assumes "const_params_scalar ps" "list_all (host_garg_wf ps []) gs"
  shows "subst_gargs_res (item_bound_vars ps) gs = Inr (map (subst_garg 0 (item_bound_vars ps)) gs) \<and>
         lower_gargs_res (map (subst_garg 0 (item_bound_vars ps)) gs) =
           Inr (map (\<lambda>g. lower_garg (subst_garg 0 (item_bound_vars ps) g)) gs) \<and>
         list_all (cgarg_wf [item_binder ps]) (map (\<lambda>g. lower_garg (subst_garg 0 (item_bound_vars ps) g)) gs)"
  using inst_lower_wf(2)[OF assms(1), where H = "[]"] assms(2)
  by (auto simp: subst_gargs_res_def lower_gargs_res_def list_all_iff lenv_def)

lemma repr_int_ty_lower: "repr_int_ty i = lower_ty (int_type_ty i)"
  by (cases i rule: repr_int_ty.cases) simp_all

lemma fn_sig_inst:
  assumes c: "const_params_scalar ps" and w: "list_all (host_ty_wf ps [n]) ios" and ne: "ios \<noteq> []"
  shows "subst_sig_res (item_bound_vars ps) ios = Inr (map (subst_ty 1 (item_bound_vars ps)) ios) \<and>
         usize_sub (length (map (subst_ty 1 (item_bound_vars ps)) ios)) 1 = Inr (length ios - 1) \<and>
         map_res (subst_lower_ty (item_bound_vars ps))
             (take (length ios - 1) (map (subst_ty 1 (item_bound_vars ps)) ios)) =
           Inr (map (\<lambda>t. lower_ty (subst_ty 1 (item_bound_vars ps) t)) (butlast ios)) \<and>
         bind_res (nth_res (map (subst_ty 1 (item_bound_vars ps)) ios) (length ios - 1))
             (subst_lower_ty (item_bound_vars ps)) =
           Inr (lower_ty (subst_ty 1 (item_bound_vars ps) (last ios))) \<and>
         list_all (cty_wf [replicate n VKLifetime, item_binder ps])
           (map (\<lambda>t. lower_ty (subst_ty 1 (item_bound_vars ps) t)) ios)"
proof -
  let ?\<sigma> = "item_bound_vars ps"
  have I: "ty_params_ok ?\<sigma> t \<and> lowerable_ty (subst_ty 1 ?\<sigma> t) \<and>
           cty_wf [replicate n VKLifetime, item_binder ps] (lower_ty (subst_ty 1 ?\<sigma> t))"
    if "t \<in> set ios" for t
    using inst_lower_wf(1)[OF c, where H = "[n]"] w that by (simp add: list_all_iff lenv_def)
  have tk: "take (length ios - 1) (map (subst_ty 1 ?\<sigma>) ios) = map (subst_ty 1 ?\<sigma>) (butlast ios)"
    by (simp add: butlast_conv_take take_map)
  have "map_res (subst_lower_ty ?\<sigma>) (map (subst_ty 1 ?\<sigma>) (butlast ios)) =
          Inr (map lower_ty (map (subst_ty 1 ?\<sigma>) (butlast ios)))"
    using I by (intro map_res_cong_Inr) (auto intro: subst_lower_ty_no_params dest: in_set_butlastD)
  moreover have "subst_lower_ty ?\<sigma> (subst_ty 1 ?\<sigma> (last ios)) = Inr (lower_ty (subst_ty 1 ?\<sigma> (last ios)))"
    using I[of "last ios"] ne by (simp add: subst_lower_ty_no_params)
  ultimately show ?thesis
    using I ne tk by (simp add: subst_sig_res_def usize_sub_def nth_res_def last_conv_nth list_all_iff Suc_le_eq)
qed

subsection \<open>Panics\<close>

lemma subst_lower_ty_raises [panics]:
  "subst_lower_ty bvs t = Inl e \<Longrightarrow> e \<in> {ESubstParam, ELowerParam}"
  by (auto simp: subst_lower_ty_def bind_res_eq_Inl dest: panics)

lemma subst_sig_res_raises [panics]: "subst_sig_res bvs ts = Inl e \<Longrightarrow> e = ESubstParam"
  by (simp add: subst_sig_res_def split: if_splits)

lemma trait_datum_raises [panics]:
  "trait_datum tcx d = Inl e \<Longrightarrow> e \<in> {EParamIndex, ESubstParam, ELowerParam}"
  unfolding trait_datum_def Let_def by (auto simp: bind_res_eq_Inl dest: panics)

lemma adt_datum_raises [panics]:
  "adt_datum tcx adt = Inl e \<Longrightarrow> e \<in> {EParamIndex, ESubstParam, ELowerParam}"
  unfolding adt_datum_def by (auto simp: bind_res_eq_Inl dest!: map_res_raises dest: panics)

lemma fn_def_datum_raises [panics]:
  "fn_def_datum tcx d = Inl e \<Longrightarrow> e \<in> {EParamIndex, ESubstParam, ELowerParam, EIndex}"
  unfolding fn_def_datum_def Let_def by (auto simp: bind_res_eq_Inl dest!: map_res_raises dest: panics)

lemma impl_datum_raises [panics]:
  "impl_datum tcx d = Inl e \<Longrightarrow> e \<in> {EParamIndex, ESubstParam, ELowerParam, EUnwrap}"
  unfolding impl_datum_def by (auto simp: bind_res_eq_Inl dest: panics)

lemma associated_ty_data_raises [panics]:
  "associated_ty_data tcx d = Inl e \<Longrightarrow> e \<in> {EParamIndex, ESubstParam, ELowerParam, ENotPossible}"
  unfolding associated_ty_data_def Let_def
  by (auto simp: bind_res_eq_Inl split: option.splits if_splits dest: panics)

lemma associated_ty_value_raises [panics]:
  "associated_ty_value tcx d = Inl e \<Longrightarrow>
     e \<in> {EParamIndex, ESubstParam, ELowerParam, ENotPossible, EUnwrap}"
  unfolding associated_ty_value_def Let_def
  by (auto simp: bind_res_eq_Inl split: if_splits dest: panics)

section \<open>Properties\<close>

text \<open>
  C5.  Trait datum: for a trait whose host facts are well formed,
  \<open>trait_datum\<close> succeeds; its binder has one variable per generic parameter,
  every where-clause is well sorted under it, the trait is never coinductive,
  and its associated types are the type-kind associated items in definition
  order.
\<close>

theorem trait_datum_closed:
  assumes "item_wf tcx d"
  shows "\<exists>td. trait_datum tcx d = Inr td \<and>
           length (binders_kinds (td_binders td)) = length (generics_of tcx d) \<and>
           list_all (qwc_wf [binders_kinds (td_binders td)]) (binders_value (td_binders td)) \<and>
           \<not> tf_coinductive (td_flags td) \<and>
           td_associated_ty_ids td = map ai_def_id (filter (\<lambda>i. ai_kind i = AKType) (associated_items tcx d))"
proof -
  note S = item_wf_setup[OF assms]
  show ?thesis
    unfolding trait_datum_def Let_def
    apply (simp only: S bind_res_Inr)
    using S by (simp add: assoc_type_ids_def)
qed

theorem trait_datum_closed_witness:
  "item_wf trait_tcx 5 \<and>
   (\<exists>td. trait_datum trait_tcx 5 = Inr td \<and> length (binders_kinds (td_binders td)) = 1 \<and>
      list_all (qwc_wf [binders_kinds (td_binders td)]) (binders_value (td_binders td)) \<and>
      \<not> tf_coinductive (td_flags td) \<and> td_associated_ty_ids td = [20])"
proof -
  have w: "item_wf trait_tcx 5"
    by (simp add: item_wf_def trait_tcx_def dense_generics_def const_params_scalar_def)
  have g: "length (generics_of trait_tcx 5) = 1" by (simp add: trait_tcx_def)
  have a: "map ai_def_id (filter (\<lambda>i. ai_kind i = AKType) (associated_items trait_tcx 5)) = [20]"
    by (simp add: trait_tcx_def)
  show ?thesis using w trait_datum_closed[OF w] unfolding g a by blast
qed

text \<open>
  C6.  ADT datum: for an ADT whose host facts are well formed,
  \<open>adt_datum\<close> succeeds with one variable per generic parameter, keeps every
  variant and the number of fields of each, and every field type and
  where-clause is well sorted under the ADT's binder.
\<close>

theorem adt_datum_closed:
  assumes "adt_wf tcx adt"
  shows "\<exists>vks variants wcs. adt_datum tcx adt =
             Inr \<lparr>ad_id = adt_did adt,
                  ad_binders = Binders vks \<lparr>adb_variants = variants, adb_where_clauses = wcs\<rparr>,
                  ad_flags = \<lparr>af_upstream = \<not> is_local tcx (adt_did adt),
                              af_fundamental = adt_is_fundamental adt,
                              af_phantom_data = adt_is_phantom_data adt\<rparr>,
                  ad_kind = lower_adt_kind (adt_kind_of adt)\<rparr> \<and>
           length vks = length (generics_of tcx (adt_did adt)) \<and>
           map length variants = map length (adt_variants adt) \<and>
           list_all (list_all (cty_wf [vks])) variants \<and> list_all (qwc_wf [vks]) wcs"
proof -
  let ?ps = "generics_of tcx (adt_did adt)"
  have i: "item_wf tcx (adt_did adt)" and c: "const_params_scalar ?ps"
    using assms by (simp_all add: adt_wf_def item_wf_def)
  note F = adt_fields_wf[OF c, of "type_of tcx" "adt_variants adt"]
  from assms have "list_all (list_all (\<lambda>f. host_ty_wf ?ps [] (type_of tcx f))) (adt_variants adt)"
    by (simp add: adt_wf_def)
  with item_wf_setup[OF i] F show ?thesis
    by (simp add: adt_datum_def comp_def)
qed

theorem adt_datum_closed_witness:
  "adt_wf pair_tcx pair_adt \<and>
   (\<exists>vks variants wcs. adt_datum pair_tcx pair_adt =
       Inr \<lparr>ad_id = 1, ad_binders = Binders vks \<lparr>adb_variants = variants, adb_where_clauses = wcs\<rparr>,
            ad_flags = \<lparr>af_upstream = False, af_fundamental = False, af_phantom_data = False\<rparr>,
            ad_kind = CStruct\<rparr> \<and>
       length vks = 1 \<and> map length variants = [2] \<and>
       list_all (list_all (cty_wf [vks])) variants \<and> list_all (qwc_wf [vks]) wcs)"
proof -
  have w: "adt_wf pair_tcx pair_adt"
    by (simp add: adt_wf_def item_wf_def pair_tcx_def pair_adt_def dense_generics_def
                  const_params_scalar_def)
  have e: "adt_did pair_adt = 1" "is_local pair_tcx 1" "length (generics_of pair_tcx 1) = 1"
    "map length (adt_variants pair_adt) = [2]" "\<not> adt_is_fundamental pair_adt"
    "\<not> adt_is_phantom_data pair_adt" "lower_adt_kind (adt_kind_of pair_adt) = CStruct"
    by (simp_all add: pair_tcx_def pair_adt_def)
  show ?thesis using w adt_datum_closed[OF w] by (simp add: e pair_tcx_def)
qed

text \<open>
  C7.  Function datum: for a function item whose host facts are well formed
  and whose signature lists at least the output, \<open>fn_def_datum\<close> succeeds;
  its signature summary is the host signature's ABI, safety and variadic flag;
  the argument types are all of the signature but its last entry and the return
  type is the last, each instantiated under the item's bound variables one
  binder down; the inner binder has one lifetime per late-bound region of the
  signature, and every argument and return type is well sorted under the inner
  binder followed by the item's binder.
\<close>

theorem fn_def_datum_sig:
  assumes "fn_wf tcx d" "sig_inputs_and_output (fn_sig tcx d) \<noteq> []"
  shows "\<exists>wcs. fn_def_datum tcx d =
           Inr \<lparr>fd_id = d, fd_sig = lower_fn_sig (fn_sig tcx d),
                fd_binders = Binders (item_binder (generics_of tcx d))
             \<lparr>fdb_inputs_and_output = Binders (replicate (sig_bound_vars (fn_sig tcx d)) VKLifetime)
                \<lparr>argument_types = map (\<lambda>t. lower_ty (subst_ty 1 (item_bound_vars (generics_of tcx d)) t))
                                     (butlast (sig_inputs_and_output (fn_sig tcx d))),
                 return_type = lower_ty (subst_ty 1 (item_bound_vars (generics_of tcx d))
                                     (last (sig_inputs_and_output (fn_sig tcx d))))\<rparr>,
              fdb_where_clauses = wcs\<rparr>\<rparr> \<and>
         list_all (cty_wf [replicate (sig_bound_vars (fn_sig tcx d)) VKLifetime, item_binder (generics_of tcx d)])
           (map (\<lambda>t. lower_ty (subst_ty 1 (item_bound_vars (generics_of tcx d)) t))
              (sig_inputs_and_output (fn_sig tcx d)))"
proof -
  have i: "item_wf tcx d" and c: "const_params_scalar (generics_of tcx d)"
    and w: "list_all (host_ty_wf (generics_of tcx d) [sig_bound_vars (fn_sig tcx d)])
              (sig_inputs_and_output (fn_sig tcx d))"
    using assms(1) by (simp_all add: fn_wf_def item_wf_def)
  note S = item_wf_setup[OF i] and F = fn_sig_inst[OF c w assms(2)]
  show ?thesis
    unfolding fn_def_datum_def Let_def by (simp only: S F bind_res_Inr) (simp add: F)
qed

theorem fn_def_datum_sig_witness:
  "fn_wf trait_tcx 6 \<and> sig_inputs_and_output (fn_sig trait_tcx 6) \<noteq> [] \<and>
   (\<exists>wcs. fn_def_datum trait_tcx 6 =
      Inr \<lparr>fd_id = 6, fd_sig = \<lparr>cfs_abi = 3, cfs_safety = CUnsafe, cfs_variadic = False\<rparr>,
           fd_binders = Binders [VKTy]
        \<lparr>fdb_inputs_and_output = Binders [VKLifetime]
           \<lparr>argument_types = [CRef CNot (LBound 0 0) (CBoundVar 1 0)], return_type = CBoundVar 1 0\<rparr>,
         fdb_where_clauses = wcs\<rparr>\<rparr>)"
proof -
  have w: "fn_wf trait_tcx 6"
    by (simp add: fn_wf_def item_wf_def trait_tcx_def dense_generics_def const_params_scalar_def)
  have ne: "sig_inputs_and_output (fn_sig trait_tcx 6) \<noteq> []" by (simp add: trait_tcx_def)
  have e: "item_binder (generics_of trait_tcx 6) = [VKTy]"
    "replicate (sig_bound_vars (fn_sig trait_tcx 6)) VKLifetime = [VKLifetime]"
    "map (\<lambda>t. lower_ty (subst_ty 1 (item_bound_vars (generics_of trait_tcx 6)) t))
        (butlast (sig_inputs_and_output (fn_sig trait_tcx 6))) = [CRef CNot (LBound 0 0) (CBoundVar 1 0)]"
    "lower_ty (subst_ty 1 (item_bound_vars (generics_of trait_tcx 6))
        (last (sig_inputs_and_output (fn_sig trait_tcx 6)))) = CBoundVar 1 0"
    "lower_fn_sig (fn_sig trait_tcx 6) = \<lparr>cfs_abi = 3, cfs_safety = CUnsafe, cfs_variadic = False\<rparr>"
    by (simp_all add: trait_tcx_def param_var_kind_def bound_var_at_def lower_fn_sig_def)
  show ?thesis using w ne fn_def_datum_sig[OF w ne] unfolding e by blast
qed

text \<open>
  C8.  \<open>impl_datum\<close> panics on \<open>expect("not an impl")\<close> exactly when the
  host has no trait reference for the item (for items with well-formed host
  facts, no other step can fail with that error).
\<close>

theorem impl_datum_not_an_impl:
  assumes "item_wf tcx d"
  shows "impl_datum tcx d = Inl EUnwrap \<longleftrightarrow> impl_trait_ref tcx d = None"
  using item_wf_setup[OF assms]
  by (cases "impl_trait_ref tcx d")
     (auto simp: impl_datum_def subst_gargs_res_def lower_gargs_res_def split: if_splits)

theorem impl_datum_not_an_impl_witness:
  "item_wf trait_tcx 8 \<and> impl_trait_ref trait_tcx 8 = None \<and> impl_datum trait_tcx 8 = Inl EUnwrap"
proof -
  have w: "item_wf trait_tcx 8"
    by (simp add: item_wf_def trait_tcx_def dense_generics_def const_params_scalar_def)
  have n: "impl_trait_ref trait_tcx 8 = None" by (simp add: trait_tcx_def)
  show ?thesis using w n impl_datum_not_an_impl[OF w] by simp
qed

text \<open>
  C9.  Impl datum: for an impl whose host facts are well formed,
  \<open>impl_datum\<close> succeeds with the host's trait, the trait reference's
  arguments instantiated under the impl's bound variables and lowered, its
  polarity lowered, the impl marked local, and its type-kind associated items;
  the trait reference and the where-clauses are well sorted under the impl's
  binder.
\<close>

theorem impl_datum_closed:
  assumes "impl_wf tcx d"
  shows "\<exists>tr gs wcs. impl_trait_ref tcx d = Some (tr, gs) \<and>
           impl_datum tcx d =
             Inr \<lparr>id_polarity = lower_polarity (impl_polarity tcx d),
                  id_binders = Binders (item_binder (generics_of tcx d))
                    \<lparr>idb_trait_ref = (tr, map (\<lambda>g. lower_garg (subst_garg 0 (item_bound_vars (generics_of tcx d)) g)) gs),
                     idb_where_clauses = wcs\<rparr>,
                  id_impl_type_local = True,
                  id_associated_ty_value_ids = assoc_type_ids tcx d\<rparr> \<and>
           list_all (cgarg_wf [item_binder (generics_of tcx d)])
             (map (\<lambda>g. lower_garg (subst_garg 0 (item_bound_vars (generics_of tcx d)) g)) gs) \<and>
           list_all (qwc_wf [item_binder (generics_of tcx d)]) wcs"
proof -
  have i: "item_wf tcx d" and c: "const_params_scalar (generics_of tcx d)"
    using assms by (simp_all add: impl_wf_def item_wf_def)
  from assms obtain tr gs where tr: "impl_trait_ref tcx d = Some (tr, gs)"
    and g: "list_all (host_garg_wf (generics_of tcx d) []) gs"
    by (auto simp: impl_wf_def split: option.splits)
  note S = item_wf_setup[OF i] and G = inst_gargs[OF c g]
  show ?thesis
    unfolding impl_datum_def using tr S G by simp
qed

theorem impl_datum_closed_witness:
  "impl_wf trait_tcx 7 \<and>
   (\<exists>tr gs wcs. impl_trait_ref trait_tcx 7 = Some (tr, gs) \<and>
      impl_datum trait_tcx 7 =
        Inr \<lparr>id_polarity = lower_polarity (impl_polarity trait_tcx 7),
             id_binders = Binders (item_binder (generics_of trait_tcx 7))
               \<lparr>idb_trait_ref = (tr, map (\<lambda>g. lower_garg (subst_garg 0 (item_bound_vars (generics_of trait_tcx 7)) g)) gs),
                idb_where_clauses = wcs\<rparr>,
             id_impl_type_local = True,
             id_associated_ty_value_ids = assoc_type_ids trait_tcx 7\<rparr> \<and>
      list_all (cgarg_wf [item_binder (generics_of trait_tcx 7)])
        (map (\<lambda>g. lower_garg (subst_garg 0 (item_bound_vars (generics_of trait_tcx 7)) g)) gs) \<and>
      list_all (qwc_wf [item_binder (generics_of trait_tcx 7)]) wcs)"
proof -
  have w: "impl_wf trait_tcx 7"
    by (simp add: impl_wf_def item_wf_def trait_tcx_def dense_generics_def const_params_scalar_def)
  show ?thesis by (intro conjI w impl_datum_closed[OF w])
qed

text \<open>
  C10.  Associated type datum: for an associated item with well-formed host
  facts, \<open>associated_ty_data\<close> panics (\<open>unimplemented!\<close>) when the item's
  container is not a trait or the item is not a type; otherwise it gives the
  trait, the item, and under the item's binder its lowered explicit bounds and
  where-clauses, all well sorted.
\<close>

theorem associated_ty_data_result:
  assumes "assoc_ty_wf tcx d"
  shows "associated_ty_data tcx d =
           (case trait_container (ai_container (associated_item tcx d)) of
              None \<Rightarrow> Inl ENotPossible
            | Some t \<Rightarrow>
                if ai_kind (associated_item tcx d) \<noteq> AKType then Inl ENotPossible
                else Inr \<lparr>at_trait_id = t, at_id = d,
                          at_binders = Binders (item_binder (generics_of tcx d))
                            \<lparr>atb_bounds = List.map_filter
                                (\<lambda>p. lower_pred (subst_pred (item_bound_vars (generics_of tcx d)) p))
                                (explicit_item_bounds tcx d),
                             atb_where_clauses = List.map_filter
                                (\<lambda>p. lower_pred (subst_pred (item_bound_vars (generics_of tcx d)) p))
                                (predicates_defined_on tcx d)\<rparr>\<rparr>) \<and>
         list_all (qwc_wf [item_binder (generics_of tcx d)])
           (List.map_filter (\<lambda>p. lower_pred (subst_pred (item_bound_vars (generics_of tcx d)) p))
              (explicit_item_bounds tcx d))"
proof -
  have i: "item_wf tcx d" and c: "const_params_scalar (generics_of tcx d)"
    and b: "list_all (host_pred_wf (generics_of tcx d)) (explicit_item_bounds tcx d)"
    using assms by (simp_all add: assoc_ty_wf_def item_wf_def)
  note S = item_wf_setup[OF i] and B = lower_clauses_wf[OF c b]
  show ?thesis
    unfolding associated_ty_data_def Let_def bounds_for_def
    using S B by (simp split: option.splits)
qed

theorem associated_ty_data_result_witness:
  "assoc_ty_wf trait_tcx 20 \<and> assoc_ty_wf trait_tcx 21 \<and>
   associated_ty_data trait_tcx 21 = Inl ENotPossible \<and>
   associated_ty_data trait_tcx 20 =
     Inr \<lparr>at_trait_id = 5, at_id = 20,
          at_binders = Binders [VKTy] \<lparr>atb_bounds = [], atb_where_clauses = []\<rparr>\<rparr>"
proof -
  have w: "assoc_ty_wf trait_tcx 20" "assoc_ty_wf trait_tcx 21"
    by (simp_all add: assoc_ty_wf_def item_wf_def trait_tcx_def empty_tcx_def dense_generics_def
                      const_params_scalar_def)
  have e: "trait_container (ai_container (associated_item trait_tcx 20)) = Some 5"
    "ai_kind (associated_item trait_tcx 20) = AKType"
    "trait_container (ai_container (associated_item trait_tcx 21)) = Some 5"
    "ai_kind (associated_item trait_tcx 21) = AKFn"
    "item_binder (generics_of trait_tcx 20) = [VKTy]"
    "explicit_item_bounds trait_tcx 20 = []" "predicates_defined_on trait_tcx 20 = []"
    by (simp_all add: trait_tcx_def empty_tcx_def param_var_kind_def)
  show ?thesis
    using w associated_ty_data_result[OF w(1)] associated_ty_data_result[OF w(2)] unfolding e by simp
qed

text \<open>
  C11.  Associated type value: for an item with dense generics and scalar const
  parameters whose type names only its own parameters,
  \<open>associated_ty_value\<close> panics (\<open>unimplemented!\<close>) on an item that is not
  a type, panics (\<open>expect\<close>) on one with no trait-level declaration, and
  otherwise gives the item's container, the trait's declaration and the item's
  type instantiated under its binder, well sorted there.
\<close>

theorem associated_ty_value_result:
  assumes "dense_generics (generics_of tcx d)" "const_params_scalar (generics_of tcx d)"
    and "host_ty_wf (generics_of tcx d) [] (type_of tcx d)"
  shows "associated_ty_value tcx d =
           (if ai_kind (associated_item tcx d) \<noteq> AKType then Inl ENotPossible
            else case ai_trait_item_def_id (associated_item tcx d) of
                   None \<Rightarrow> Inl EUnwrap
                 | Some t \<Rightarrow> Inr \<lparr>av_impl_id = container_id (ai_container (associated_item tcx d)),
                                  av_associated_ty_id = t,
                                  av_value = Binders (item_binder (generics_of tcx d))
                                    (lower_ty (subst_ty 0 (item_bound_vars (generics_of tcx d)) (type_of tcx d)))\<rparr>) \<and>
         cty_wf [item_binder (generics_of tcx d)]
           (lower_ty (subst_ty 0 (item_bound_vars (generics_of tcx d)) (type_of tcx d)))"
  using assms subst_lower_ty_wf[OF assms(2,3)]
  by (simp add: associated_ty_value_def Let_def bound_vars_for_item_eq binders_for_map2
           split: option.splits)

theorem associated_ty_value_result_witness:
  "dense_generics (generics_of trait_tcx 30) \<and> const_params_scalar (generics_of trait_tcx 30) \<and>
   host_ty_wf (generics_of trait_tcx 30) [] (type_of trait_tcx 30) \<and>
   associated_ty_value trait_tcx 30 =
     Inr \<lparr>av_impl_id = 7, av_associated_ty_id = 20, av_value = Binders [VKTy] (CSlice (CBoundVar 0 0))\<rparr>"
proof -
  have w: "dense_generics (generics_of trait_tcx 30)" "const_params_scalar (generics_of trait_tcx 30)"
    "host_ty_wf (generics_of trait_tcx 30) [] (type_of trait_tcx 30)"
    by (simp_all add: trait_tcx_def dense_generics_def const_params_scalar_def)
  have e: "ai_kind (associated_item trait_tcx 30) = AKType"
    "ai_trait_item_def_id (associated_item trait_tcx 30) = Some 20"
    "container_id (ai_container (associated_item trait_tcx 30)) = 7"
    "item_binder (generics_of trait_tcx 30) = [VKTy]"
    "lower_ty (subst_ty 0 (item_bound_vars (generics_of trait_tcx 30)) (type_of trait_tcx 30)) =
       CSlice (CBoundVar 0 0)"
    by (simp_all add: trait_tcx_def param_var_kind_def bound_var_at_def)
  show ?thesis using w associated_ty_value_result[OF w] unfolding e by simp
qed

text \<open>
  C12.  The integer table of \<open>adt_repr\<close> agrees with the lowering of host
  types: the \<open>#[repr]\<close> integer of an ADT is reported as the solver type
  that the corresponding host integer type lowers to.
\<close>

theorem adt_repr_int_lowering:
  "ar_int (adt_repr adt) = map_option (\<lambda>i. lower_ty (int_type_ty i)) (repr_int adt)"
  by (cases "repr_int adt") (simp_all add: adt_repr_def repr_int_ty_lower)

end
