(* ===== verification/Closures.thy ===== *)
theory Closures
  imports Datums
begin

text \<open>
  The closure layout decoder of \<open>db.rs\<close>: \<open>closure_kind\<close> (lines
  591--606), \<open>closure_inputs_and_output\<close> (608--640),
  \<open>closure_upvars\<close> (642--650) and \<open>closure_fn_substitution\<close>
  (652--659).  A closure's solver substitution is its parent's arguments
  followed by three slots: the kind marker (an \<open>i8\<close>, \<open>i16\<close> or
  \<open>i32\<close> type for \<open>Fn\<close>, \<open>FnMut\<close>, \<open>FnOnce\<close>), the signature as a
  function pointer whose parameters are the tupled arguments and the return
  type, and the tuple of upvar types.  The closure id argument of the four
  queries is unused by the source and omitted.  Results: decoding an encoded
  substitution gives back the encoded parts; every panic of the source is
  characterised; the decoder does not check the signature's arity; the four
  decoders succeed together exactly on the layout \<open>closure_layout_ok\<close>;
  and they read only the last three slots.
\<close>

section \<open>Definitions\<close>

datatype closure_kind = CKFn | CKFnMut | CKFnOnce

text \<open>\<open>GenericArg::assert_ty_ref\<close>, and \<open>last().unwrap()\<close>.\<close>

fun assert_ty_ref :: "cgarg \<Rightarrow> cty res" where
  "assert_ty_ref (CGTy t) = Inr t"
| "assert_ty_ref _ = Inl ENotTy"

definition last_res :: "'a list \<Rightarrow> 'a res" where
  "last_res xs = (if xs = [] then Inl EUnwrap else Inr (last xs))"

definition closure_kind :: "cgarg list \<Rightarrow> closure_kind res" where
  "closure_kind substs =
     bind_res (usize_sub (length substs) 3) (\<lambda>i.
     bind_res (nth_res substs i) (\<lambda>kind.
     bind_res (assert_ty_ref kind) (\<lambda>t.
       case t of
         CScalar (SInt int_ty) \<Rightarrow>
           (case int_ty of CI8 \<Rightarrow> Inr CKFn | CI16 \<Rightarrow> Inr CKFnMut | CI32 \<Rightarrow> Inr CKFnOnce
                         | _ \<Rightarrow> Inl EBadClosureKind)
       | _ \<Rightarrow> Inl EBadClosureKind)))"

text \<open>The \<open>Tuple(_len, substitution)\<close> match on the argument tuple.\<close>

definition tupled_args :: "cty \<Rightarrow> cty list res" where
  "tupled_args argument_tuple =
     (case argument_tuple of CTuple _ substitution \<Rightarrow> map_res assert_ty_ref substitution
                           | _ \<Rightarrow> Inl EUntupled)"

definition closure_inputs_and_output :: "cgarg list \<Rightarrow> fn_def_io binders res" where
  "closure_inputs_and_output substs =
     bind_res (usize_sub (length substs) 2) (\<lambda>i.
     bind_res (nth_res substs i) (\<lambda>sig.
     bind_res (assert_ty_ref sig) (\<lambda>t.
       case t of
         CFunction num_binders substitution \<Rightarrow>
           bind_res (last_res substitution) (\<lambda>l.
           bind_res (assert_ty_ref l) (\<lambda>return_type.
           bind_res (nth_res substitution 0) (\<lambda>a.
           bind_res (assert_ty_ref a) (\<lambda>argument_tuple.
           bind_res (tupled_args argument_tuple) (\<lambda>argument_types.
           Inr (Binders (replicate num_binders VKLifetime)
                  \<lparr>argument_types = argument_types, return_type = return_type\<rparr>))))))
       | _ \<Rightarrow> Inl EInvalidSig)))"

definition closure_upvars :: "cgarg list \<Rightarrow> cty binders res" where
  "closure_upvars substs =
     bind_res (closure_inputs_and_output substs) (\<lambda>inputs_and_output.
     bind_res (last_res substs) (\<lambda>l.
     bind_res (assert_ty_ref l) (\<lambda>tuple.
     Inr (Binders (binders_kinds inputs_and_output) tuple))))"

definition closure_fn_substitution :: "cgarg list \<Rightarrow> cgarg list res" where
  "closure_fn_substitution substs =
     bind_res (usize_sub (length substs) 3) (\<lambda>n. Inr (take n substs))"

text \<open>The layout rustc builds (\<open>ClosureSubsts\<close>, outside \<open>src/\<close>): parent
  arguments, kind marker, signature as a function pointer over the tupled
  arguments and the return type, upvar tuple.\<close>

primrec closure_kind_ty :: "closure_kind \<Rightarrow> cty" where
  "closure_kind_ty CKFn = CScalar (SInt CI8)"
| "closure_kind_ty CKFnMut = CScalar (SInt CI16)"
| "closure_kind_ty CKFnOnce = CScalar (SInt CI32)"

definition closure_substs ::
  "cgarg list \<Rightarrow> closure_kind \<Rightarrow> nat \<Rightarrow> cty list \<Rightarrow> cty \<Rightarrow> cty \<Rightarrow> cgarg list" where
  "closure_substs parent kind num_binders args ret upvars =
     parent @ [CGTy (closure_kind_ty kind),
               CGTy (CFunction num_binders [CGTy (CTuple (length args) (map CGTy args)), CGTy ret]),
               CGTy upvars]"

text \<open>The layout the four decoders accept: at least three slots, the third
  from last a kind marker, the second from last a function pointer whose last
  parameter is a type and whose first is a tuple of types, the last a type.\<close>

definition is_ty_arg :: "cgarg \<Rightarrow> bool" where
  "is_ty_arg g \<longleftrightarrow> (case g of CGTy _ \<Rightarrow> True | _ \<Rightarrow> False)"

definition closure_sig_ok :: "cgarg \<Rightarrow> bool" where
  "closure_sig_ok sig \<longleftrightarrow>
     (case sig of
        CGTy (CFunction n substitution) \<Rightarrow>
          substitution \<noteq> [] \<and> is_ty_arg (last substitution) \<and>
          (case hd substitution of CGTy (CTuple m args) \<Rightarrow> list_all is_ty_arg args | _ \<Rightarrow> False)
      | _ \<Rightarrow> False)"

definition closure_layout_ok :: "cgarg list \<Rightarrow> bool" where
  "closure_layout_ok substs \<longleftrightarrow>
     (case rev substs of
        upvars # sig # kind # _ \<Rightarrow>
          kind \<in> set (map (CGTy \<circ> closure_kind_ty) [CKFn, CKFnMut, CKFnOnce]) \<and>
          closure_sig_ok sig \<and> is_ty_arg upvars
      | _ \<Rightarrow> False)"

section \<open>Lemmas\<close>

lemma assert_ty_ref_map [simp]: "map_res assert_ty_ref (map CGTy ts) = Inr ts"
  by (induction ts) simp_all

lemma last_res_simps [simp]:
  "last_res [] = Inl EUnwrap" "last_res (x # xs) = Inr (last (x # xs))" "last_res (xs @ [x]) = Inr x"
  by (simp_all add: last_res_def)

text \<open>Which panic each step can raise.\<close>

lemma assert_ty_ref_Inl [panics]: "assert_ty_ref g = Inl e \<Longrightarrow> e = ENotTy"
  by (cases g) simp_all

lemma last_res_Inl [panics]: "last_res xs = Inl e \<Longrightarrow> e = EUnwrap"
  by (cases xs) simp_all

lemma map_assert_ty_ref_Inl: "map_res assert_ty_ref xs = Inl e \<Longrightarrow> e = ENotTy"
  using map_res_Inl_ex assert_ty_ref_Inl by blast

lemma nth_res_Inl: "nth_res xs i = Inl e \<Longrightarrow> e = EIndex"
  using nth_res_raises by blast

lemmas step_panics = assert_ty_ref_Inl last_res_Inl nth_res_Inl map_assert_ty_ref_Inl

lemma split_last3:
  assumes "3 \<le> length s"
  obtains p k g u where "s = p @ [k, g, u]"
proof -
  obtain u g k r where "rev s = u # g # k # r"
    using assms by (cases "rev s" rule: list.exhaust; cases "tl (rev s)"; cases "tl (tl (rev s))") auto
  then have "s = rev r @ [k, g, u]" by (metis rev_rev_ident rev.simps append.assoc append_Cons append_Nil)
  then show ?thesis by (rule that)
qed

lemma list_all_is_ty_arg: "list_all is_ty_arg gs \<longleftrightarrow> (\<exists>ts. gs = map CGTy ts)"
proof (induction gs)
  case (Cons g gs)
  then show ?case by (cases g) (auto simp: is_ty_arg_def Cons_eq_map_conv)
qed simp

lemma map_assert_ty_ref_Inr: "map_res assert_ty_ref gs = Inr ts \<longleftrightarrow> gs = map CGTy ts"
proof (induction gs arbitrary: ts)
  case (Cons g gs)
  then show ?case
    by (cases g rule: assert_ty_ref.cases) (auto simp: res_simps Cons_eq_map_conv)
qed auto

lemma ex_closure_kind: "(\<exists>c. P c) \<longleftrightarrow> P CKFn \<or> P CKFnMut \<or> P CKFnOnce"
  by (metis closure_kind.exhaust)

lemma closure_layout_ok_split:
  "closure_layout_ok (p @ [k, g, u]) \<longleftrightarrow>
     (\<exists>c. k = CGTy (closure_kind_ty c)) \<and> closure_sig_ok g \<and> is_ty_arg u"
  by (auto simp: closure_layout_ok_def ex_closure_kind)

lemma closure_sig_okE:
  assumes "closure_sig_ok sig"
  obtains n m ts rest r where "sig = CGTy (CFunction n (CGTy (CTuple m (map CGTy ts)) # rest))"
    and "last (CGTy (CTuple m (map CGTy ts)) # rest) = CGTy r"
proof -
  obtain t where t: "sig = CGTy t" using assms by (cases sig) (simp_all add: closure_sig_ok_def)
  obtain n sub where f: "t = CFunction n sub"
    using assms t by (cases t) (simp_all add: closure_sig_ok_def)
  obtain a rest where sub: "sub = a # rest" using assms t f by (cases sub) (simp_all add: closure_sig_ok_def)
  obtain ta where a: "a = CGTy ta" using assms t f sub by (cases a) (simp_all add: closure_sig_ok_def)
  obtain m args where ta: "ta = CTuple m args"
    using assms t f sub a by (cases ta) (simp_all add: closure_sig_ok_def)
  obtain ts where "args = map CGTy ts"
    using assms t f sub a ta by (auto simp: closure_sig_ok_def list_all_is_ty_arg)
  moreover obtain r where "last sub = CGTy r"
    using assms t f by (auto simp: closure_sig_ok_def is_ty_arg_def split: cgarg.splits)
  ultimately show ?thesis using that t f sub a ta by blast
qed

lemma closure_slots_simps:
  "closure_kind (p @ [k, g, u]) = closure_kind [k, g, u]"
  "closure_inputs_and_output (p @ [k, g, u]) = closure_inputs_and_output [k, g, u]"
  "closure_upvars (p @ [k, g, u]) = closure_upvars [k, g, u]"
  "closure_fn_substitution (p @ [k, g, u]) = Inr p"
  by (simp_all add: closure_kind_def closure_inputs_and_output_def closure_upvars_def
                    closure_fn_substitution_def nth_append res_simps last_res_def)

lemma closure_layout_decodes:
  assumes "closure_layout_ok s"
  shows "\<exists>k io u p. closure_kind s = Inr k \<and> closure_inputs_and_output s = Inr io \<and>
                   closure_upvars s = Inr u \<and> closure_fn_substitution s = Inr p"
proof -
  have "3 \<le> length s"
    using assms by (cases "rev s" rule: list.exhaust; cases "tl (rev s)"; cases "tl (tl (rev s))")
                   (auto simp: closure_layout_ok_def dest: arg_cong[where f = length])
  then obtain p k g u where s: "s = p @ [k, g, u]" by (rule split_last3)
  from assms obtain c where k: "k = CGTy (closure_kind_ty c)" and g: "closure_sig_ok g"
    and u: "is_ty_arg u"
    by (auto simp: s closure_layout_ok_split)
  from g obtain n m ts rest r where g': "g = CGTy (CFunction n (CGTy (CTuple m (map CGTy ts)) # rest))"
    and r: "last (CGTy (CTuple m (map CGTy ts)) # rest) = CGTy r"
    by (rule closure_sig_okE)
  from u obtain ut where "u = CGTy ut" by (auto simp: is_ty_arg_def split: cgarg.splits)
  with k g' r show ?thesis
    unfolding s closure_slots_simps
    by (cases c) (simp_all add: closure_kind_def closure_inputs_and_output_def
                      closure_upvars_def res_simps last_res_def tupled_args_def)
qed

subsection \<open>Panics and slots\<close>

lemma closure_kind_raises [panics]:
  assumes "closure_kind s = Inl e"
  shows "e \<in> {ENotTy, EBadClosureKind} \<or> e = EIndex \<and> length s < 3"
proof (cases "length s < 3")
  case True
  then show ?thesis using assms by (simp add: closure_kind_def res_simps)
next
  case False
  show ?thesis
  proof (cases "s ! (length s - 3)" rule: assert_ty_ref.cases)
    case (1 t)
    with assms False show ?thesis
      by (cases t) (auto simp: closure_kind_def res_simps split: scalar.splits c_int_ty.splits)
  qed (insert assms False, simp_all add: closure_kind_def res_simps)
qed

lemma tupled_args_raises [panics]: "tupled_args t = Inl e \<Longrightarrow> e \<in> {EUntupled, ENotTy}"
  by (cases t) (auto simp: tupled_args_def dest: map_assert_ty_ref_Inl)

lemma closure_inputs_and_output_raises [panics]:
  assumes "closure_inputs_and_output s = Inl e"
  shows "e \<in> {ENotTy, EUnwrap, EInvalidSig, EUntupled} \<or> e = EIndex \<and> length s < 2"
proof (cases "length s < 2")
  case True
  then show ?thesis using assms by (simp add: closure_inputs_and_output_def res_simps)
next
  case False
  show ?thesis
  proof (cases "s ! (length s - 2)" rule: assert_ty_ref.cases)
    case (1 t)
    show ?thesis
    proof (cases t)
      case (CFunction n sub)
      with assms False 1 show ?thesis
        by (cases sub) (auto simp: closure_inputs_and_output_def res_simps
                             dest: step_panics tupled_args_raises)
    qed (insert assms False 1, simp_all add: closure_inputs_and_output_def res_simps)
  qed (insert assms False, simp_all add: closure_inputs_and_output_def res_simps)
qed

lemma closure_upvars_raises [panics]:
  "closure_upvars s = Inl e \<Longrightarrow>
     e \<in> {ENotTy, EUnwrap, EInvalidSig, EUntupled} \<or> e = EIndex \<and> length s < 2"
  unfolding closure_upvars_def
  by (auto simp: bind_res_eq_Inl dest: closure_inputs_and_output_raises last_res_Inl assert_ty_ref_Inl)

lemma closure_fn_substitution_raises [panics]:
  "closure_fn_substitution s = Inl e \<Longrightarrow> e = EIndex \<and> length s < 3"
  by (auto simp: closure_fn_substitution_def bind_res_eq_Inl dest: usize_sub_raises)
lemma closure_kind_slot: "closure_kind [k, g, u] = Inr c \<Longrightarrow> k = CGTy (closure_kind_ty c)"
  by (cases k rule: assert_ty_ref.cases; cases c)
     (auto simp: closure_kind_def res_simps split: cty.splits scalar.splits c_int_ty.splits)

lemma closure_io_slot:
  assumes "closure_inputs_and_output [k, g, u] = Inr io"
  shows "closure_sig_ok g"
proof -
  note D = closure_inputs_and_output_def res_simps
  obtain t where t: "g = CGTy t" using assms by (cases g) (simp_all add: D)
  obtain n sub where f: "t = CFunction n sub" using assms t by (cases t) (simp_all add: D)
  obtain a rest where sub: "sub = a # rest" using assms t f by (cases sub) (simp_all add: D)
  obtain ta where a: "a = CGTy ta" using assms t f sub by (cases a) (auto simp: D)
  obtain m args where ta: "ta = CTuple m args"
    using assms t f sub a by (cases ta) (auto simp: D tupled_args_def)
  have "\<exists>ts. map_res assert_ty_ref args = Inr ts"
    using assms t f sub a ta by (auto simp: D tupled_args_def)
  then have "list_all is_ty_arg args" by (auto simp: map_assert_ty_ref_Inr list_all_is_ty_arg)
  moreover have "is_ty_arg (last sub)"
    using assms t f sub by (cases "last sub" rule: assert_ty_ref.cases) (auto simp: D is_ty_arg_def)
  ultimately show ?thesis using t f sub a ta by (simp add: closure_sig_ok_def)
qed

lemma closure_upvars_slot: "closure_upvars [k, g, u] = Inr b \<Longrightarrow> is_ty_arg u"
  by (cases u rule: assert_ty_ref.cases) (auto simp: closure_upvars_def res_simps is_ty_arg_def)

section \<open>Properties\<close>

text \<open>
  C17.  Decoding round trip: for the layout rustc builds from parent
  arguments, a kind, a signature with tupled arguments and an upvar tuple,
  \<open>closure_kind\<close>, \<open>closure_inputs_and_output\<close>, \<open>closure_upvars\<close>
  and \<open>closure_fn_substitution\<close> recover exactly the encoded kind, argument
  types and return type (under one lifetime per late-bound region), upvar
  tuple and parent arguments.
\<close>

theorem closure_decode_roundtrip:
  "closure_kind (closure_substs p k n args ret u) = Inr k \<and>
   closure_inputs_and_output (closure_substs p k n args ret u) =
     Inr (Binders (replicate n VKLifetime) \<lparr>argument_types = args, return_type = ret\<rparr>) \<and>
   closure_upvars (closure_substs p k n args ret u) = Inr (Binders (replicate n VKLifetime) u) \<and>
   closure_fn_substitution (closure_substs p k n args ret u) = Inr p"
proof (intro conjI)
  show "closure_kind (closure_substs p k n args ret u) = Inr k"
    by (cases k) (simp_all add: closure_kind_def closure_substs_def nth_append res_simps)
  show io: "closure_inputs_and_output (closure_substs p k n args ret u) =
     Inr (Binders (replicate n VKLifetime) \<lparr>argument_types = args, return_type = ret\<rparr>)"
    by (simp add: closure_inputs_and_output_def closure_substs_def nth_append res_simps tupled_args_def)
  show "closure_upvars (closure_substs p k n args ret u) = Inr (Binders (replicate n VKLifetime) u)"
    unfolding closure_upvars_def io by (simp add: closure_substs_def last_res_def)
  show "closure_fn_substitution (closure_substs p k n args ret u) = Inr p"
    by (simp add: closure_fn_substitution_def closure_substs_def res_simps)
qed

text \<open>
  C18.  \<open>closure_kind\<close> succeeds with kind \<open>k\<close> exactly when the
  substitution has at least three entries and the third from last is
  \<open>k\<close>'s marker type; every other substitution panics.
\<close>

theorem closure_kind_iff:
  "closure_kind substs = Inr k \<longleftrightarrow>
     3 \<le> length substs \<and> substs ! (length substs - 3) = CGTy (closure_kind_ty k)"
proof (cases "3 \<le> length substs")
  case True
  then show ?thesis
    by (cases k; cases "substs ! (length substs - 3)" rule: assert_ty_ref.cases)
       (auto simp: closure_kind_def res_simps split: cty.splits scalar.splits c_int_ty.splits)
next
  case False
  then show ?thesis by (simp add: closure_kind_def res_simps)
qed

text \<open>
  C19.  The decoder does not check the signature's arity: any function
  substitution whose first entry is a tuple of types and whose last entry is
  a type is accepted, the arguments read from the first entry and the return
  type from the last; a one-entry substitution makes the argument tuple its
  own return type.
\<close>

theorem closure_sig_arity_unchecked:
  assumes "substitution \<noteq> []" "hd substitution = CGTy (CTuple m (map CGTy ts))"
    and "last substitution = CGTy ret"
  shows "closure_inputs_and_output (p @ [k, CGTy (CFunction n substitution), u]) =
           Inr (Binders (replicate n VKLifetime) \<lparr>argument_types = ts, return_type = ret\<rparr>)"
proof -
  have "nth_res substitution 0 = Inr (CGTy (CTuple m (map CGTy ts)))"
    using assms(1,2) by (simp add: res_simps hd_conv_nth)
  with assms show ?thesis
    by (simp add: closure_inputs_and_output_def nth_append res_simps last_res_def tupled_args_def)
qed

theorem closure_sig_arity_unchecked_witness:
  "[CGTy (CTuple 0 [])] \<noteq> [] \<and> hd [CGTy (CTuple 0 [])] = CGTy (CTuple 0 (map CGTy [])) \<and>
   last [CGTy (CTuple 0 [])] = CGTy (CTuple 0 []) \<and>
   closure_inputs_and_output [CGTy (CScalar (SInt CI8)), CGTy (CFunction 0 [CGTy (CTuple 0 [])]), CGTy (CTuple 0 [])] =
     Inr (Binders [] \<lparr>argument_types = [], return_type = CTuple 0 []\<rparr>)"
  using closure_sig_arity_unchecked[of "[CGTy (CTuple 0 [])]" 0 "[]" "CTuple 0 []" "[]"
          "CGTy (CScalar (SInt CI8))" 0 "CGTy (CTuple 0 [])"]
  by simp

text \<open>
  C20.  \<open>closure_inputs_and_output\<close> panics with \<open>Invalid sig.\<close>
  exactly when the signature slot is not a function type; so does
  \<open>closure_upvars\<close>, which decodes the signature before it reads the upvar
  slot, even when that slot is a type.
\<close>

theorem closure_sig_invalid:
  "(closure_inputs_and_output (p @ [k, CGTy t, u]) = Inl EInvalidSig \<longleftrightarrow> (\<forall>n s. t \<noteq> CFunction n s)) \<and>
   (closure_upvars (p @ [k, CGTy t, CGTy v]) = Inl EInvalidSig \<longleftrightarrow> (\<forall>n s. t \<noteq> CFunction n s))"
  by (cases t) (auto simp: closure_upvars_def closure_inputs_and_output_def nth_append res_simps
                     split: sum.splits dest: step_panics tupled_args_raises)

text \<open>
  C21.  \<open>closure_inputs_and_output\<close> panics with \<open>Expecting closure
  FnSig args to be tupled\<close> exactly when the first entry of the signature is
  a type other than a tuple and its last entry is a type (a non-type last
  entry panics earlier, in \<open>assert_ty_ref\<close>).
\<close>

theorem closure_args_untupled:
  "closure_inputs_and_output (p @ [k, CGTy (CFunction n (CGTy a # rest)), u]) = Inl EUntupled \<longleftrightarrow>
     (\<forall>m gs. a \<noteq> CTuple m gs) \<and> (\<exists>r. last (CGTy a # rest) = CGTy r)"
  by (cases a; cases "last (CGTy a # rest)" rule: assert_ty_ref.cases)
     (auto simp: closure_inputs_and_output_def nth_append res_simps tupled_args_def
           split: sum.splits dest: step_panics)

text \<open>
  C33.  The four closure decoders all succeed on a substitution exactly when
  it has the layout rustc builds: at least three entries, the third from last
  one of the three kind markers, the second from last a function pointer
  whose first parameter is a tuple of types and whose last is a type, and the
  last a type (\<open>closure_layout_ok\<close>, decidable).
\<close>

theorem closure_layout_iff:
  "(\<exists>c io b p. closure_kind s = Inr c \<and> closure_inputs_and_output s = Inr io \<and>
               closure_upvars s = Inr b \<and> closure_fn_substitution s = Inr p) \<longleftrightarrow>
   closure_layout_ok s"
proof
  assume "\<exists>c io b p. closure_kind s = Inr c \<and> closure_inputs_and_output s = Inr io \<and>
                     closure_upvars s = Inr b \<and> closure_fn_substitution s = Inr p"
  then obtain c io b p where kd: "closure_kind s = Inr c" and io: "closure_inputs_and_output s = Inr io"
    and up: "closure_upvars s = Inr b" and fs: "closure_fn_substitution s = Inr p" by blast
  from fs have "3 \<le> length s" by (simp add: closure_fn_substitution_def res_simps)
  then obtain q k g u where s: "s = q @ [k, g, u]" by (rule split_last3)
  show "closure_layout_ok s"
    using closure_kind_slot[of k g u c] closure_io_slot[of k g u io] closure_upvars_slot[of k g u b]
          kd io up unfolding s closure_slots_simps closure_layout_ok_split by blast
next
  assume "closure_layout_ok s"
  then show "\<exists>c io b p. closure_kind s = Inr c \<and> closure_inputs_and_output s = Inr io \<and>
                     closure_upvars s = Inr b \<and> closure_fn_substitution s = Inr p"
    by (rule closure_layout_decodes)
qed

theorem closure_layout_iff_witness:
  "closure_layout_ok [CGTy CStr, CGTy (CScalar (SInt CI16)),
                      CGTy (CFunction 1 [CGTy (CTuple 1 [CGTy CStr]), CGTy CNever]), CGTy (CTuple 0 [])] \<and>
   (\<exists>c io b p. closure_kind [CGTy CStr, CGTy (CScalar (SInt CI16)),
                      CGTy (CFunction 1 [CGTy (CTuple 1 [CGTy CStr]), CGTy CNever]), CGTy (CTuple 0 [])] = Inr c \<and>
      closure_inputs_and_output [CGTy CStr, CGTy (CScalar (SInt CI16)),
                      CGTy (CFunction 1 [CGTy (CTuple 1 [CGTy CStr]), CGTy CNever]), CGTy (CTuple 0 [])] = Inr io \<and>
      closure_upvars [CGTy CStr, CGTy (CScalar (SInt CI16)),
                      CGTy (CFunction 1 [CGTy (CTuple 1 [CGTy CStr]), CGTy CNever]), CGTy (CTuple 0 [])] = Inr b \<and>
      closure_fn_substitution [CGTy CStr, CGTy (CScalar (SInt CI16)),
                      CGTy (CFunction 1 [CGTy (CTuple 1 [CGTy CStr]), CGTy CNever]), CGTy (CTuple 0 [])] = Inr p)"
proof -
  have ok: "closure_layout_ok [CGTy CStr, CGTy (CScalar (SInt CI16)),
                      CGTy (CFunction 1 [CGTy (CTuple 1 [CGTy CStr]), CGTy CNever]), CGTy (CTuple 0 [])]"
    by (simp add: closure_layout_ok_def closure_sig_ok_def is_ty_arg_def)
  show ?thesis using ok closure_layout_iff by blast
qed

text \<open>
  C34.  Slot arithmetic: the decoders read only the last three entries (the
  parent arguments in front never matter, and \<open>closure_fn_substitution\<close>
  returns exactly them), and the index computations \<open>len - 3\<close> and
  \<open>len - 2\<close> panic with an index error exactly on substitutions shorter
  than three (for \<open>closure_kind\<close> and \<open>closure_fn_substitution\<close>) or two
  (for \<open>closure_inputs_and_output\<close> and \<open>closure_upvars\<close>) entries.
\<close>

theorem closure_slot_bounds:
  "closure_kind (p @ [k, g, u]) = closure_kind [k, g, u] \<and>
   closure_inputs_and_output (p @ [k, g, u]) = closure_inputs_and_output [k, g, u] \<and>
   closure_upvars (p @ [k, g, u]) = closure_upvars [k, g, u] \<and>
   closure_fn_substitution (p @ [k, g, u]) = Inr p \<and>
   (closure_kind s = Inl EIndex \<longleftrightarrow> length s < 3) \<and>
   (closure_fn_substitution s = Inl EIndex \<longleftrightarrow> length s < 3) \<and>
   (closure_inputs_and_output s = Inl EIndex \<longleftrightarrow> length s < 2) \<and>
   (closure_upvars s = Inl EIndex \<longleftrightarrow> length s < 2)"
proof -
  have k: "closure_kind s = Inl EIndex \<longleftrightarrow> length s < 3"
    using closure_kind_raises[of s EIndex] by (auto simp: closure_kind_def res_simps)
  have f: "closure_fn_substitution s = Inl EIndex \<longleftrightarrow> length s < 3"
    using closure_fn_substitution_raises[of s EIndex] by (auto simp: closure_fn_substitution_def res_simps)
  have io: "closure_inputs_and_output s = Inl EIndex \<longleftrightarrow> length s < 2"
    using closure_inputs_and_output_raises[of s EIndex] by (auto simp: closure_inputs_and_output_def res_simps)
  have "length s < 2 \<Longrightarrow> closure_upvars s = Inl EIndex"
    using io by (simp add: closure_upvars_def)
  then have up: "closure_upvars s = Inl EIndex \<longleftrightarrow> length s < 2"
    using closure_upvars_raises[of s EIndex] by auto
  show ?thesis using closure_slots_simps k f io up by blast
qed

end
