(* ===== verification/Impl_Match.thy ===== *)
theory Impl_Match
  imports Closures
begin

text \<open>
  The impl shape matcher, \<open>impls_for_trait\<close> (\<open>db.rs\<close> lines 338--369),
  and the variance queries \<open>fn_def_variance\<close> and \<open>adt_variance\<close> (lines
  687--708).  \<open>impls_for_trait\<close> keeps, in the host's order, the impls of
  the trait whose self type, instantiated with the impl's bound variables and
  lowered, could match the query's self type (\<open>parameters[0]\<close>) by
  chalk's \<open>CouldMatch\<close>.  \<open>CouldMatch\<close> is chalk's, outside \<open>src/\<close>,
  and modelled from the specification: two types could match when either is
  a variable or an alias, or both have the same type former with the same
  identity and arguments that could match pairwise; lifetimes and constants
  always could match.  Results: soundness, every impl whose self type
  unifies with the query is kept; the result is the ordered filter of the
  impls; and the variance queries lower the host variances one by one,
  panicking on a bivariant parameter.
\<close>

section \<open>Definitions\<close>

text \<open>Terms that could become any type: variables and aliases.\<close>

definition flex_ty :: "cty \<Rightarrow> bool" where
  "flex_ty t =
     (case t of CBoundVar _ _ \<Rightarrow> True | CInferenceVar _ \<Rightarrow> True
              | CAliasProjection _ _ \<Rightarrow> True | CAliasOpaque _ _ \<Rightarrow> True | _ \<Rightarrow> False)"

text \<open>\<open>a.iter().zip(b.iter()).all(..)\<close> over two substitutions.\<close>

definition zip_all :: "('a \<Rightarrow> bool) list \<Rightarrow> 'a list \<Rightarrow> bool" where
  "zip_all fs xs = list_all (\<lambda>(f, x). f x) (zip fs xs)"

primrec could_match :: "cty \<Rightarrow> cty \<Rightarrow> bool"
  and could_match_arg :: "cgarg \<Rightarrow> cgarg \<Rightarrow> bool" where
  "could_match (CAdt a gs) u =
     (flex_ty u \<or> (case u of CAdt b hs \<Rightarrow> a = b \<and> zip_all (map could_match_arg gs) hs | _ \<Rightarrow> False))"
| "could_match (CAssociatedType a gs) u =
     (flex_ty u \<or> (case u of CAssociatedType b hs \<Rightarrow> a = b \<and> zip_all (map could_match_arg gs) hs | _ \<Rightarrow> False))"
| "could_match (CScalar s) u = (flex_ty u \<or> u = CScalar s)"
| "could_match (CTuple n gs) u =
     (flex_ty u \<or> (case u of CTuple m hs \<Rightarrow> n = m \<and> zip_all (map could_match_arg gs) hs | _ \<Rightarrow> False))"
| "could_match (CArray t c) u =
     (flex_ty u \<or> (case u of CArray t' c' \<Rightarrow> could_match t t' | _ \<Rightarrow> False))"
| "could_match (CSlice t) u = (flex_ty u \<or> (case u of CSlice t' \<Rightarrow> could_match t t' | _ \<Rightarrow> False))"
| "could_match (CRaw m t) u =
     (flex_ty u \<or> (case u of CRaw m' t' \<Rightarrow> m = m' \<and> could_match t t' | _ \<Rightarrow> False))"
| "could_match (CRef m l t) u =
     (flex_ty u \<or> (case u of CRef m' l' t' \<Rightarrow> m = m' \<and> could_match t t' | _ \<Rightarrow> False))"
| "could_match (COpaqueType a gs) u =
     (flex_ty u \<or> (case u of COpaqueType b hs \<Rightarrow> a = b \<and> zip_all (map could_match_arg gs) hs | _ \<Rightarrow> False))"
| "could_match (CFnDef a gs) u =
     (flex_ty u \<or> (case u of CFnDef b hs \<Rightarrow> a = b \<and> zip_all (map could_match_arg gs) hs | _ \<Rightarrow> False))"
| "could_match CStr u = (flex_ty u \<or> u = CStr)"
| "could_match CNever u = (flex_ty u \<or> u = CNever)"
| "could_match (CClosure a gs) u =
     (flex_ty u \<or> (case u of CClosure b hs \<Rightarrow> a = b \<and> zip_all (map could_match_arg gs) hs | _ \<Rightarrow> False))"
| "could_match (CForeign a) u = (flex_ty u \<or> u = CForeign a)"
| "could_match CError u = (flex_ty u \<or> u = CError)"
| "could_match (CBoundVar db v) u = True"
| "could_match (CFunction n gs) u =
     (flex_ty u \<or> (case u of CFunction m hs \<Rightarrow> n = m \<and> zip_all (map could_match_arg gs) hs | _ \<Rightarrow> False))"
| "could_match (CAliasProjection a gs) u = True"
| "could_match (CAliasOpaque a gs) u = True"
| "could_match (CInferenceVar n) u = True"
| "could_match_arg (CGTy t) h = (case h of CGTy u \<Rightarrow> could_match t u | _ \<Rightarrow> False)"
| "could_match_arg (CGLt l) h = is_CGLt h"
| "could_match_arg (CGConst c) h = is_CGConst h"

text \<open>The filter closure of \<open>impls_for_trait\<close>: the impl's self type,
  instantiated and lowered (\<open>bound_impl_trait_ref(..).unwrap()\<close>,
  \<open>bound_vars_for_item\<close>, \<open>self_ty\<close>, \<open>subst\<close>, \<open>lower_into\<close>), then
  \<open>parameters[0].assert_ty_ref().could_match(.., &lowered_ty)\<close>.\<close>

definition impl_lowered_self_ty :: "tcx \<Rightarrow> def_id \<Rightarrow> cty res" where
  "impl_lowered_self_ty tcx impl_def_id =
     bind_res (expect_res (impl_trait_ref tcx impl_def_id)) (\<lambda>trait_ref.
     bind_res (bound_vars_for_item tcx impl_def_id) (\<lambda>bound_vars.
     bind_res (trait_ref_self_ty trait_ref) (\<lambda>self_ty.
     bind_res (subst_ty_res bound_vars self_ty) lower_ty_res)))"

definition impl_could_match :: "tcx \<Rightarrow> cgarg list \<Rightarrow> def_id \<Rightarrow> bool res" where
  "impl_could_match tcx parameters impl_def_id =
     bind_res (impl_lowered_self_ty tcx impl_def_id) (\<lambda>lowered_ty.
     bind_res (nth_res parameters 0) (\<lambda>p.
     bind_res (assert_ty_ref p) (\<lambda>self_ty. Inr (could_match self_ty lowered_ty))))"

definition impls_for_trait :: "tcx \<Rightarrow> def_id \<Rightarrow> cgarg list \<Rightarrow> def_id list res" where
  "impls_for_trait tcx trait_id parameters =
     filter_res (impl_could_match tcx parameters) (all_impls tcx trait_id)"

text \<open>Instantiating the variables of a solver type (a unifier's substitution);
  every other former is kept.\<close>

primrec inst :: "(cty \<Rightarrow> cty) \<Rightarrow> cty \<Rightarrow> cty"
  and inst_arg :: "(cty \<Rightarrow> cty) \<Rightarrow> cgarg \<Rightarrow> cgarg"
  and inst_const :: "(cty \<Rightarrow> cty) \<Rightarrow> cconst \<Rightarrow> cconst" where
  "inst \<theta> (CAdt a gs) = CAdt a (map (inst_arg \<theta>) gs)"
| "inst \<theta> (CAssociatedType a gs) = CAssociatedType a (map (inst_arg \<theta>) gs)"
| "inst \<theta> (CScalar s) = CScalar s"
| "inst \<theta> (CTuple n gs) = CTuple n (map (inst_arg \<theta>) gs)"
| "inst \<theta> (CArray t c) = CArray (inst \<theta> t) (inst_const \<theta> c)"
| "inst \<theta> (CSlice t) = CSlice (inst \<theta> t)"
| "inst \<theta> (CRaw m t) = CRaw m (inst \<theta> t)"
| "inst \<theta> (CRef m l t) = CRef m l (inst \<theta> t)"
| "inst \<theta> (COpaqueType a gs) = COpaqueType a (map (inst_arg \<theta>) gs)"
| "inst \<theta> (CFnDef a gs) = CFnDef a (map (inst_arg \<theta>) gs)"
| "inst \<theta> CStr = CStr"
| "inst \<theta> CNever = CNever"
| "inst \<theta> (CClosure a gs) = CClosure a (map (inst_arg \<theta>) gs)"
| "inst \<theta> (CForeign a) = CForeign a"
| "inst \<theta> CError = CError"
| "inst \<theta> (CBoundVar db v) = \<theta> (CBoundVar db v)"
| "inst \<theta> (CFunction n gs) = CFunction n (map (inst_arg \<theta>) gs)"
| "inst \<theta> (CAliasProjection a gs) = CAliasProjection a (map (inst_arg \<theta>) gs)"
| "inst \<theta> (CAliasOpaque a gs) = CAliasOpaque a (map (inst_arg \<theta>) gs)"
| "inst \<theta> (CInferenceVar n) = \<theta> (CInferenceVar n)"
| "inst_arg \<theta> (CGTy t) = CGTy (inst \<theta> t)"
| "inst_arg \<theta> (CGLt l) = CGLt l"
| "inst_arg \<theta> (CGConst c) = CGConst (inst_const \<theta> c)"
| "inst_const \<theta> (CConstBound db v t) = CConstBound db v (inst \<theta> t)"
| "inst_const \<theta> (CConstValue n t) = CConstValue n (inst \<theta> t)"

text \<open>Example: two impls of trait 60, \<open>impl<T> Tr for Pair<T>\<close> (61) and
  \<open>impl Tr for u32\<close> (62).\<close>

definition match_tcx :: tcx where
  "match_tcx = empty_tcx\<lparr>
     generics_of := (\<lambda>d. if d = 61 then [\<lparr>gp_index = 0, gp_kind = PKType\<rparr>] else []),
     all_impls := (\<lambda>t. if t = 60 then [61, 62] else []),
     impl_trait_ref := (\<lambda>i. if i = 61 then Some (60, [GTy (TAdt 1 [GTy (TParam 0)])])
                            else if i = 62 then Some (60, [GTy (TUint U32)]) else None)\<rparr>"

section \<open>Variance\<close>

datatype c_variance = CCovariant | CInvariant | CContravariant

text \<open>\<open>LowerInto<chalk_ir::Variance> for ty::Variance\<close> (outside \<open>src/\<close>):
  bivariance has no solver form and is \<open>unimplemented!()\<close>.\<close>

primrec lower_variance :: "variance \<Rightarrow> c_variance res" where
  "lower_variance Covariant = Inr CCovariant"
| "lower_variance Invariant = Inr CInvariant"
| "lower_variance Contravariant = Inr CContravariant"
| "lower_variance Bivariant = Inl EUnimplemented"

definition fn_def_variance :: "tcx \<Rightarrow> def_id \<Rightarrow> c_variance list res" where
  "fn_def_variance tcx def_id = map_res lower_variance (variances_of tcx def_id)"

definition adt_variance :: "tcx \<Rightarrow> adt_def \<Rightarrow> c_variance list res" where
  "adt_variance tcx adt_id = map_res lower_variance (variances_of tcx (adt_did adt_id))"

section \<open>Lemmas\<close>

lemma zip_all_map:
  assumes "map f gs = map f hs" "\<And>g h. g \<in> set gs \<Longrightarrow> f g = f h \<Longrightarrow> R g h"
  shows "zip_all (map R gs) hs"
  using assms
proof (induction gs arbitrary: hs)
  case Nil
  then show ?case by (simp add: zip_all_def)
next
  case (Cons g gs)
  then show ?case by (cases hs) (auto simp: zip_all_def)
qed

lemma inst_arg_kind:
  "inst_arg \<theta> h = CGLt l \<Longrightarrow> is_CGLt h" "inst_arg \<theta> h = CGConst c \<Longrightarrow> is_CGConst h"
  by (cases h; simp)+

lemma could_match_sound:
  "inst \<theta> u = inst \<theta> t \<Longrightarrow> could_match t u"
  "inst_arg \<theta> h = inst_arg \<theta> g \<Longrightarrow> could_match_arg g h"
  "inst_const \<theta> c' = inst_const \<theta> c \<Longrightarrow> True"
  by (induction t and g and c arbitrary: u and h and c')
     (auto simp: flex_ty_def split: cty.splits cgarg.splits dest: inst_arg_kind
           intro!: zip_all_map[where f = "inst_arg \<theta>"])

lemma impl_could_match_query:
  "impl_could_match tcx (CGTy q # ps) i = bind_res (impl_lowered_self_ty tcx i) (\<lambda>s. Inr (could_match q s))"
  by (cases "impl_lowered_self_ty tcx i") (simp_all add: impl_could_match_def res_simps)

subsection \<open>Panics\<close>

lemma impl_lowered_self_ty_raises [panics]:
  "impl_lowered_self_ty tcx i = Inl e \<Longrightarrow> e \<in> {EUnwrap, EParamIndex, ENotTy, ESubstParam, ELowerParam}"
  unfolding impl_lowered_self_ty_def by (auto simp: bind_res_eq_Inl dest: panics)

lemma impl_could_match_raises [panics]:
  "impl_could_match tcx ps i = Inl e \<Longrightarrow>
     e \<in> {EUnwrap, EParamIndex, ENotTy, ESubstParam, ELowerParam, EIndex}"
  unfolding impl_could_match_def by (auto simp: bind_res_eq_Inl dest: panics)

lemma impls_for_trait_raises [panics]:
  "impls_for_trait tcx tr ps = Inl e \<Longrightarrow>
     e \<in> {EUnwrap, EParamIndex, ENotTy, ESubstParam, ELowerParam, EIndex}"
  unfolding impls_for_trait_def by (auto dest!: filter_res_raises dest: impl_could_match_raises)

lemma lower_variance_raises [panics]: "lower_variance v = Inl e \<Longrightarrow> e = EUnimplemented \<and> v = Bivariant"
  by (cases v) simp_all

lemma map_lower_variance_Inl:
  "map_res lower_variance vs = Inl e \<longleftrightarrow> e = EUnimplemented \<and> Bivariant \<in> set vs"
proof (induction vs)
  case (Cons v vs)
  then show ?case by (cases v) (auto simp: bind_res_eq_Inl)
qed simp

lemma fn_def_variance_raises [panics]:
  "fn_def_variance tcx d = Inl e \<Longrightarrow> e = EUnimplemented"
  by (simp add: fn_def_variance_def map_lower_variance_Inl)

lemma adt_variance_raises [panics]:
  "adt_variance tcx a = Inl e \<Longrightarrow> e = EUnimplemented"
  by (simp add: adt_variance_def map_lower_variance_Inl)

section \<open>Properties\<close>

text \<open>
  C24.  Soundness of the shape matcher: whenever an impl's lowered self type
  and the query's self type become equal under some instantiation of their
  variables, \<open>impls_for_trait\<close> (if it returns) keeps that impl.
\<close>

theorem impls_for_trait_sound:
  assumes "impls_for_trait tcx tr (CGTy q # ps) = Inr res" "i \<in> set (all_impls tcx tr)"
    and "impl_lowered_self_ty tcx i = Inr s" "inst \<theta> q = inst \<theta> s"
  shows "i \<in> set res"
proof -
  have "could_match q s" using could_match_sound(1)[OF assms(4)[symmetric]] .
  then show ?thesis
    using assms(1-3) by (simp add: impls_for_trait_def filter_res_Inr impl_could_match_query)
qed

theorem impls_for_trait_sound_witness:
  "impls_for_trait match_tcx 60 [CGTy (CAdt 1 [CGTy (CScalar (SUint CU8))])] = Inr [61] \<and>
   (61::nat) \<in> set (all_impls match_tcx 60) \<and>
   impl_lowered_self_ty match_tcx 61 = Inr (CAdt 1 [CGTy (CBoundVar 0 0)]) \<and>
   inst (\<lambda>_. CScalar (SUint CU8)) (CAdt 1 [CGTy (CScalar (SUint CU8))]) =
     inst (\<lambda>_. CScalar (SUint CU8)) (CAdt 1 [CGTy (CBoundVar 0 0)]) \<and>
   (61::nat) \<in> set [61]"
proof -
  have l61: "impl_lowered_self_ty match_tcx 61 = Inr (CAdt 1 [CGTy (CBoundVar 0 0)])"
    by (simp add: impl_lowered_self_ty_def match_tcx_def bound_vars_for_item_def for_item_def
                  mk_bound_var_def Let_def trait_ref_self_ty_def subst_ty_res_def lower_ty_res_def)
  have l62: "impl_lowered_self_ty match_tcx 62 = Inr (CScalar (SUint CU32))"
    by (simp add: impl_lowered_self_ty_def match_tcx_def bound_vars_for_item_def for_item_def
                  trait_ref_self_ty_def subst_ty_res_def lower_ty_res_def)
  have a: "all_impls match_tcx 60 = [61, 62]" by (simp add: match_tcx_def)
  have r: "impls_for_trait match_tcx 60 [CGTy (CAdt 1 [CGTy (CScalar (SUint CU8))])] = Inr [61]"
    by (simp add: impls_for_trait_def a impl_could_match_query l61 l62 flex_ty_def zip_all_def)
  have m: "(61::nat) \<in> set (all_impls match_tcx 60)" by (simp add: match_tcx_def)
  have u: "inst (\<lambda>_. CScalar (SUint CU8)) (CAdt 1 [CGTy (CScalar (SUint CU8))]) =
           inst (\<lambda>_. CScalar (SUint CU8)) (CAdt 1 [CGTy (CBoundVar 0 0)])" by simp
  show ?thesis using r m l61 u impls_for_trait_sound[OF r m l61 u] by simp
qed

text \<open>
  C25.  When every impl of the trait has an instantiable self type,
  \<open>impls_for_trait\<close> returns without panicking exactly the impls, in the
  host's order, whose lowered self type could match the query's.
\<close>

theorem impls_for_trait_filter:
  assumes "\<forall>i\<in>set (all_impls tcx tr). \<exists>s. impl_lowered_self_ty tcx i = Inr s"
  shows "impls_for_trait tcx tr (CGTy q # ps) =
           Inr (filter (\<lambda>i. \<exists>s. impl_lowered_self_ty tcx i = Inr s \<and> could_match q s) (all_impls tcx tr))"
  using assms by (auto simp: impls_for_trait_def filter_res_Inr impl_could_match_query intro!: filter_cong)

theorem impls_for_trait_filter_witness:
  "all_impls match_tcx 60 = [61, 62] \<and>
   impl_lowered_self_ty match_tcx 61 = Inr (CAdt 1 [CGTy (CBoundVar 0 0)]) \<and>
   impl_lowered_self_ty match_tcx 62 = Inr (CScalar (SUint CU32)) \<and>
   impls_for_trait match_tcx 60 [CGTy (CScalar (SUint CU32))] =
     Inr (filter (\<lambda>i. \<exists>s. impl_lowered_self_ty match_tcx i = Inr s \<and> could_match (CScalar (SUint CU32)) s)
                 (all_impls match_tcx 60))"
proof -
  have l61: "impl_lowered_self_ty match_tcx 61 = Inr (CAdt 1 [CGTy (CBoundVar 0 0)])"
    by (simp add: impl_lowered_self_ty_def match_tcx_def bound_vars_for_item_def for_item_def
                  mk_bound_var_def Let_def trait_ref_self_ty_def subst_ty_res_def lower_ty_res_def)
  have l62: "impl_lowered_self_ty match_tcx 62 = Inr (CScalar (SUint CU32))"
    by (simp add: impl_lowered_self_ty_def match_tcx_def bound_vars_for_item_def for_item_def
                  trait_ref_self_ty_def subst_ty_res_def lower_ty_res_def)
  have a: "all_impls match_tcx 60 = [61, 62]" by (simp add: match_tcx_def)
  have h: "\<forall>i\<in>set (all_impls match_tcx 60). \<exists>s. impl_lowered_self_ty match_tcx i = Inr s"
    by (simp add: a l61 l62)
  show ?thesis using a l61 l62 impls_for_trait_filter[OF h, of "CScalar (SUint CU32)" "[]"] by simp
qed

text \<open>
  C29.  A query without parameters: \<open>parameters[0]\<close> is read inside the
  filter closure, after the impl's self type is lowered, so the query
  panics with an index error at the first impl, and only if the trait has
  an impl whose self type lowers; with no impls it returns the empty list.
\<close>

theorem impls_for_trait_no_parameters:
  "impls_for_trait tcx tr [] =
     (case all_impls tcx tr of
        [] \<Rightarrow> Inr []
      | i # _ \<Rightarrow> bind_res (impl_lowered_self_ty tcx i) (\<lambda>_. Inl EIndex))"
  by (cases "all_impls tcx tr"; cases "impl_lowered_self_ty tcx (hd (all_impls tcx tr))")
     (simp_all add: impls_for_trait_def impl_could_match_def res_simps)

text \<open>
  C26.  The variance queries succeed, with one solver variance per
  parameter, exactly when no parameter is bivariant; a bivariant parameter
  reaches \<open>unimplemented!()\<close> in the lowering.
\<close>

theorem variance_bivariant:
  "(\<exists>cvs. fn_def_variance tcx d = Inr cvs \<and> length cvs = length (variances_of tcx d)) \<longleftrightarrow>
     Bivariant \<notin> set (variances_of tcx d)"
proof -
  have "(\<exists>cvs. map_res lower_variance vs = Inr cvs \<and> length cvs = length vs) \<longleftrightarrow> Bivariant \<notin> set vs" for vs
  proof (induction vs)
    case (Cons v vs)
    then show ?case by (cases v) (auto simp: bind_res_eq_Inr)
  qed simp
  then show ?thesis by (simp add: fn_def_variance_def)
qed

theorem variance_bivariant_witness:
  "Bivariant \<in> set (variances_of (empty_tcx\<lparr>variances_of := \<lambda>_. [Covariant, Bivariant]\<rparr>) 70) \<and>
   fn_def_variance (empty_tcx\<lparr>variances_of := \<lambda>_. [Covariant, Bivariant]\<rparr>) 70 = Inl EUnimplemented \<and>
   \<not> (\<exists>cvs. fn_def_variance (empty_tcx\<lparr>variances_of := \<lambda>_. [Covariant, Bivariant]\<rparr>) 70 = Inr cvs \<and>
          length cvs = length (variances_of (empty_tcx\<lparr>variances_of := \<lambda>_. [Covariant, Bivariant]\<rparr>) 70))"
  using variance_bivariant[of "empty_tcx\<lparr>variances_of := \<lambda>_. [Covariant, Bivariant]\<rparr>" 70]
  by (simp add: fn_def_variance_def)

end
