(* ===== verification/Auto_Trait.thy ===== *)
theory Auto_Trait
  imports Host_Ctx Chalk_IR
begin

text \<open>
  The auto-trait provision oracle, \<open>impl_provided_for\<close> (\<open>db.rs\<close> lines
  371--448).  It scans the impls of the auto trait in the host's order, reads
  each impl's self type (\<open>impl_trait_ref(..).unwrap().self_ty()\<close>), and
  answers \<open>true\<close> at the first impl whose self type has the query's shape
  by the fixed table of the \<open>match\<close> (\<open>provides\<close> below, arm by arm).
  Results: for impls with a trait reference, the answer is whether some impl's
  self type provides the query; a panic comes only from an impl scanned before
  any providing one; an associated-type query is never provided; and the table agrees
  with lowering: a host type provides for its own lowering exactly when it is
  one of the shapes the table lists.
\<close>

section \<open>Definitions\<close>

text \<open>The integer, unsigned and float sub-tables (\<open>matches!\<close>).\<close>

fun int_ty_match :: "int_ty \<Rightarrow> c_int_ty \<Rightarrow> bool" where
  "int_ty_match Isize CIsize = True"
| "int_ty_match I8 CI8 = True"
| "int_ty_match I16 CI16 = True"
| "int_ty_match I32 CI32 = True"
| "int_ty_match I64 CI64 = True"
| "int_ty_match I128 CI128 = True"
| "int_ty_match _ _ = False"

fun uint_ty_match :: "uint_ty \<Rightarrow> c_uint_ty \<Rightarrow> bool" where
  "uint_ty_match Usize CUsize = True"
| "uint_ty_match U8 CU8 = True"
| "uint_ty_match U16 CU16 = True"
| "uint_ty_match U32 CU32 = True"
| "uint_ty_match U64 CU64 = True"
| "uint_ty_match U128 CU128 = True"
| "uint_ty_match _ _ = False"

fun float_ty_match :: "float_ty \<Rightarrow> c_float_ty \<Rightarrow> bool" where
  "float_ty_match F32 CF32 = True"
| "float_ty_match F64 CF64 = True"
| "float_ty_match _ _ = False"

fun mutability_match :: "mutability \<Rightarrow> c_mut \<Rightarrow> bool" where
  "mutability_match Mut CMut = True"
| "mutability_match Mut CNot = False"
| "mutability_match NotMut CMut = False"
| "mutability_match NotMut CNot = True"

text \<open>The \<open>match (self_ty.kind(), chalk_ty)\<close>.  Every arm but the last
  names a distinct solver constructor, so the arms are grouped by that
  constructor (outer \<open>case\<close>) and, inside, by the host constructor; the
  final \<open>_ => false\<close> is every remaining pair.\<close>

definition provides :: "ty \<Rightarrow> cty \<Rightarrow> bool" where
  "provides self_ty chalk_ty =
     (case chalk_ty of
        CAdt adt_id _ \<Rightarrow> (case self_ty of TAdt impl_adt _ \<Rightarrow> impl_adt = adt_id | _ \<Rightarrow> False)
      | CAssociatedType _ _ \<Rightarrow> False
      | CScalar SBool \<Rightarrow> (case self_ty of TBool \<Rightarrow> True | _ \<Rightarrow> False)
      | CScalar SChar \<Rightarrow> (case self_ty of TChar \<Rightarrow> True | _ \<Rightarrow> False)
      | CScalar (SInt ty2) \<Rightarrow> (case self_ty of TInt ty1 \<Rightarrow> int_ty_match ty1 ty2 | _ \<Rightarrow> False)
      | CScalar (SUint ty2) \<Rightarrow> (case self_ty of TUint ty1 \<Rightarrow> uint_ty_match ty1 ty2 | _ \<Rightarrow> False)
      | CScalar (SFloat ty2) \<Rightarrow> (case self_ty of TFloat ty1 \<Rightarrow> float_ty_match ty1 ty2 | _ \<Rightarrow> False)
      | CTuple len _ \<Rightarrow> (case self_ty of TTuple substs \<Rightarrow> length substs = len | _ \<Rightarrow> False)
      | CArray _ _ \<Rightarrow> (case self_ty of TArray _ _ \<Rightarrow> True | _ \<Rightarrow> False)
      | CSlice _ \<Rightarrow> (case self_ty of TSlice _ \<Rightarrow> True | _ \<Rightarrow> False)
      | CRaw m2 _ \<Rightarrow> (case self_ty of TRawPtr _ m1 \<Rightarrow> mutability_match m1 m2 | _ \<Rightarrow> False)
      | CRef m2 _ _ \<Rightarrow> (case self_ty of TRef _ _ m1 \<Rightarrow> mutability_match m1 m2 | _ \<Rightarrow> False)
      | COpaqueType opaque_ty_id _ \<Rightarrow> (case self_ty of TOpaque d _ \<Rightarrow> d = opaque_ty_id | _ \<Rightarrow> False)
      | CFnDef fn_def_id _ \<Rightarrow> (case self_ty of TFnDef d _ \<Rightarrow> d = fn_def_id | _ \<Rightarrow> False)
      | CStr \<Rightarrow> (case self_ty of TStr \<Rightarrow> True | _ \<Rightarrow> False)
      | CNever \<Rightarrow> (case self_ty of TNever \<Rightarrow> True | _ \<Rightarrow> False)
      | CClosure closure_id _ \<Rightarrow> (case self_ty of TClosure d _ \<Rightarrow> d = closure_id | _ \<Rightarrow> False)
      | CForeign foreign_def_id \<Rightarrow> (case self_ty of TForeign d \<Rightarrow> d = foreign_def_id | _ \<Rightarrow> False)
      | CError \<Rightarrow> False
      | _ \<Rightarrow> False)"

text \<open>The self type of an impl: \<open>impl_trait_ref(impl_def_id).unwrap().self_ty()\<close>.\<close>

definition impl_self_ty :: "tcx \<Rightarrow> def_id \<Rightarrow> ty res" where
  "impl_self_ty tcx impl_def_id = bind_res (expect_res (impl_trait_ref tcx impl_def_id)) trait_ref_self_ty"

text \<open>The \<open>for impl_def_id in all_impls\<close> loop with its early \<open>return true\<close>.\<close>

fun provided_by_any :: "tcx \<Rightarrow> cty \<Rightarrow> def_id list \<Rightarrow> bool res" where
  "provided_by_any tcx chalk_ty [] = Inr False"
| "provided_by_any tcx chalk_ty (impl_def_id # impls) =
     bind_res (impl_self_ty tcx impl_def_id) (\<lambda>self_ty.
       if provides self_ty chalk_ty then Inr True else provided_by_any tcx chalk_ty impls)"

definition impl_provided_for :: "tcx \<Rightarrow> def_id \<Rightarrow> cty \<Rightarrow> bool res" where
  "impl_provided_for tcx auto_trait_id chalk_ty =
     provided_by_any tcx chalk_ty (all_impls tcx auto_trait_id)"

text \<open>Every impl of the trait has a trait reference whose first argument is a type.\<close>

definition impls_have_self_ty :: "tcx \<Rightarrow> def_id \<Rightarrow> bool" where
  "impls_have_self_ty tcx tr \<longleftrightarrow>
     list_all (\<lambda>i. case impl_self_ty tcx i of Inl _ \<Rightarrow> False | Inr _ \<Rightarrow> True) (all_impls tcx tr)"

text \<open>The host type shapes the table lists.\<close>

fun table_shape :: "ty \<Rightarrow> bool" where
  "table_shape (TAdt _ _) = True"
| "table_shape TBool = True"
| "table_shape TChar = True"
| "table_shape (TInt _) = True"
| "table_shape (TUint _) = True"
| "table_shape (TFloat _) = True"
| "table_shape (TTuple _) = True"
| "table_shape (TArray _ _) = True"
| "table_shape (TSlice _) = True"
| "table_shape (TRawPtr _ _) = True"
| "table_shape (TRef _ _ _) = True"
| "table_shape (TFnDef _ _) = True"
| "table_shape TStr = True"
| "table_shape TNever = True"
| "table_shape (TClosure _ _) = True"
| "table_shape (TForeign _) = True"
| "table_shape _ = False"

text \<open>The specification's registry: one impl (100) of the auto trait 50, for \<open>u32\<close>.\<close>

definition marker_tcx :: tcx where
  "marker_tcx = empty_tcx\<lparr>all_impls := (\<lambda>t. if t = 50 then [100] else []),
                          impl_trait_ref := (\<lambda>i. if i = 100 then Some (50, [GTy (TUint U32)]) else None)\<rparr>"

section \<open>Lemmas\<close>

lemma provided_by_any_iff:
  assumes "list_all (\<lambda>i. \<exists>s. impl_self_ty tcx i = Inr s) impls"
  shows "provided_by_any tcx c impls =
           Inr (\<exists>i\<in>set impls. \<exists>s. impl_self_ty tcx i = Inr s \<and> provides s c)"
  using assms by (induction impls) auto

lemma provided_by_any_Inl:
  "provided_by_any tcx c impls = Inl e \<longleftrightarrow>
     (\<exists>pre i post. impls = pre @ i # post \<and>
        list_all (\<lambda>j. \<exists>s. impl_self_ty tcx j = Inr s \<and> \<not> provides s c) pre \<and>
        impl_self_ty tcx i = Inl e)"
proof (induction impls)
  case Nil
  then show ?case by simp
next
  case (Cons j impls)
  show ?case
  proof (cases "impl_self_ty tcx j")
    case (Inl e')
    then show ?thesis
      by (auto simp: Cons_eq_append_conv intro!: exI[of _ "[]"])
  next
    case (Inr s)
    let ?P = "list_all (\<lambda>j. \<exists>s. impl_self_ty tcx j = Inr s \<and> \<not> provides s c)"
    have "(\<exists>pre i post. j # impls = pre @ i # post \<and> ?P pre \<and> impl_self_ty tcx i = Inl e) \<longleftrightarrow>
          \<not> provides s c \<and> (\<exists>pre i post. impls = pre @ i # post \<and> ?P pre \<and> impl_self_ty tcx i = Inl e)"
      (is "?L \<longleftrightarrow> ?R")
    proof
      assume ?L
      then obtain pre i post where "j # impls = pre @ i # post" "?P pre" "impl_self_ty tcx i = Inl e"
        by blast
      then show ?R using Inr by (cases pre) auto
    next
      assume ?R
      then obtain pre i post where "\<not> provides s c" "impls = pre @ i # post" "?P pre"
        "impl_self_ty tcx i = Inl e"
        by blast
      then show ?L using Inr by (intro exI[of _ "j # pre"]) auto
    qed
    then show ?thesis using Inr Cons.IH by simp
  qed
qed

lemma sum_case_Inr_ex: "(case x of Inl _ \<Rightarrow> False | Inr _ \<Rightarrow> True) \<longleftrightarrow> (\<exists>s. x = Inr s)"
  by (cases x) simp_all

lemma impls_have_self_ty_ex:
  "impls_have_self_ty tcx tr \<longleftrightarrow> list_all (\<lambda>i. \<exists>s. impl_self_ty tcx i = Inr s) (all_impls tcx tr)"
  by (simp add: impls_have_self_ty_def sum_case_Inr_ex)

lemma provides_assoc: "\<not> provides t (CAssociatedType a gs)"
  by (simp add: provides_def)

lemma lower_int_match: "int_ty_match i (lower_int i)"
  by (cases i) simp_all

lemma lower_uint_match: "uint_ty_match u (lower_uint u)"
  by (cases u) simp_all

lemma lower_float_match: "float_ty_match f (lower_float f)"
  by (cases f) simp_all

lemma lower_mut_match: "mutability_match m (lower_mut m)"
  by (cases m) simp_all

lemma impl_self_ty_raises [panics]: "impl_self_ty tcx i = Inl e \<Longrightarrow> e \<in> {EUnwrap, ENotTy}"
  unfolding impl_self_ty_def by (auto simp: bind_res_eq_Inl dest: panics)

lemma impl_provided_for_raises [panics]:
  "impl_provided_for tcx tr c = Inl e \<Longrightarrow> e \<in> {EUnwrap, ENotTy}"
  unfolding impl_provided_for_def provided_by_any_Inl by (auto dest: impl_self_ty_raises)

section \<open>Properties\<close>

text \<open>
  C13.  Functional behaviour of \<open>impl_provided_for\<close>: when every impl of the
  trait has a trait reference whose self type is a type, the oracle answers,
  without panicking, whether some impl's self type provides the query shape
  by the table.
\<close>

theorem impl_provided_for_exists:
  assumes "impls_have_self_ty tcx tr"
  shows "impl_provided_for tcx tr c =
           Inr (\<exists>i\<in>set (all_impls tcx tr). \<exists>s. impl_self_ty tcx i = Inr s \<and> provides s c)"
  using assms by (simp add: impl_provided_for_def impls_have_self_ty_ex provided_by_any_iff)

theorem impl_provided_for_exists_witness:
  "impls_have_self_ty marker_tcx 50 \<and>
   impl_provided_for marker_tcx 50 (CScalar (SUint CU32)) =
     Inr (\<exists>i\<in>set (all_impls marker_tcx 50). \<exists>s. impl_self_ty marker_tcx i = Inr s \<and>
            provides s (CScalar (SUint CU32)))"
proof -
  have h: "impls_have_self_ty marker_tcx 50"
    by (simp add: impls_have_self_ty_def marker_tcx_def impl_self_ty_def trait_ref_self_ty_def)
  show ?thesis using h impl_provided_for_exists[OF h, of "CScalar (SUint CU32)"] by simp
qed

text \<open>
  C14.  Error path and scan order: \<open>impl_provided_for\<close> panics exactly when,
  scanning the impls in the host's order, it reaches an impl without a usable
  trait reference (\<open>unwrap\<close> on \<open>impl_trait_ref\<close>, or a self argument that
  is not a type) before any impl that provides the query; the panic is that
  impl's.
\<close>

theorem impl_provided_for_panics:
  "impl_provided_for tcx tr c = Inl e \<longleftrightarrow>
     (\<exists>pre i post. all_impls tcx tr = pre @ i # post \<and>
        list_all (\<lambda>j. \<exists>s. impl_self_ty tcx j = Inr s \<and> \<not> provides s c) pre \<and>
        impl_self_ty tcx i = Inl e)"
  by (simp add: impl_provided_for_def provided_by_any_Inl)

text \<open>
  C15.  An associated-type query is never provided, whatever impls are
  registered (provided each has a trait reference).
\<close>

theorem assoc_never_provided:
  assumes "impls_have_self_ty tcx tr"
  shows "impl_provided_for tcx tr (CAssociatedType a gs) = Inr False"
  using assms by (simp add: impl_provided_for_def impls_have_self_ty_ex provided_by_any_iff provides_assoc)

theorem assoc_never_provided_witness:
  "impls_have_self_ty marker_tcx 50 \<and> impl_provided_for marker_tcx 50 (CAssociatedType 7 []) = Inr False"
proof -
  have h: "impls_have_self_ty marker_tcx 50"
    by (simp add: impls_have_self_ty_def marker_tcx_def impl_self_ty_def trait_ref_self_ty_def)
  show ?thesis using h assoc_never_provided[OF h, of 7 "[]"] by simp
qed

text \<open>
  C16.  The table agrees with lowering: an impl for a host type provides the
  auto trait for that same type, lowered, exactly when the type is one of the
  shapes the table lists.  Opaque types, function pointers, projections,
  parameters, bound variables and error types do not provide for
  themselves: an opaque type lowers to an alias, which the table's
  \<open>OpaqueType\<close> arm never sees.
\<close>

theorem provides_lower_self: "provides t (lower_ty t) \<longleftrightarrow> table_shape t"
  by (cases t) (simp_all add: provides_def lower_int_match lower_uint_match lower_float_match lower_mut_match)

end
