(* ===== verification/Opaque.thy ===== *)
theory Opaque
  imports Datums
begin

text \<open>
  The opaque-type datum, \<open>opaque_ty_data\<close> (\<open>db.rs\<close> lines 493--543),
  and the folder it uses, \<open>ReplaceOpaqueTyFolder\<close> (lines 761--795), whose
  mutable state (\<open>opaque_folder\<close>) \<open>fold_binder\<close> threads through.  The
  item's bound variables are shifted up by one (\<open>shift_vars(.., 1)\<close>) to
  make room for the existential binder of the hidden type; each explicit
  bound of the opaque type is instantiated with them, folded so that the
  opaque type applied to its identity substitution becomes the existential
  variable, and lowered.  The folder's \<open>fold_ty\<close> does not recurse: it
  inspects only the types that are direct components of a predicate.
  \<open>hidden_opaque_type\<close> (lines 580--589) is the placeholder unit type.
  Results: for a non-generic opaque type the bounds are the explicit bounds
  folded and lowered, a self-reference nested in another type kept; for a
  generic opaque type the fold never fires, because it compares the
  instantiated bounds with the uninstantiated identity substitution; and the
  datum is closed and well sorted under its existential and item binders for
  well-formed host facts.
\<close>

section \<open>Definitions\<close>

text \<open>\<open>InternalSubsts::identity_for_item\<close>: every parameter as itself.\<close>

definition identity_arg :: "generic_param \<Rightarrow> garg" where
  "identity_arg p =
     (case gp_kind p of
        PKType \<Rightarrow> GTy (TParam (gp_index p))
      | PKLifetime \<Rightarrow> GLt (ReEarlyBound (gp_index p))
      | PKConst t \<Rightarrow> GConst (KParam (gp_index p) t))"

definition identity_for_item :: "tcx \<Rightarrow> def_id \<Rightarrow> garg list" where
  "identity_for_item tcx d = map identity_arg (generics_of tcx d)"

text \<open>\<open>ReplaceOpaqueTyFolder::fold_ty\<close>: only the type itself is
  inspected, its components are returned unchanged.\<close>

definition replace_opaque_ty :: "def_id \<Rightarrow> garg list \<Rightarrow> nat \<Rightarrow> ty \<Rightarrow> ty" where
  "replace_opaque_ty opaque_ty_id identity_substs binder_index ty =
     (case ty of
        TOpaque def_id substs \<Rightarrow>
          if def_id = opaque_ty_id \<and> substs = identity_substs then TBound binder_index 0 else ty
      | _ \<Rightarrow> ty)"

text \<open>The default \<open>super_fold_with\<close> of the components of a predicate:
  regions are kept, a constant's type is folded.\<close>

primrec replace_opaque_konst :: "def_id \<Rightarrow> garg list \<Rightarrow> nat \<Rightarrow> konst \<Rightarrow> konst" where
  "replace_opaque_konst o\<^sub>d s bi (KParam i t) = KParam i (replace_opaque_ty o\<^sub>d s bi t)"
| "replace_opaque_konst o\<^sub>d s bi (KBound db v t) = KBound db v (replace_opaque_ty o\<^sub>d s bi t)"
| "replace_opaque_konst o\<^sub>d s bi (KValue n t) = KValue n (replace_opaque_ty o\<^sub>d s bi t)"

primrec replace_opaque_garg :: "def_id \<Rightarrow> garg list \<Rightarrow> nat \<Rightarrow> garg \<Rightarrow> garg" where
  "replace_opaque_garg o\<^sub>d s bi (GTy t) = GTy (replace_opaque_ty o\<^sub>d s bi t)"
| "replace_opaque_garg o\<^sub>d s bi (GLt r) = GLt r"
| "replace_opaque_garg o\<^sub>d s bi (GConst c) = GConst (replace_opaque_konst o\<^sub>d s bi c)"

primrec replace_opaque_pred_kind :: "def_id \<Rightarrow> garg list \<Rightarrow> nat \<Rightarrow> pred_kind \<Rightarrow> pred_kind" where
  "replace_opaque_pred_kind o\<^sub>d s bi (PTrait a gs) = PTrait a (map (replace_opaque_garg o\<^sub>d s bi) gs)"
| "replace_opaque_pred_kind o\<^sub>d s bi (PRegionOutlives r1 r2) = PRegionOutlives r1 r2"
| "replace_opaque_pred_kind o\<^sub>d s bi (PTypeOutlives t r) = PTypeOutlives (replace_opaque_ty o\<^sub>d s bi t) r"
| "replace_opaque_pred_kind o\<^sub>d s bi (PProjection a gs t) =
     PProjection a (map (replace_opaque_garg o\<^sub>d s bi) gs) (replace_opaque_ty o\<^sub>d s bi t)"
| "replace_opaque_pred_kind o\<^sub>d s bi (PWellFormed g) = PWellFormed (replace_opaque_garg o\<^sub>d s bi g)"
| "replace_opaque_pred_kind o\<^sub>d s bi (PObjectSafe a) = PObjectSafe a"
| "replace_opaque_pred_kind o\<^sub>d s bi (PClosureKind a gs) = PClosureKind a (map (replace_opaque_garg o\<^sub>d s bi) gs)"
| "replace_opaque_pred_kind o\<^sub>d s bi (PConstEvaluatable c) = PConstEvaluatable (replace_opaque_konst o\<^sub>d s bi c)"

text \<open>\<open>fold_binder\<close>: the predicate's own binder is entered with
  \<open>binder_index.shift_in(1)\<close>.\<close>

primrec replace_opaque_pred :: "def_id \<Rightarrow> garg list \<Rightarrow> nat \<Rightarrow> predicate \<Rightarrow> predicate" where
  "replace_opaque_pred o\<^sub>d s bi (Predicate n p) = Predicate n (replace_opaque_pred_kind o\<^sub>d s (Suc bi) p)"

text \<open>The folder's state (\<open>struct ReplaceOpaqueTyFolder\<close>): the opaque type,
  its identity substitution and the current binder index, which
  \<open>fold_binder\<close> moves in before folding the binder's contents and out again
  after (\<open>shift_in(1)\<close> and \<open>shift_out(1)\<close> on \<open>&mut self\<close>); the folder
  is threaded through as a value.  \<open>opaque_ty_data\<close> folds each bound with
  a fresh folder at \<open>ty::INNERMOST\<close>.\<close>

record opaque_folder =
  of_opaque_ty_id :: def_id
  of_identity_substs :: "garg list"
  of_binder_index :: nat

definition fold_binder :: "opaque_folder \<Rightarrow> predicate \<Rightarrow> predicate \<times> opaque_folder" where
  "fold_binder folder t =
     (let folder = folder\<lparr>of_binder_index := of_binder_index folder + 1\<rparr>;
          t = (case t of Predicate n p \<Rightarrow>
                 Predicate n (replace_opaque_pred_kind (of_opaque_ty_id folder) (of_identity_substs folder)
                                (of_binder_index folder) p));
          folder = folder\<lparr>of_binder_index := of_binder_index folder - 1\<rparr>
      in (t, folder))"

definition new_opaque_folder :: "def_id \<Rightarrow> garg list \<Rightarrow> opaque_folder" where
  "new_opaque_folder opaque_ty_id identity_substs =
     \<lparr>of_opaque_ty_id = opaque_ty_id, of_identity_substs = identity_substs, of_binder_index = 0\<rparr>"

record opaque_ty_datum_bound =
  otb_bounds :: "qwc list binders"
  otb_where_clauses :: "qwc list binders"

record opaque_ty_datum =
  od_opaque_ty_id :: def_id
  od_bound :: "opaque_ty_datum_bound binders"

text \<open>The bound pipeline \<open>.map(subst).map(fold_with).filter_map(lower_into)\<close>,
  one bound at a time.\<close>

definition opaque_bounds :: "def_id \<Rightarrow> garg list \<Rightarrow> garg list \<Rightarrow> predicate list \<Rightarrow> qwc list res" where
  "opaque_bounds opaque_ty_id identity_substs bound_vars preds =
     bind_res (map_res (\<lambda>bound. bind_res (subst_pred_res bound_vars bound) (\<lambda>bound.
                 lower_pred_res (replace_opaque_pred opaque_ty_id identity_substs 0 bound))) preds)
       (\<lambda>cs. Inr (List.map_filter id cs))"

definition opaque_ty_data :: "tcx \<Rightarrow> def_id \<Rightarrow> opaque_ty_datum res" where
  "opaque_ty_data tcx opaque_ty_id =
     bind_res (bound_vars_for_item tcx opaque_ty_id) (\<lambda>bv.
     (let bound_vars = map (shift_garg 1 0) bv in
      bind_res (where_clauses_for tcx opaque_ty_id bound_vars) (\<lambda>where_clauses.
      (let identity_substs = identity_for_item tcx opaque_ty_id in
       bind_res (opaque_bounds opaque_ty_id identity_substs bound_vars
                   (explicit_item_bounds tcx opaque_ty_id)) (\<lambda>bounds.
       (let existential_binder = [VKTy] in
        bind_res (binders_for bound_vars) (\<lambda>binders.
        Inr \<lparr>od_opaque_ty_id = opaque_ty_id,
             od_bound = Binders binders
               \<lparr>otb_bounds = Binders existential_binder bounds,
                otb_where_clauses = Binders existential_binder where_clauses\<rparr>\<rparr>)))))))"

text \<open>\<open>hidden_opaque_type\<close>: the unit type, lowered.\<close>

definition hidden_opaque_type :: "def_id \<Rightarrow> cty" where
  "hidden_opaque_type opaque_ty_id = lower_ty (TTuple [])"

text \<open>Examples: three opaque types with one bound each on trait 40:
  9 is \<open>impl Tr\<close> (bound \<open>Self: Tr\<close>), 10 is non-generic with the bound
  \<open>[Self]: Tr\<close>, and 11 is generic over \<open>T\<close> with the bound \<open>Self: Tr\<close>.\<close>

definition opaque_tcx :: tcx where
  "opaque_tcx = empty_tcx\<lparr>
     generics_of := (\<lambda>d. if d = 11 then [\<lparr>gp_index = 0, gp_kind = PKType\<rparr>] else []),
     predicates_defined_on := (\<lambda>_. []),
     explicit_item_bounds := (\<lambda>d.
        if d = 9 then [Predicate 0 (PTrait 40 [GTy (TOpaque 9 [])])]
        else if d = 10 then [Predicate 0 (PTrait 40 [GTy (TSlice (TOpaque 10 []))])]
        else if d = 11 then [Predicate 0 (PTrait 40 [GTy (TOpaque 11 [GTy (TParam 0)])])]
        else [])\<rparr>"

text \<open>Well-formed host facts for an opaque type: those of an item, and
  explicit bounds that only name its parameters.\<close>

definition opaque_wf :: "tcx \<Rightarrow> def_id \<Rightarrow> bool" where
  "opaque_wf tcx d \<longleftrightarrow> item_wf tcx d \<and>
     list_all (host_pred_wf (generics_of tcx d)) (explicit_item_bounds tcx d)"

section \<open>Lemmas\<close>

lemma identity_not_params_free:
  "generics_of tcx d \<noteq> [] \<Longrightarrow> \<not> list_all (garg_params_ok []) (identity_for_item tcx d)"
  by (cases "generics_of tcx d"; cases "gp_kind (hd (generics_of tcx d))")
     (auto simp: identity_for_item_def identity_arg_def)

lemma replace_opaque_params_free:
  assumes "\<not> list_all (garg_params_ok []) \<iota>"
  shows "ty_params_ok [] t \<Longrightarrow> replace_opaque_ty o\<^sub>d \<iota> bi t = t"
    and "garg_params_ok [] g \<Longrightarrow> replace_opaque_garg o\<^sub>d \<iota> bi g = g"
    and "konst_params_ok [] c \<Longrightarrow> replace_opaque_konst o\<^sub>d \<iota> bi c = c"
    and "pred_kind_params_ok [] p \<Longrightarrow> replace_opaque_pred_kind o\<^sub>d \<iota> bi p = p"
proof -
  show t: "ty_params_ok [] t \<Longrightarrow> replace_opaque_ty o\<^sub>d \<iota> bi t = t" for t
    using assms by (cases t) (auto simp: replace_opaque_ty_def)
  show g: "garg_params_ok [] g \<Longrightarrow> replace_opaque_garg o\<^sub>d \<iota> bi g = g" for g
    using t by (cases g; cases "case g of GConst c \<Rightarrow> c | _ \<Rightarrow> KValue 0 TBool") auto
  show c: "konst_params_ok [] c \<Longrightarrow> replace_opaque_konst o\<^sub>d \<iota> bi c = c" for c
    using t by (cases c) auto
  show "pred_kind_params_ok [] p \<Longrightarrow> replace_opaque_pred_kind o\<^sub>d \<iota> bi p = p"
    using t g c by (cases p) (auto simp: list_all_iff intro: map_idI)
qed

lemma bound_vars_params_free:
  "const_params_scalar ps \<Longrightarrow>
   list_all (garg_params_ok []) (map (shift_garg 1 0) (map2 bound_var_at [0..<length ps] ps))"
  by (auto simp: list_all_length const_params_scalar_def bound_var_at_def scalar_ty_lowerable scalar_ty_shift
           intro!: shift_params_free(2) split: param_kind.splits)

lemma opaque_bounds_unfolded:
  assumes i: "\<not> list_all (garg_params_ok []) \<iota>" and s: "list_all (garg_params_ok []) \<sigma>"
  shows "opaque_bounds o\<^sub>d \<iota> \<sigma> preds = lower_clauses \<sigma> preds"
proof -
  have "(\<lambda>bound. bind_res (subst_pred_res \<sigma> bound) (\<lambda>b. lower_pred_res (replace_opaque_pred o\<^sub>d \<iota> 0 b))) =
        (\<lambda>p. bind_res (subst_pred_res \<sigma> p) lower_pred_res)"
  proof
    fix p show "bind_res (subst_pred_res \<sigma> p) (\<lambda>b. lower_pred_res (replace_opaque_pred o\<^sub>d \<iota> 0 b)) =
                bind_res (subst_pred_res \<sigma> p) lower_pred_res"
      by (cases p) (simp add: subst_pred_res_def replace_opaque_params_free(4)[OF i]
                              subst_pred_params_free[OF s])
  qed
  then show ?thesis by (simp add: opaque_bounds_def lower_clauses_def)
qed

lemma replace_opaque_params:
  shows replace_opaque_ty_params: "ty_params_ok [] t \<Longrightarrow> ty_params_ok [] (replace_opaque_ty o\<^sub>d \<iota> bi t)"
    and replace_opaque_konst_params: "konst_params_ok [] c \<Longrightarrow> konst_params_ok [] (replace_opaque_konst o\<^sub>d \<iota> bi c)"
    and replace_opaque_garg_params: "garg_params_ok [] g \<Longrightarrow> garg_params_ok [] (replace_opaque_garg o\<^sub>d \<iota> bi g)"
    and replace_opaque_pred_kind_params:
      "pred_kind_params_ok [] p \<Longrightarrow> pred_kind_params_ok [] (replace_opaque_pred_kind o\<^sub>d \<iota> bi p)"
proof -
  show t: "ty_params_ok [] t \<Longrightarrow> ty_params_ok [] (replace_opaque_ty o\<^sub>d \<iota> bi t)" for t
    by (cases t) (simp_all add: replace_opaque_ty_def)
  show k: "konst_params_ok [] c \<Longrightarrow> konst_params_ok [] (replace_opaque_konst o\<^sub>d \<iota> bi c)" for c
    using t by (cases c) simp_all
  show g: "garg_params_ok [] g \<Longrightarrow> garg_params_ok [] (replace_opaque_garg o\<^sub>d \<iota> bi g)" for g
    using t k by (cases g) simp_all
  show "pred_kind_params_ok [] p \<Longrightarrow> pred_kind_params_ok [] (replace_opaque_pred_kind o\<^sub>d \<iota> bi p)"
    using t g k by (cases p) (auto simp: list_all_iff)
qed

lemma replace_opaque_wf:
  assumes bv: "bv_ok E bi 0 (\<lambda>k. k = VKTy)"
  shows replace_opaque_ty_wf: "cty_wf E (lower_ty t) \<Longrightarrow> cty_wf E (lower_ty (replace_opaque_ty o\<^sub>d \<iota> bi t))"
    and replace_opaque_pred_kind_wf:
      "lower_pred_kind p = Some wc \<Longrightarrow> wc_wf E wc \<Longrightarrow>
       lower_pred_kind (replace_opaque_pred_kind o\<^sub>d \<iota> bi p) = Some wc' \<Longrightarrow> wc_wf E wc'"
proof -
  show t: "cty_wf E (lower_ty t) \<Longrightarrow> cty_wf E (lower_ty (replace_opaque_ty o\<^sub>d \<iota> bi t))" for t
    using bv by (cases t) (simp_all add: replace_opaque_ty_def)
  have k: "cconst_wf E (lower_konst c) \<Longrightarrow> cconst_wf E (lower_konst (replace_opaque_konst o\<^sub>d \<iota> bi c))" for c
    using t by (cases c) simp_all
  have g: "cgarg_wf E (lower_garg g) \<Longrightarrow> cgarg_wf E (lower_garg (replace_opaque_garg o\<^sub>d \<iota> bi g))" for g
    using t k by (cases g) simp_all
  show "lower_pred_kind p = Some wc \<Longrightarrow> wc_wf E wc \<Longrightarrow>
       lower_pred_kind (replace_opaque_pred_kind o\<^sub>d \<iota> bi p) = Some wc' \<Longrightarrow> wc_wf E wc'"
    using t g by (cases p) (auto simp: list_all_iff)
qed

lemma replace_opaque_lower_None:
  "lower_pred_kind (replace_opaque_pred_kind o\<^sub>d \<iota> bi p) = None \<longleftrightarrow> lower_pred_kind p = None"
  by (cases p) simp_all

lemma opaque_bound_inst:
  assumes cs: "const_params_scalar ps" and wf: "host_pred_wf ps p"
  shows "\<exists>q. bind_res (subst_pred_res (shifted_bound_vars (Suc 0) ps) p)
                (\<lambda>b. lower_pred_res (replace_opaque_pred o\<^sub>d \<iota> 0 b)) = Inr q \<and>
             (\<forall>c. q = Some c \<longrightarrow> qwc_wf [[VKTy], item_binder ps] c)"
proof (cases p)
  case (Predicate n k)
  let ?k = "subst_pred_kind 1 (shifted_bound_vars (Suc 0) ps) k"
  let ?k' = "replace_opaque_pred_kind o\<^sub>d \<iota> (Suc 0) ?k"
  have I: "pred_kind_params_ok (shifted_bound_vars (Suc 0) ps) k \<and> pred_kind_params_ok [] ?k \<and>
           (\<forall>wc. lower_pred_kind ?k = Some wc \<longrightarrow>
              wc_wf (replicate n VKLifetime # [[VKTy], item_binder ps]) wc)"
    using pred_kind_inst_shift[OF cs, of n k "[[VKTy]]"] wf Predicate by simp
  have bv: "bv_ok (replicate n VKLifetime # [[VKTy], item_binder ps]) (Suc 0) 0 (\<lambda>k. k = VKTy)"
    by (simp add: bv_ok_def)
  have free: "pred_kind_params_ok [] ?k'" using I by (simp add: replace_opaque_pred_kind_params)
  show ?thesis
  proof (cases "lower_pred_kind ?k'")
    case None
    then show ?thesis using I Predicate by (simp add: subst_pred_res_def)
  next
    case (Some wc')
    then obtain wc where "lower_pred_kind ?k = Some wc"
      using replace_opaque_lower_None[of o\<^sub>d \<iota> "Suc 0" ?k] by (cases "lower_pred_kind ?k") auto
    with I bv Some have "wc_wf (replicate n VKLifetime # [[VKTy], item_binder ps]) wc'"
      using replace_opaque_pred_kind_wf by blast
    then show ?thesis using I Predicate Some free by (simp add: subst_pred_res_def)
  qed
qed

lemma opaque_bounds_wf:
  assumes cs: "const_params_scalar ps" and wf: "list_all (host_pred_wf ps) preds"
  shows "\<exists>bs. opaque_bounds o\<^sub>d \<iota> (shifted_bound_vars (Suc 0) ps) preds = Inr bs \<and>
              list_all (qwc_wf [[VKTy], item_binder ps]) bs"
proof -
  let ?f = "\<lambda>p. bind_res (subst_pred_res (shifted_bound_vars (Suc 0) ps) p)
                (\<lambda>b. lower_pred_res (replace_opaque_pred o\<^sub>d \<iota> 0 b))"
  have ex: "\<And>x. x \<in> set preds \<Longrightarrow> \<exists>y. ?f x = Inr y"
    using opaque_bound_inst[OF cs] wf by (fastforce simp: list_all_iff)
  obtain qs where qs: "map_res ?f preds = Inr qs"
    using map_res_Inr_ex[where xs = preds and f = ?f] ex by blast
  have "\<forall>q\<in>set qs. \<forall>c. q = Some c \<longrightarrow> qwc_wf [[VKTy], item_binder ps] c"
  proof (intro ballI allI impI)
    fix q c assume q: "q \<in> set qs" and c: "q = Some c"
    from q obtain i where i: "i < length qs" "q = qs ! i" by (auto simp: in_set_conv_nth)
    from qs have "length qs = length preds" by (simp add: map_res_length)
    with i have p: "preds ! i \<in> set preds" by simp
    from map_res_nth[OF qs] i \<open>length qs = length preds\<close> have f: "?f (preds ! i) = Inr q" by simp
    from wf p have "host_pred_wf ps (preds ! i)" by (simp add: list_all_iff)
    from opaque_bound_inst[OF cs this, of o\<^sub>d \<iota>] f c show "qwc_wf [[VKTy], item_binder ps] c"
      by auto
  qed
  then have "list_all (qwc_wf [[VKTy], item_binder ps]) (List.map_filter id qs)"
    by (auto simp: list_all_iff set_map_filter)
  with qs show ?thesis by (simp add: opaque_bounds_def)
qed

lemma opaque_bounds_raises [panics]:
  "opaque_bounds d ids bvs preds = Inl e \<Longrightarrow> e \<in> {ESubstParam, ELowerParam}"
  unfolding opaque_bounds_def
  by (auto simp: bind_res_eq_Inl dest!: map_res_raises dest: subst_pred_res_raises lower_pred_res_raises)

lemma opaque_ty_data_raises [panics]:
  "opaque_ty_data tcx d = Inl e \<Longrightarrow> e \<in> {EParamIndex, ESubstParam, ELowerParam}"
  unfolding opaque_ty_data_def Let_def by (auto simp: bind_res_eq_Inl dest: panics)

lemma opaque_ty_data_shape:
  assumes "opaque_wf tcx d"
  shows "\<exists>bounds wcs. opaque_ty_data tcx d =
           Inr \<lparr>od_opaque_ty_id = d,
                od_bound = Binders (item_binder (generics_of tcx d))
                  \<lparr>otb_bounds = Binders [VKTy] bounds, otb_where_clauses = Binders [VKTy] wcs\<rparr>\<rparr> \<and>
           list_all (qwc_wf [[VKTy], item_binder (generics_of tcx d)]) bounds \<and>
           list_all (qwc_wf [[VKTy], item_binder (generics_of tcx d)]) wcs"
proof -
  let ?ps = "generics_of tcx d"
  have i: "item_wf tcx d" and b: "list_all (host_pred_wf ?ps) (explicit_item_bounds tcx d)"
    using assms by (simp_all add: opaque_wf_def)
  have c: "const_params_scalar ?ps" and p: "list_all (host_pred_wf ?ps) (predicates_defined_on tcx d)"
    using i by (simp_all add: item_wf_def)
  note S = item_wf_setup[OF i]
  have sh: "map (shift_garg 1 0) (item_bound_vars ?ps) = shifted_bound_vars (Suc 0) ?ps"
    by (simp add: shifted_bound_vars_def)
  obtain bs where B: "opaque_bounds d (identity_for_item tcx d) (shifted_bound_vars (Suc 0) ?ps)
                        (explicit_item_bounds tcx d) = Inr bs"
    and Bw: "list_all (qwc_wf [[VKTy], item_binder ?ps]) bs"
    using opaque_bounds_wf[OF c b] by blast
  have W: "where_clauses_for tcx d (shifted_bound_vars (Suc 0) ?ps) =
             Inr (List.map_filter (\<lambda>p. lower_pred (subst_pred (shifted_bound_vars (Suc 0) ?ps) p))
                    (predicates_defined_on tcx d)) \<and>
           list_all (qwc_wf [[VKTy], item_binder ?ps])
             (List.map_filter (\<lambda>p. lower_pred (subst_pred (shifted_bound_vars (Suc 0) ?ps) p))
                (predicates_defined_on tcx d))"
    using lower_clauses_wf_shift[OF c p, where F = "[[VKTy]]"] by (simp add: where_clauses_for_def)
  show ?thesis
    unfolding opaque_ty_data_def Let_def
    by (simp only: S sh bind_res_Inr W[THEN conjunct1] B binders_for_shifted[OF c])
       (use W Bw in simp)
qed

subsection \<open>The folder as state\<close>

text \<open>\<open>fold_binder\<close> leaves the folder as it found it (the shifts balance),
  and what it returns is \<open>replace_opaque_pred\<close> at the folder's index: the
  functional model of the bound pipeline is the stateful folder's.\<close>

lemma fold_binder_eq:
  "fold_binder folder t =
     (replace_opaque_pred (of_opaque_ty_id folder) (of_identity_substs folder) (of_binder_index folder) t, folder)"
  by (cases t) (simp add: fold_binder_def Let_def)

lemma opaque_bounds_folder:
  "opaque_bounds opaque_ty_id identity_substs bound_vars preds =
     bind_res (map_res (\<lambda>bound. bind_res (subst_pred_res bound_vars bound) (\<lambda>bound.
                 lower_pred_res (fst (fold_binder (new_opaque_folder opaque_ty_id identity_substs) bound)))) preds)
       (\<lambda>cs. Inr (List.map_filter id cs))"
  by (simp add: opaque_bounds_def fold_binder_eq new_opaque_folder_def)


text \<open>What the bound pipeline returns: each bound instantiated, folded at
  \<open>INNERMOST\<close> and lowered, those without a solver form dropped.\<close>

lemma opaque_bounds_Inr:
  assumes "opaque_bounds o\<^sub>d \<iota> \<sigma> preds = Inr bs"
  shows "\<exists>qs. list_all2 (\<lambda>p q. subst_pred_res \<sigma> p = Inr q) preds qs \<and>
           bs = List.map_filter (\<lambda>q. lower_pred (replace_opaque_pred o\<^sub>d \<iota> 0 q)) qs"
proof -
  from assms obtain cs where
    cs: "map_res (\<lambda>p. bind_res (subst_pred_res \<sigma> p) (\<lambda>q. lower_pred_res (replace_opaque_pred o\<^sub>d \<iota> 0 q))) preds = Inr cs"
    and bs: "bs = List.map_filter id cs"
    by (auto simp: opaque_bounds_def bind_res_eq_Inr)
  from cs have "list_all2 (\<lambda>p c. bind_res (subst_pred_res \<sigma> p)
                        (\<lambda>q. lower_pred_res (replace_opaque_pred o\<^sub>d \<iota> 0 q)) = Inr c) preds cs"
    by (simp add: map_res_Inr_iff)
  then have "list_all2 (\<lambda>p c. \<exists>q. subst_pred_res \<sigma> p = Inr q \<and>
                        c = lower_pred (replace_opaque_pred o\<^sub>d \<iota> 0 q)) preds cs"
    by (rule list_all2_mono) (auto simp: bind_res_eq_Inr dest: lower_pred_res_Inr)
  then show ?thesis unfolding bs
  proof (induction rule: list_all2_induct)
    case Nil
    then show ?case by simp
  next
    case (Cons p ps c cs')
    then obtain q qs where "subst_pred_res \<sigma> p = Inr q" "c = lower_pred (replace_opaque_pred o\<^sub>d \<iota> 0 q)"
      "list_all2 (\<lambda>p q. subst_pred_res \<sigma> p = Inr q) ps qs"
      "List.map_filter id cs' = List.map_filter (\<lambda>q. lower_pred (replace_opaque_pred o\<^sub>d \<iota> 0 q)) qs"
      by blast
    then show ?case
      by (intro exI[of _ "q # qs"]) (simp add: List.map_filter_simps id_def split: option.splits)
  qed
qed

lemma opaque_bounds_nongeneric:
  "opaque_bounds o\<^sub>d \<iota> [] preds = Inr bs \<Longrightarrow>
   bs = List.map_filter (\<lambda>p. lower_pred (replace_opaque_pred o\<^sub>d \<iota> 0 p)) preds"
proof (drule opaque_bounds_Inr, elim exE conjE)
  fix qs
  assume "list_all2 (\<lambda>p q. subst_pred_res [] p = Inr q) preds qs"
  then have "qs = preds"
    by (induction rule: list_all2_induct) (auto dest: subst_pred_res_nil)
  then show "bs = List.map_filter (\<lambda>q. lower_pred (replace_opaque_pred o\<^sub>d \<iota> 0 q)) qs \<Longrightarrow> ?thesis"
    by simp
qed

section \<open>Properties\<close>



text \<open>
  C23.  For a generic opaque type the fold never fires: the bounds are
  instantiated with the item's bound variables before the folder compares the
  opaque type's arguments with the identity substitution, whose parameters
  no instantiated term contains.  The datum's bounds are then exactly the
  plain lowering \<open>bounds_for\<close> of the instantiated bounds, so every
  self-reference stays an opaque alias instead of becoming the existential
  variable.
\<close>

theorem opaque_generic_bounds_unfolded:
  assumes "generics_of tcx d \<noteq> []" "const_params_scalar (generics_of tcx d)"
    and "opaque_ty_data tcx d = Inr od"
  shows "\<exists>bv. bound_vars_for_item tcx d = Inr bv \<and>
           bounds_for tcx d (map (shift_garg 1 0) bv) = Inr (binders_value (otb_bounds (binders_value (od_bound od))))"
proof -
  obtain bv where bv: "bound_vars_for_item tcx d = Inr bv"
    using assms(3) by (cases "bound_vars_for_item tcx d") (simp_all add: opaque_ty_data_def)
  then have free: "list_all (garg_params_ok []) (map (shift_garg 1 0) bv)"
    using assms(2) bound_vars_params_free by (auto simp: bound_vars_for_item_Inr)
  have eq: "opaque_bounds d (identity_for_item tcx d) (map (shift_garg 1 0) bv) (explicit_item_bounds tcx d) =
            bounds_for tcx d (map (shift_garg 1 0) bv)"
    using opaque_bounds_unfolded[OF identity_not_params_free[OF assms(1)] free]
    by (simp add: bounds_for_def)
  show ?thesis
    using assms(3) bv eq by (auto simp: opaque_ty_data_def Let_def bind_res_eq_Inr)
qed

theorem opaque_generic_bounds_unfolded_witness:
  "generics_of opaque_tcx 11 \<noteq> [] \<and> const_params_scalar (generics_of opaque_tcx 11) \<and>
   opaque_ty_data opaque_tcx 11 =
     Inr \<lparr>od_opaque_ty_id = 11,
          od_bound = Binders [VKTy] \<lparr>otb_bounds = Binders [VKTy]
                                  [Binders [] (Implemented 40 [CGTy (CAliasOpaque 11 [CGTy (CBoundVar 2 0)])])],
                                otb_where_clauses = Binders [VKTy] []\<rparr>\<rparr> \<and>
   (\<exists>bv. bound_vars_for_item opaque_tcx 11 = Inr bv \<and>
      bounds_for opaque_tcx 11 (map (shift_garg 1 0) bv) =
        Inr [Binders [] (Implemented 40 [CGTy (CAliasOpaque 11 [CGTy (CBoundVar 2 0)])])])"
proof -
  have g: "generics_of opaque_tcx 11 \<noteq> []" and c: "const_params_scalar (generics_of opaque_tcx 11)"
    by (simp_all add: opaque_tcx_def const_params_scalar_def)
  have o: "opaque_ty_data opaque_tcx 11 =
     Inr \<lparr>od_opaque_ty_id = 11,
          od_bound = Binders [VKTy] \<lparr>otb_bounds = Binders [VKTy]
                                  [Binders [] (Implemented 40 [CGTy (CAliasOpaque 11 [CGTy (CBoundVar 2 0)])])],
                                otb_where_clauses = Binders [VKTy] []\<rparr>\<rparr>"
    by (simp add: opaque_ty_data_def opaque_tcx_def bound_vars_for_item_def for_item_def where_clauses_for_def
                  lower_clauses_def opaque_bounds_def identity_for_item_def identity_arg_def subst_pred_res_def
                  replace_opaque_ty_def binders_for_def mk_bound_var_def Let_def)
  show ?thesis using g c o opaque_generic_bounds_unfolded[OF g c o] by simp
qed

text \<open>
  C28.  Opaque datum closedness: for an opaque type with well-formed host
  facts, \<open>opaque_ty_data\<close> succeeds; its item binder has one variable per
  generic parameter, the existential binder is one type variable, and every
  bound and where-clause is well sorted under the existential binder inside
  the item binder, whether or not the fold replaced a self-reference.
\<close>

theorem opaque_ty_data_closed:
  assumes "opaque_wf tcx d"
  shows "\<exists>bounds wcs. opaque_ty_data tcx d =
           Inr \<lparr>od_opaque_ty_id = d,
                od_bound = Binders (item_binder (generics_of tcx d))
                  \<lparr>otb_bounds = Binders [VKTy] bounds, otb_where_clauses = Binders [VKTy] wcs\<rparr>\<rparr> \<and>
           list_all (qwc_wf [[VKTy], item_binder (generics_of tcx d)]) bounds \<and>
           list_all (qwc_wf [[VKTy], item_binder (generics_of tcx d)]) wcs"
  using opaque_ty_data_shape[OF assms] .

theorem opaque_ty_data_closed_witness:
  "opaque_wf opaque_tcx 11 \<and>
   (\<exists>bounds wcs. opaque_ty_data opaque_tcx 11 =
      Inr \<lparr>od_opaque_ty_id = 11,
           od_bound = Binders (item_binder (generics_of opaque_tcx 11))
             \<lparr>otb_bounds = Binders [VKTy] bounds, otb_where_clauses = Binders [VKTy] wcs\<rparr>\<rparr> \<and>
      list_all (qwc_wf [[VKTy], item_binder (generics_of opaque_tcx 11)]) bounds \<and>
      list_all (qwc_wf [[VKTy], item_binder (generics_of opaque_tcx 11)]) wcs)"
proof -
  have w: "opaque_wf opaque_tcx 11"
    by (simp add: opaque_wf_def item_wf_def opaque_tcx_def dense_generics_def const_params_scalar_def)
  show ?thesis using w opaque_ty_data_closed[OF w] by blast
qed

end
