(* ===== verification/Queries.thy ===== *)
theory Queries
  imports Impl_Match Auto_Trait Opaque
begin

text \<open>
  The \<open>RustIrDatabase\<close> as one interface.  The solver asks the bridge
  through the methods of \<open>impl chalk_solve::RustIrDatabase for
  RustIrDatabase\<close> and \<open>impl chalk_ir::UnificationDatabase\<close> in
  \<open>db.rs\<close>; here they are one \<open>datatype\<close> of queries, one of answers and
  one dispatcher \<open>run_query\<close> that calls the component of each query as the
  source does.  This theory also holds the methods that do no work of their
  own: \<open>custom_clauses\<close> (lines 482--484, the empty list),
  \<open>program_clauses_for_env\<close> (545--550, a call into the solver),
  \<open>is_object_safe\<close> (576--578, a host query), the four
  \<open>unimplemented!()\<close> stubs (486--491, 661--673, 679--684) and the
  \<open>Debug\<close> impl (29--33).  Results: every query on well-formed host facts
  answers (progress) with well-sorted solver data; each query's panics lie
  in a listed set.
\<close>

section \<open>Definitions\<close>

text \<open>\<open>chalk_ir::ProgramClause\<close> (outside \<open>src/\<close>), only as the element type
  of \<open>custom_clauses\<close>: binders around a consequence and its conditions.\<close>

datatype program_clause = ProgramClause "var_kind list" where_clause "where_clause list"

definition custom_clauses :: "program_clause list" where
  "custom_clauses = []"

text \<open>\<open>chalk_ir::Environment\<close> (outside \<open>src/\<close>): the clauses in scope.
  \<open>program_clauses_for_env\<close> (lines 545--550) hands the database and the
  environment to the solver's own clause generator
  \<open>chalk_solve::program_clauses_for_env\<close>, which is not part of the program
  and is a parameter here.\<close>

record environment =
  env_clauses :: "program_clause list"

definition program_clauses_for_env ::
  "(tcx \<Rightarrow> environment \<Rightarrow> program_clause list) \<Rightarrow> tcx \<Rightarrow> environment \<Rightarrow> program_clause list" where
  "program_clauses_for_env solver_program_clauses_for_env tcx environment =
     solver_program_clauses_for_env tcx environment"

definition local_impls_to_coherence_check :: "tcx \<Rightarrow> def_id \<Rightarrow> def_id list res" where
  "local_impls_to_coherence_check tcx trait_id = Inl EUnimplemented"

definition is_object_safe_query :: "tcx \<Rightarrow> def_id \<Rightarrow> bool" where
  "is_object_safe_query tcx trait_id = is_object_safe tcx trait_id"

text \<open>The generator datums are not modelled: their builders are
  \<open>unimplemented!()\<close>, so they return no value of any type.\<close>

definition generator_datum :: "tcx \<Rightarrow> def_id \<Rightarrow> 'a res" where
  "generator_datum tcx generator_id = Inl EUnimplemented"

definition generator_witness_datum :: "tcx \<Rightarrow> def_id \<Rightarrow> 'a res" where
  "generator_witness_datum tcx generator_id = Inl EUnimplemented"

definition discriminant_type :: "tcx \<Rightarrow> cty \<Rightarrow> cty res" where
  "discriminant_type tcx ty = Inl EUnimplemented"

definition debug_fmt :: string where
  "debug_fmt = ''RustIrDatabase''"

text \<open>The queries, in the order of the source's methods; the closure and
  generator ids and the \<open>binders\<close> of \<open>impls_for_trait\<close> are unused by
  the source.  \<open>program_clauses_for_env\<close> (whose answer is the solver's,
  not the bridge's) and \<open>interner\<close>/\<open>unification_database\<close> (which
  return the database) are left out.\<close>

datatype db_query =
    QAssociatedTyData def_id
  | QTraitDatum def_id
  | QAdtDatum adt_def
  | QAdtRepr adt_def
  | QAdtSizeAlign adt_def
  | QFnDefDatum def_id
  | QImplDatum def_id
  | QImplsForTrait def_id "cgarg list"
  | QImplProvidedFor def_id cty
  | QAssociatedTyValue def_id
  | QCustomClauses
  | QLocalImplsToCoherenceCheck def_id
  | QOpaqueTyData def_id
  | QWellKnownTraitId well_known_trait
  | QIsObjectSafe def_id
  | QHiddenOpaqueType def_id
  | QClosureKind def_id "cgarg list"
  | QClosureInputsAndOutput def_id "cgarg list"
  | QClosureUpvars def_id "cgarg list"
  | QClosureFnSubstitution def_id "cgarg list"
  | QGeneratorDatum def_id
  | QGeneratorWitnessDatum def_id
  | QDiscriminantType cty
  | QFnDefVariance def_id
  | QAdtVariance adt_def

datatype db_answer =
    AAssocTyDatum assoc_ty_datum
  | ATraitDatum trait_datum
  | AAdtDatum adt_datum
  | AAdtRepr adt_repr
  | AAdtSizeAlign adt_size_align
  | AFnDefDatum fn_def_datum
  | AImplDatum impl_datum
  | AImplIds "def_id list"
  | ABool bool
  | AAssocTyValue assoc_ty_value
  | AProgramClauses "program_clause list"
  | AOpaqueTyDatum opaque_ty_datum
  | ATraitId "def_id option"
  | ATy cty
  | AClosureKind closure_kind
  | AFnIo "fn_def_io binders"
  | AUpvars "cty binders"
  | ASubst "cgarg list"
  | AVariances "c_variance list"

fun run_query :: "tcx \<Rightarrow> db_query \<Rightarrow> db_answer res" where
  "run_query tcx (QAssociatedTyData d) = bind_res (associated_ty_data tcx d) (\<lambda>r. Inr (AAssocTyDatum r))"
| "run_query tcx (QTraitDatum d) = bind_res (trait_datum tcx d) (\<lambda>r. Inr (ATraitDatum r))"
| "run_query tcx (QAdtDatum a) = bind_res (adt_datum tcx a) (\<lambda>r. Inr (AAdtDatum r))"
| "run_query tcx (QAdtRepr a) = Inr (AAdtRepr (adt_repr a))"
| "run_query tcx (QAdtSizeAlign a) = Inr (AAdtSizeAlign (adt_size_align tcx a))"
| "run_query tcx (QFnDefDatum d) = bind_res (fn_def_datum tcx d) (\<lambda>r. Inr (AFnDefDatum r))"
| "run_query tcx (QImplDatum d) = bind_res (impl_datum tcx d) (\<lambda>r. Inr (AImplDatum r))"
| "run_query tcx (QImplsForTrait t ps) = bind_res (impls_for_trait tcx t ps) (\<lambda>r. Inr (AImplIds r))"
| "run_query tcx (QImplProvidedFor t ty) = bind_res (impl_provided_for tcx t ty) (\<lambda>r. Inr (ABool r))"
| "run_query tcx (QAssociatedTyValue d) = bind_res (associated_ty_value tcx d) (\<lambda>r. Inr (AAssocTyValue r))"
| "run_query tcx QCustomClauses = Inr (AProgramClauses custom_clauses)"
| "run_query tcx (QLocalImplsToCoherenceCheck t) =
     bind_res (local_impls_to_coherence_check tcx t) (\<lambda>r. Inr (AImplIds r))"
| "run_query tcx (QOpaqueTyData d) = bind_res (opaque_ty_data tcx d) (\<lambda>r. Inr (AOpaqueTyDatum r))"
| "run_query tcx (QWellKnownTraitId wk) = Inr (ATraitId (well_known_trait_id tcx wk))"
| "run_query tcx (QIsObjectSafe t) = Inr (ABool (is_object_safe_query tcx t))"
| "run_query tcx (QHiddenOpaqueType d) = Inr (ATy (hidden_opaque_type d))"
| "run_query tcx (QClosureKind c s) = bind_res (closure_kind s) (\<lambda>r. Inr (AClosureKind r))"
| "run_query tcx (QClosureInputsAndOutput c s) = bind_res (closure_inputs_and_output s) (\<lambda>r. Inr (AFnIo r))"
| "run_query tcx (QClosureUpvars c s) = bind_res (closure_upvars s) (\<lambda>r. Inr (AUpvars r))"
| "run_query tcx (QClosureFnSubstitution c s) = bind_res (closure_fn_substitution s) (\<lambda>r. Inr (ASubst r))"
| "run_query tcx (QGeneratorDatum g) = generator_datum tcx g"
| "run_query tcx (QGeneratorWitnessDatum g) = generator_witness_datum tcx g"
| "run_query tcx (QDiscriminantType t) = bind_res (discriminant_type tcx t) (\<lambda>r. Inr (ATy r))"
| "run_query tcx (QFnDefVariance d) = bind_res (fn_def_variance tcx d) (\<lambda>r. Inr (AVariances r))"
| "run_query tcx (QAdtVariance a) = bind_res (adt_variance tcx a) (\<lambda>r. Inr (AVariances r))"

section \<open>Specification of the interface\<close>

text \<open>The host facts under which each query is expected to answer: those
  rustc guarantees for a type-checked crate (the components' well-formedness
  predicates), the item being of the kind the query is asked about, and the
  closure layout rustc builds.  The stubs have none.\<close>

fun query_wf :: "tcx \<Rightarrow> db_query \<Rightarrow> bool" where
  "query_wf tcx (QAssociatedTyData d) \<longleftrightarrow>
     assoc_ty_wf tcx d \<and> trait_container (ai_container (associated_item tcx d)) \<noteq> None \<and>
     ai_kind (associated_item tcx d) = AKType"
| "query_wf tcx (QTraitDatum d) \<longleftrightarrow> item_wf tcx d"
| "query_wf tcx (QAdtDatum a) \<longleftrightarrow> adt_wf tcx a"
| "query_wf tcx (QAdtRepr a) \<longleftrightarrow> True"
| "query_wf tcx (QAdtSizeAlign a) \<longleftrightarrow> True"
| "query_wf tcx (QFnDefDatum d) \<longleftrightarrow> fn_wf tcx d \<and> sig_inputs_and_output (fn_sig tcx d) \<noteq> []"
| "query_wf tcx (QImplDatum d) \<longleftrightarrow> impl_wf tcx d"
| "query_wf tcx (QImplsForTrait t ps) \<longleftrightarrow>
     list_all (impl_wf tcx) (all_impls tcx t) \<and> impls_have_self_ty tcx t \<and>
     (all_impls tcx t = [] \<or> (case ps of CGTy _ # _ \<Rightarrow> True | _ \<Rightarrow> False))"
| "query_wf tcx (QImplProvidedFor t ty) \<longleftrightarrow> impls_have_self_ty tcx t"
| "query_wf tcx (QAssociatedTyValue d) \<longleftrightarrow>
     dense_generics (generics_of tcx d) \<and> const_params_scalar (generics_of tcx d) \<and>
     host_ty_wf (generics_of tcx d) [] (type_of tcx d) \<and>
     ai_kind (associated_item tcx d) = AKType \<and> ai_trait_item_def_id (associated_item tcx d) \<noteq> None"
| "query_wf tcx QCustomClauses \<longleftrightarrow> True"
| "query_wf tcx (QLocalImplsToCoherenceCheck t) \<longleftrightarrow> False"
| "query_wf tcx (QOpaqueTyData d) \<longleftrightarrow> opaque_wf tcx d"
| "query_wf tcx (QWellKnownTraitId wk) \<longleftrightarrow> True"
| "query_wf tcx (QIsObjectSafe t) \<longleftrightarrow> True"
| "query_wf tcx (QHiddenOpaqueType d) \<longleftrightarrow> True"
| "query_wf tcx (QClosureKind c s) \<longleftrightarrow> closure_layout_ok s"
| "query_wf tcx (QClosureInputsAndOutput c s) \<longleftrightarrow> closure_layout_ok s"
| "query_wf tcx (QClosureUpvars c s) \<longleftrightarrow> closure_layout_ok s"
| "query_wf tcx (QClosureFnSubstitution c s) \<longleftrightarrow> closure_layout_ok s"
| "query_wf tcx (QGeneratorDatum g) \<longleftrightarrow> False"
| "query_wf tcx (QGeneratorWitnessDatum g) \<longleftrightarrow> False"
| "query_wf tcx (QDiscriminantType t) \<longleftrightarrow> False"
| "query_wf tcx (QFnDefVariance d) \<longleftrightarrow> Bivariant \<notin> set (variances_of tcx d)"
| "query_wf tcx (QAdtVariance a) \<longleftrightarrow> Bivariant \<notin> set (variances_of tcx (adt_did a))"

text \<open>What the solver may rely on in an answer: every term it is handed is
  well sorted under the binders the answer puts around it (the item's
  binder, and inside it a signature's or an existential binder).\<close>

fun answer_wf :: "db_answer \<Rightarrow> bool" where
  "answer_wf (AAssocTyDatum r) \<longleftrightarrow>
     (case at_binders r of Binders vks b \<Rightarrow>
        list_all (qwc_wf [vks]) (atb_bounds b) \<and> list_all (qwc_wf [vks]) (atb_where_clauses b))"
| "answer_wf (ATraitDatum r) \<longleftrightarrow> (case td_binders r of Binders vks wcs \<Rightarrow> list_all (qwc_wf [vks]) wcs)"
| "answer_wf (AAdtDatum r) \<longleftrightarrow>
     (case ad_binders r of Binders vks b \<Rightarrow>
        list_all (list_all (cty_wf [vks])) (adb_variants b) \<and> list_all (qwc_wf [vks]) (adb_where_clauses b))"
| "answer_wf (AFnDefDatum r) \<longleftrightarrow>
     (case fd_binders r of Binders vks b \<Rightarrow>
        (case fdb_inputs_and_output b of Binders ios io \<Rightarrow>
           list_all (cty_wf [ios, vks]) (argument_types io) \<and> cty_wf [ios, vks] (return_type io)) \<and>
        list_all (qwc_wf [vks]) (fdb_where_clauses b))"
| "answer_wf (AImplDatum r) \<longleftrightarrow>
     (case id_binders r of Binders vks b \<Rightarrow>
        list_all (cgarg_wf [vks]) (snd (idb_trait_ref b)) \<and> list_all (qwc_wf [vks]) (idb_where_clauses b))"
| "answer_wf (AAssocTyValue r) \<longleftrightarrow> (case av_value r of Binders vks t \<Rightarrow> cty_wf [vks] t)"
| "answer_wf (AOpaqueTyDatum r) \<longleftrightarrow>
     (case od_bound r of Binders vks b \<Rightarrow>
        (case otb_bounds b of Binders eks bs \<Rightarrow> list_all (qwc_wf [eks, vks]) bs) \<and>
        (case otb_where_clauses b of Binders eks ws \<Rightarrow> list_all (qwc_wf [eks, vks]) ws))"
| "answer_wf (ATy t) \<longleftrightarrow> cty_wf [] t"
| "answer_wf _ \<longleftrightarrow> True"

text \<open>The panics each query can raise.\<close>

fun query_panics :: "db_query \<Rightarrow> err list" where
  "query_panics (QAssociatedTyData d) = [EParamIndex, ESubstParam, ELowerParam, ENotPossible]"
| "query_panics (QTraitDatum d) = [EParamIndex, ESubstParam, ELowerParam]"
| "query_panics (QAdtDatum a) = [EParamIndex, ESubstParam, ELowerParam]"
| "query_panics (QAdtRepr a) = []"
| "query_panics (QAdtSizeAlign a) = []"
| "query_panics (QFnDefDatum d) = [EParamIndex, ESubstParam, ELowerParam, EIndex]"
| "query_panics (QImplDatum d) = [EParamIndex, ESubstParam, ELowerParam, EUnwrap]"
| "query_panics (QImplsForTrait t ps) = [EUnwrap, EParamIndex, ENotTy, ESubstParam, ELowerParam, EIndex]"
| "query_panics (QImplProvidedFor t ty) = [EUnwrap, ENotTy]"
| "query_panics (QAssociatedTyValue d) = [EParamIndex, ESubstParam, ELowerParam, ENotPossible, EUnwrap]"
| "query_panics QCustomClauses = []"
| "query_panics (QLocalImplsToCoherenceCheck t) = [EUnimplemented]"
| "query_panics (QOpaqueTyData d) = [EParamIndex, ESubstParam, ELowerParam]"
| "query_panics (QWellKnownTraitId wk) = []"
| "query_panics (QIsObjectSafe t) = []"
| "query_panics (QHiddenOpaqueType d) = []"
| "query_panics (QClosureKind c s) = [EIndex, ENotTy, EBadClosureKind]"
| "query_panics (QClosureInputsAndOutput c s) = [EIndex, ENotTy, EUnwrap, EInvalidSig, EUntupled]"
| "query_panics (QClosureUpvars c s) = [EIndex, ENotTy, EUnwrap, EInvalidSig, EUntupled]"
| "query_panics (QClosureFnSubstitution c s) = [EIndex]"
| "query_panics (QGeneratorDatum g) = [EUnimplemented]"
| "query_panics (QGeneratorWitnessDatum g) = [EUnimplemented]"
| "query_panics (QDiscriminantType t) = [EUnimplemented]"
| "query_panics (QFnDefVariance d) = [EUnimplemented]"
| "query_panics (QAdtVariance a) = [EUnimplemented]"


section \<open>Lemmas\<close>

text \<open>Each component answers on its well-formed host facts, with well-sorted
  data.\<close>

lemma trait_datum_answer:
  assumes "item_wf tcx d"
  shows "\<exists>r. trait_datum tcx d = Inr r \<and> answer_wf (ATraitDatum r)"
proof -
  note S = item_wf_setup[OF assms]
  show ?thesis
    unfolding trait_datum_def Let_def by (simp only: S bind_res_Inr) (use S in simp)
qed

lemma adt_datum_answer:
  assumes "adt_wf tcx adt"
  shows "\<exists>r. adt_datum tcx adt = Inr r \<and> answer_wf (AAdtDatum r)"
proof -
  let ?ps = "generics_of tcx (adt_did adt)"
  have i: "item_wf tcx (adt_did adt)" and c: "const_params_scalar ?ps"
    and f: "list_all (list_all (\<lambda>f. host_ty_wf ?ps [] (type_of tcx f))) (adt_variants adt)"
    using assms by (simp_all add: adt_wf_def item_wf_def)
  note S = item_wf_setup[OF i] and F = adt_fields_wf[OF c, of "type_of tcx" "adt_variants adt", OF f]
  show ?thesis
    unfolding adt_datum_def by (simp only: S F bind_res_Inr) (use S F in simp)
qed

lemma fn_def_datum_answer:
  assumes "fn_wf tcx d" "sig_inputs_and_output (fn_sig tcx d) \<noteq> []"
  shows "\<exists>r. fn_def_datum tcx d = Inr r \<and> answer_wf (AFnDefDatum r)"
proof -
  have i: "item_wf tcx d" and c: "const_params_scalar (generics_of tcx d)"
    and w: "list_all (host_ty_wf (generics_of tcx d) [sig_bound_vars (fn_sig tcx d)])
              (sig_inputs_and_output (fn_sig tcx d))"
    using assms(1) by (simp_all add: fn_wf_def item_wf_def)
  note S = item_wf_setup[OF i] and F = fn_sig_inst[OF c w assms(2)]
  show ?thesis
    unfolding fn_def_datum_def Let_def
    by (simp only: S F bind_res_Inr) (use S F assms(2) in \<open>auto simp: list_all_iff dest: in_set_butlastD\<close>)
qed

lemma impl_datum_answer:
  assumes "impl_wf tcx d"
  shows "\<exists>r. impl_datum tcx d = Inr r \<and> answer_wf (AImplDatum r)"
proof -
  have i: "item_wf tcx d" and c: "const_params_scalar (generics_of tcx d)"
    using assms by (simp_all add: impl_wf_def item_wf_def)
  from assms obtain tr gs where tr: "impl_trait_ref tcx d = Some (tr, gs)"
    and g: "list_all (host_garg_wf (generics_of tcx d) []) gs"
    by (auto simp: impl_wf_def split: option.splits)
  note S = item_wf_setup[OF i] and G = inst_gargs[OF c g]
  show ?thesis
    unfolding impl_datum_def using tr S G by simp
qed

lemma associated_ty_data_answer:
  assumes "assoc_ty_wf tcx d" "trait_container (ai_container (associated_item tcx d)) \<noteq> None"
    and "ai_kind (associated_item tcx d) = AKType"
  shows "\<exists>r. associated_ty_data tcx d = Inr r \<and> answer_wf (AAssocTyDatum r)"
proof -
  have i: "item_wf tcx d" and c: "const_params_scalar (generics_of tcx d)"
    and b: "list_all (host_pred_wf (generics_of tcx d)) (explicit_item_bounds tcx d)"
    using assms(1) by (simp_all add: assoc_ty_wf_def item_wf_def)
  note S = item_wf_setup[OF i] and B = lower_clauses_wf[OF c b]
  show ?thesis
    unfolding associated_ty_data_def Let_def bounds_for_def
    using assms(2,3) S B by (auto split: option.splits)
qed

lemma associated_ty_value_answer:
  assumes "dense_generics (generics_of tcx d)" "const_params_scalar (generics_of tcx d)"
    and "host_ty_wf (generics_of tcx d) [] (type_of tcx d)"
    and "ai_kind (associated_item tcx d) = AKType" "ai_trait_item_def_id (associated_item tcx d) \<noteq> None"
  shows "\<exists>r. associated_ty_value tcx d = Inr r \<and> answer_wf (AAssocTyValue r)"
  using assms subst_lower_ty_wf[OF assms(2,3)]
  by (auto simp: associated_ty_value_def Let_def bound_vars_for_item_eq binders_for_map2)

lemma opaque_ty_data_answer:
  assumes "opaque_wf tcx d"
  shows "\<exists>r. opaque_ty_data tcx d = Inr r \<and> answer_wf (AOpaqueTyDatum r)"
  using opaque_ty_data_shape[OF assms] by auto

lemma impl_lowered_self_ty_ok:
  assumes "impl_wf tcx i" "\<exists>s. impl_self_ty tcx i = Inr s"
  shows "\<exists>s. impl_lowered_self_ty tcx i = Inr s"
proof -
  let ?ps = "generics_of tcx i"
  have it: "item_wf tcx i" and c: "const_params_scalar ?ps"
    using assms(1) by (simp_all add: impl_wf_def item_wf_def)
  from assms(1) obtain tr gs where tr: "impl_trait_ref tcx i = Some (tr, gs)"
    and g: "list_all (host_garg_wf ?ps []) gs"
    by (auto simp: impl_wf_def split: option.splits)
  from assms(2) tr obtain t rest where gs: "gs = GTy t # rest"
    by (auto simp: impl_self_ty_def trait_ref_self_ty_def split: list.splits garg.splits)
  have "host_ty_wf ?ps [] t" using g gs by simp
  note L = subst_lower_ty_wf[OF c this]
  show ?thesis
    unfolding impl_lowered_self_ty_def
    using tr gs item_wf_setup[OF it] L by (simp add: trait_ref_self_ty_def subst_lower_ty_def)
qed

lemma impls_for_trait_answer:
  assumes "list_all (impl_wf tcx) (all_impls tcx t)" "impls_have_self_ty tcx t"
    and "all_impls tcx t = [] \<or> (case ps of CGTy _ # _ \<Rightarrow> True | _ \<Rightarrow> False)"
  shows "\<exists>r. impls_for_trait tcx t ps = Inr r"
proof (cases "all_impls tcx t")
  case Nil
  then show ?thesis by (simp add: impls_for_trait_def)
next
  case (Cons i impls)
  with assms(3) obtain q rest where ps: "ps = CGTy q # rest"
    by (auto split: list.splits cgarg.splits)
  have "\<forall>x\<in>set (all_impls tcx t). \<exists>b. impl_could_match tcx ps x = Inr b"
    using assms(1,2) impl_lowered_self_ty_ok
    by (fastforce simp: ps impl_could_match_query impls_have_self_ty_ex list_all_iff)
  then show ?thesis by (simp add: impls_for_trait_def filter_res_Inr)
qed

lemma variance_answer:
  "Bivariant \<notin> set vs \<Longrightarrow> \<exists>r. map_res lower_variance vs = Inr r"
  by (cases "map_res lower_variance vs") (simp_all add: map_lower_variance_Inl)

lemma run_query_answer:
  assumes "query_wf tcx q"
  shows "\<exists>a. run_query tcx q = Inr a \<and> answer_wf a"
  using assms
proof (cases q)
  case (QImplsForTrait t ps)
  then show ?thesis using assms impls_for_trait_answer by fastforce
next
  case (QImplProvidedFor t ty)
  then show ?thesis
    using assms by (simp add: impl_provided_for_def impls_have_self_ty_ex provided_by_any_iff)
next
  case (QClosureKind c s)
  then show ?thesis using assms closure_layout_decodes by fastforce
next
  case (QClosureInputsAndOutput c s)
  then show ?thesis using assms closure_layout_decodes by fastforce
next
  case (QClosureUpvars c s)
  then show ?thesis using assms closure_layout_decodes by fastforce
next
  case (QClosureFnSubstitution c s)
  then show ?thesis using assms closure_layout_decodes by fastforce
next
  case (QFnDefVariance d)
  then show ?thesis using assms variance_answer by (fastforce simp: fn_def_variance_def)
next
  case (QAdtVariance a)
  then show ?thesis using assms variance_answer by (fastforce simp: adt_variance_def)
qed (use trait_datum_answer adt_datum_answer fn_def_datum_answer impl_datum_answer
         associated_ty_data_answer associated_ty_value_answer opaque_ty_data_answer
      in \<open>fastforce simp: hidden_opaque_type_def\<close>)+


section \<open>Properties\<close>

text \<open>
  C30.  Progress of the database: every query whose host facts are well
  formed (\<open>query_wf\<close>: the components' well-formedness, the item of the
  kind asked about, rustc's closure layout, no bivariant parameter) is
  answered without a panic.
\<close>

theorem run_query_progress:
  assumes "query_wf tcx q"
  shows "\<exists>a. run_query tcx q = Inr a"
  using run_query_answer[OF assms] by blast

theorem run_query_progress_witness:
  "query_wf match_tcx (QImplsForTrait 60 [CGTy (CScalar (SUint CU32))]) \<and>
   (\<exists>a. run_query match_tcx (QImplsForTrait 60 [CGTy (CScalar (SUint CU32))]) = Inr a)"
proof -
  have p: "predicates_defined_on empty_tcx d = []" for d by (simp add: empty_tcx_def)
  have w: "query_wf match_tcx (QImplsForTrait 60 [CGTy (CScalar (SUint CU32))])"
    by (simp add: p match_tcx_def impl_wf_def item_wf_def dense_generics_def const_params_scalar_def
                  impls_have_self_ty_def impl_self_ty_def trait_ref_self_ty_def)
  show ?thesis using w run_query_progress[OF w] by blast
qed

text \<open>
  C31.  Well-sortedness of answers: whatever a query on well-formed host
  facts answers is well sorted (\<open>answer_wf\<close>): every solver term of a datum
  mentions only bound variables of the binders around it, with their kinds.
\<close>

theorem run_query_well_sorted:
  assumes "query_wf tcx q" "run_query tcx q = Inr a"
  shows "answer_wf a"
  using run_query_answer[OF assms(1)] assms(2) by auto

theorem run_query_well_sorted_witness:
  "query_wf trait_tcx (QAssociatedTyValue 30) \<and>
   run_query trait_tcx (QAssociatedTyValue 30) =
     Inr (AAssocTyValue \<lparr>av_impl_id = 7, av_associated_ty_id = 20,
                          av_value = Binders [VKTy] (CSlice (CBoundVar 0 0))\<rparr>) \<and>
   answer_wf (AAssocTyValue \<lparr>av_impl_id = 7, av_associated_ty_id = 20,
                              av_value = Binders [VKTy] (CSlice (CBoundVar 0 0))\<rparr>)"
proof -
  have w: "query_wf trait_tcx (QAssociatedTyValue 30)"
    by (simp add: trait_tcx_def dense_generics_def const_params_scalar_def)
  have r: "run_query trait_tcx (QAssociatedTyValue 30) =
     Inr (AAssocTyValue \<lparr>av_impl_id = 7, av_associated_ty_id = 20,
                          av_value = Binders [VKTy] (CSlice (CBoundVar 0 0))\<rparr>)"
    by (simp add: associated_ty_value_def trait_tcx_def bound_vars_for_item_def for_item_def
                  mk_bound_var_def binders_for_def subst_lower_ty_def subst_ty_res_def lower_ty_res_def)
  show ?thesis using w r run_query_well_sorted[OF w r] by blast
qed

text \<open>
  C32.  The panics of each query: a query can only panic with one of the
  errors \<open>query_panics\<close> lists for it; in particular the ADT, trait and
  opaque datums never hit an \<open>unwrap\<close> or an index error, and the
  representation, layout, well-known-trait, object-safety, hidden-type and
  custom-clause queries never panic.
\<close>

theorem run_query_panics:
  assumes "run_query tcx q = Inl e"
  shows "e \<in> set (query_panics q)"
  using assms
  by (cases q) (auto simp: bind_res_eq_Inl local_impls_to_coherence_check_def generator_datum_def
                           generator_witness_datum_def discriminant_type_def dest: panics)

theorem run_query_panics_witness:
  "run_query empty_tcx (QClosureKind 0 []) = Inl EIndex \<and> EIndex \<in> set (query_panics (QClosureKind 0 []))"
  using run_query_panics[of empty_tcx "QClosureKind 0 []" EIndex]
  by (simp add: closure_kind_def res_simps)

end
