(* ===== verification/Spec2Isabelle.thy ===== *)
theory Spec2Isabelle
  imports Queries
begin

text \<open>
  \<^bold>\<open>A verification library for the chalk bridge of rustc.\<close>
  The program is \<open>src/compiler/rustc_traits/src/chalk/db.rs\<close>, the
  \<open>RustIrDatabase\<close> through which the chalk trait solver asks rustc about
  traits, ADTs, functions, impls, associated types, opaque types and
  closures.  Every query is a pure function of the immutable host context
  \<open>tcx\<close>; rustc's \<open>bug!\<close>, \<open>unwrap\<close>, \<open>expect\<close>, index and
  assertion panics are values \<open>Inl e\<close> of the result type \<open>'a res\<close>.

  \<^bold>\<open>Theories, in import order.\<close>
  \<^item> \<open>Prelude\<close>: the result type \<open>res\<close> with \<open>bind_res\<close>, \<open>map_res\<close>
    (the first panic of an iterator \<open>collect\<close> wins), \<open>expect_res\<close>,
    \<open>nth_res\<close> (slice indexing), \<open>usize_sub\<close> (subtraction that panics on
    underflow), \<open>filter_res\<close>, the collection \<open>panics\<close> (one lemma per
    operation bounding the panics it can raise, from which those of a
    composite operation follow by \<open>auto dest: panics\<close>), and list lemmas
    shared by the components.
  \<^item> \<open>Rust_Ty\<close>: rustc's types, generic arguments, constants and
    predicates with de Bruijn bound variables; \<open>shift_ty\<close> (the
    \<open>Shifter\<close>) and \<open>subst_ty\<close> (\<open>SubstFolder\<close>, which shifts a
    replacement over the binders it passes and panics on a parameter outside
    the substitution).  These are outside \<open>src/\<close> and modelled from the
    specification.
  \<^item> \<open>Host_Ctx\<close>: the record \<open>tcx\<close>, one field per rustc query the
    bridge calls (\<open>generics_of\<close>, \<open>predicates_defined_on\<close>,
    \<open>associated_items\<close>, \<open>impl_trait_ref\<close>, \<open>all_impls\<close>, \<open>fn_sig\<close>,
    \<open>layout_of\<close>, \<open>lang_items\<close>, ...).
  \<^item> \<open>Chalk_IR\<close>: the solver's terms, binders and where-clauses; the
    lowering \<open>lower_ty\<close> (\<open>LowerInto\<close>, modelled from the specification;
    a leftover parameter panics) and \<open>lower_pred_res\<close>, which drops the
    predicates chalk cannot express; well-sortedness \<open>cty_wf E\<close> of a term
    under a stack \<open>E\<close> of binders.
  \<^item> \<open>Binders\<close> (lines 711--760): \<open>bound_vars_for_item\<close> through
    \<open>InternalSubsts::for_item\<close> with its index assertion, and
    \<open>binders_for\<close>.  \<open>for_item\<close> works on the flattened generics
    \<open>generics_of\<close> (parent parameters first), as rustc's \<open>fill_item\<close>
    produces them; \<open>bound_var_of_kind\<close> is the solver variable a slot of
    each kind must lower to.
  \<^item> \<open>Instantiate\<close>: the instantiation lemma every datum builder uses: a
    host term well formed for an item's generics, substituted with the item's
    bound variables under any number of inner binders, lowers without a panic
    to a term well sorted under those binders and the item's binder; stated
    also for bound variables shifted over extra binders
    (\<open>shifted_bound_vars\<close>), as the opaque datum uses them.
  \<^item> \<open>Where_Clauses\<close> (lines 36--61): \<open>where_clauses_for\<close> and
    \<open>bounds_for\<close>, substitute-then-lower with lossy filtering.
  \<^item> \<open>Well_Known\<close> (lines 122--147, 552--574): the lang-item
    classification of \<open>trait_datum\<close> and its reverse
    \<open>well_known_trait_id\<close>.
  \<^item> \<open>Datums\<close> (lines 69--336, 450--480): \<open>trait_datum\<close>,
    \<open>adt_datum\<close>, \<open>adt_repr\<close>, \<open>adt_size_align\<close>, \<open>fn_def_datum\<close>,
    \<open>impl_datum\<close>, \<open>associated_ty_data\<close>, \<open>associated_ty_value\<close>, each
    composed as in the source from the binder builder, the where-clause
    lowering and its own host facts.
  \<^item> \<open>Closures\<close> (lines 591--659): \<open>closure_kind\<close>,
    \<open>closure_inputs_and_output\<close>, \<open>closure_upvars\<close> and
    \<open>closure_fn_substitution\<close> over a closure's solver substitution, and
    \<open>closure_substs\<close>, the layout rustc builds (parent arguments, kind
    marker, signature, upvars), as the encoder they invert;
    \<open>closure_layout_ok\<close>, the decidable shape the decoders accept.
  \<^item> \<open>Impl_Match\<close> (lines 338--369, 687--708): \<open>impls_for_trait\<close>
    with chalk's \<open>CouldMatch\<close> (\<open>could_match\<close>, modelled from the
    specification) and \<open>inst\<close>, the instantiation of a solver type's
    variables against which soundness is stated; the variance queries.
  \<^item> \<open>Auto_Trait\<close> (lines 371--448): \<open>impl_provided_for\<close>, its scan of
    \<open>all_impls\<close> and the full match table \<open>provides\<close>.
  \<^item> \<open>Opaque\<close> (lines 493--543, 580--589, 761--795):
    \<open>opaque_ty_data\<close>, its bound pipeline \<open>opaque_bounds\<close> and the
    folder \<open>ReplaceOpaqueTyFolder\<close> (\<open>replace_opaque_pred\<close> and the
    non-recursive \<open>replace_opaque_ty\<close>); \<open>hidden_opaque_type\<close>.  The
    folder's mutable state is the record \<open>opaque_folder\<close>, threaded through
    \<open>fold_binder\<close>, whose \<open>shift_in\<close>/\<open>shift_out\<close> balance, so the
    stateful folder computes the functional \<open>replace_opaque_pred\<close>
    (\<open>fold_binder_eq\<close>, \<open>opaque_bounds_folder\<close>).
  \<^item> \<open>Queries\<close> (lines 29--33, 64--67, 482--491, 545--550, 576--578,
    661--684):
    the database as one interface: \<open>db_query\<close> has one constructor per
    method of the two trait impls, \<open>db_answer\<close> one per result type, and
    \<open>run_query\<close> dispatches each query to its component as the methods
    do; with the methods that do no work of their own (\<open>custom_clauses\<close>,
    \<open>program_clauses_for_env\<close>, whose clause generator belongs to the
    solver and is a parameter, \<open>is_object_safe\<close>, the \<open>unimplemented!()\<close> stubs, \<open>Debug\<close>).  The
    interface's contract is \<open>query_wf\<close> (when a query must answer) and
    \<open>answer_wf\<close> (what an answer guarantees).

  \<^bold>\<open>What the lemmas show.\<close>  Binder consistency (C1, C2): the builder
  succeeds exactly on densely numbered generics, slot \<open>i\<close> lowers to the
  solver's bound variable \<open>i\<close> of the parameter's kind (lifetimes numbered
  by position among all parameters, which the specification describes
  differently), and the kind list agrees slot by slot.  The well-known
  classifier round-trips on the eleven roles the forward chain tests (C3, C4).
  Each datum builder succeeds on well-formed host facts and returns closed,
  well-sorted data of the expected shape, and each documented panic is
  exactly its branch (C5--C12).  The auto-trait oracle answers whether some
  impl provides the query, panics only at an impl reached before any
  providing one, never provides an associated type, and its table agrees with
  lowering (C13--C16).  The closure decoder inverts rustc's layout, and each
  of its panics is characterised, including the signature arity it does not
  check (C17--C21).  For a non-generic opaque type the datum's bounds are the
  explicit bounds folded by the non-recursive \<open>replace_opaque_ty\<close> and
  lowered (C22), but for a generic one the fold never fires (C23); the datum
  is closed and well sorted either way (C28).  The impl shape matcher is
  sound for unification and is an order-preserving filter, and a query
  without parameters panics only when the trait has an impl; variance lookup
  panics exactly on a bivariant parameter (C24--C26, C29).  Where-clause
  lowering keeps declaration order and drops exactly the predicates without a
  solver form (C27).  Across the components: every query on well-formed host
  facts answers (C30) with well-sorted data (C31), and each query panics only
  with the errors \<open>query_panics\<close> lists (C32).  The closure decoders all
  succeed exactly on rustc's layout (C33), read only the last three slots, and
  their index arithmetic underflows exactly on substitutions shorter than
  three or two entries (C34).

  \<^bold>\<open>Assumptions of the model.\<close>  Host well-formedness (\<open>item_wf\<close> and
  its variants) is the hypothesis rustc guarantees for a type-checked crate:
  densely numbered generics, terms mentioning only the item's parameters,
  and scalar types for const parameters.  No loop of \<open>db.rs\<close> is unbounded
  (each iterates over a finite list of the host context), so every operation
  is a total function and no fuel is needed.

  \<^bold>\<open>Not modelled.\<close>  rustc's recursion \<open>fill_item\<close> along
  \<open>Generics::parent\<close>, outside \<open>src/\<close>: the host context gives the
  flattened parameter list it produces.  Host types \<open>Dynamic\<close>, \<open>Generator\<close>,
  \<open>Placeholder\<close> and \<open>Infer\<close>: their lowering is outside \<open>src/\<close> and
  the specification does not describe it (generators are out of its scope),
  and the only table of \<open>db.rs\<close> that sees them, \<open>impl_provided_for\<close>,
  sends them to its catch-all arm; the ABI of a function signature beyond
  an opaque tag; layout beyond size and alignment; the solver's unifier, of
  which only the pre-filter \<open>CouldMatch\<close> is modelled, and its clause
  generator, to which \<open>program_clauses_for_env\<close> delegates (a parameter of
  the model); \<open>interner\<close> and \<open>unification_database\<close>,
  which return the database itself; the contents of the generator datums
  and of a program clause, which no modelled code builds (the generator
  queries are \<open>unimplemented!()\<close> and \<open>custom_clauses\<close> is empty).
\<close>

end
